(* ===== verification/Prelude.thy ===== *)
theory Prelude
  imports Complex_Main "HOL-Library.AList" "HOL-Library.Sublist"
begin

text \<open>
  Shared vocabulary of the development: the result type of code that may raise,
  its bind and its \<open>try\<close>/\<open>except\<close>, the element-wise map of a fallible
  function over a list (the reference semantics of the source's \<open>for\<close> loops),
  and the generic lemmas on lists and association lists that the component
  theories use.  Nothing here is specific to the library-catalog program.
\<close>

named_theorems result_simps "evaluation rules of fallible computations"

section \<open>Fallible computations\<close>

text \<open>
  A computation that may raise returns \<open>Inl e\<close> with the exception \<open>e\<close>, or
  \<open>Inr v\<close> with its value.  \<open>sbind\<close> runs the second computation only when the
  first returned, as Python's sequencing of statements does.
\<close>

definition sbind :: "'e + 'a \<Rightarrow> ('a \<Rightarrow> 'e + 'b) \<Rightarrow> 'e + 'b" where
  "sbind m f = (case m of Inl e \<Rightarrow> Inl e | Inr a \<Rightarrow> f a)"

text \<open>
  \<open>try: body except es: handler\<close>: an exception of \<open>body\<close> listed in \<open>es\<close>
  runs the handler, any other one propagates.
\<close>

definition try_except :: "'e list \<Rightarrow> 'e + 'a \<Rightarrow> 'e + 'a \<Rightarrow> 'e + 'a" where
  "try_except es body handler =
     (case body of Inl e \<Rightarrow> if e \<in> set es then handler else Inl e | Inr a \<Rightarrow> Inr a)"

text \<open>The element-wise map of a fallible function, stopping at the first error.\<close>

fun smap :: "('a \<Rightarrow> 'e + 'b) \<Rightarrow> 'a list \<Rightarrow> 'e + 'b list" where
  "smap f [] = Inr []"
| "smap f (x # xs) = sbind (f x) (\<lambda>y. sbind (smap f xs) (\<lambda>ys. Inr (y # ys)))"

text \<open>The loop \<open>for x in xs: out.append(f(x))\<close> over an accumulator.\<close>

fun for_append :: "('a \<Rightarrow> 'e + 'b) \<Rightarrow> 'b list \<Rightarrow> 'a list \<Rightarrow> 'e + 'b list" where
  "for_append f out [] = Inr out"
| "for_append f out (x # xs) = sbind (f x) (\<lambda>y. for_append f (out @ [y]) xs)"

section \<open>Fallible computations on a state\<close>

text \<open>
  Code that changes a state (the database, the random generator) and may raise
  part-way is a function from the state to the outcome and the state reached:
  an exception leaves the changes made before it in place, as the script's
  store writes, committed one by one, stay in place.
\<close>

definition ereturn :: "'a \<Rightarrow> 's \<Rightarrow> ('e + 'a) \<times> 's" where
  "ereturn a s = (Inr a, s)"

definition elift :: "'e + 'a \<Rightarrow> 's \<Rightarrow> ('e + 'a) \<times> 's" where
  "elift m s = (m, s)"

definition ebind :: "('s \<Rightarrow> ('e + 'a) \<times> 's) \<Rightarrow> ('a \<Rightarrow> 's \<Rightarrow> ('e + 'b) \<times> 's) \<Rightarrow> 's \<Rightarrow> ('e + 'b) \<times> 's" where
  "ebind m f s = (case m s of (Inl e, s') \<Rightarrow> (Inl e, s') | (Inr a, s') \<Rightarrow> f a s')"

text \<open>A \<open>for\<close> loop over a list whose body changes the state, collecting results.\<close>

fun emap :: "('a \<Rightarrow> 's \<Rightarrow> ('e + 'b) \<times> 's) \<Rightarrow> 'a list \<Rightarrow> 's \<Rightarrow> ('e + 'b list) \<times> 's" where
  "emap f [] s = (Inr [], s)"
| "emap f (x # xs) s = ebind (f x) (\<lambda>y. ebind (emap f xs) (\<lambda>ys. ereturn (y # ys))) s"

section \<open>Optional values\<close>

text \<open>A property of an optional value that an absent value satisfies (executable,
  unlike \<^const>\<open>pred_option\<close>).\<close>

definition opt_all :: "('a \<Rightarrow> bool) \<Rightarrow> 'a option \<Rightarrow> bool" where
  "opt_all P x = (case x of None \<Rightarrow> True | Some v \<Rightarrow> P v)"

section \<open>Lemmas on fallible computations\<close>

lemma sbind_Inl [simp, result_simps]: "sbind (Inl e) f = Inl e"
  by (simp add: sbind_def)

lemma sbind_Inr [simp, result_simps]: "sbind (Inr a) f = f a"
  by (simp add: sbind_def)

lemma sbind_eq_Inr [result_simps]:
  "sbind m f = Inr b \<longleftrightarrow> (\<exists>a. m = Inr a \<and> f a = Inr b)"
  by (cases m) auto

lemma sbind_eq_Inl [result_simps]:
  "sbind m f = Inl e \<longleftrightarrow> m = Inl e \<or> (\<exists>a. m = Inr a \<and> f a = Inl e)"
  by (cases m) auto

lemma sbind_assoc [result_simps]: "sbind (sbind m f) g = sbind m (\<lambda>x. sbind (f x) g)"
  by (cases m) auto

lemma sbind_Inr_right [simp]: "sbind m Inr = m"
  by (cases m) auto

lemma try_except_Inr [simp, result_simps]: "try_except es (Inr a) h = Inr a"
  by (simp add: try_except_def)

lemma try_except_Inl [simp, result_simps]:
  "try_except es (Inl e) h = (if e \<in> set es then h else Inl e)"
  by (simp add: try_except_def)

lemma smap_Inr_length:
  "smap f xs = Inr ys \<Longrightarrow> length ys = length xs"
  by (induction xs arbitrary: ys) (auto simp: sbind_eq_Inr)

lemma smap_Inr_nth:
  "smap f xs = Inr ys \<Longrightarrow> i < length xs \<Longrightarrow> f (xs ! i) = Inr (ys ! i)"
proof (induction xs arbitrary: ys i)
  case Nil
  then show ?case by simp
next
  case (Cons x xs)
  then obtain y ys' where "f x = Inr y" "smap f xs = Inr ys'" "ys = y # ys'"
    by (auto simp: sbind_eq_Inr)
  with Cons show ?case by (cases i) auto
qed

lemma smap_Inr_iff:
  "smap f xs = Inr ys \<longleftrightarrow> length ys = length xs \<and> (\<forall>i < length xs. f (xs ! i) = Inr (ys ! i))"
proof
  assume "smap f xs = Inr ys"
  then show "length ys = length xs \<and> (\<forall>i < length xs. f (xs ! i) = Inr (ys ! i))"
    using smap_Inr_length smap_Inr_nth by blast
next
  assume "length ys = length xs \<and> (\<forall>i < length xs. f (xs ! i) = Inr (ys ! i))"
  then show "smap f xs = Inr ys"
  proof (induction xs arbitrary: ys)
    case Nil
    then show ?case by simp
  next
    case (Cons x xs)
    then obtain y ys' where ys: "ys = y # ys'" by (cases ys) auto
    with Cons.prems have "f x = Inr y" by force
    moreover from Cons.prems ys have "smap f xs = Inr ys'"
      by (intro Cons.IH) auto
    ultimately show ?case by (simp add: ys)
  qed
qed

lemma smap_all_Inr:
  "(\<And>x. x \<in> set xs \<Longrightarrow> \<exists>y. f x = Inr y) \<Longrightarrow> \<exists>ys. smap f xs = Inr ys"
  by (induction xs) fastforce+

lemma smap_all_Inr_pred:
  "(\<And>x. x \<in> set xs \<Longrightarrow> \<exists>y. f x = Inr y \<and> P y) \<Longrightarrow> \<exists>ys. smap f xs = Inr ys \<and> list_all P ys"
  by (induction xs) fastforce+

lemma smap_map_Inr [simp]: "smap (\<lambda>x. Inr (g x)) xs = Inr (map g xs)"
  by (induction xs) auto

text \<open>The appending loop is the element-wise map, stopping at the first error.\<close>

lemma for_append_smap: "for_append f out xs = sbind (smap f xs) (\<lambda>ys. Inr (out @ ys))"
proof (induction xs arbitrary: out)
  case Nil
  then show ?case by simp
next
  case (Cons x xs)
  show ?case by (cases "f x"; cases "smap f xs") (simp_all add: Cons.IH)
qed

text \<open>Two passes over a list succeed exactly when the fused pass does.\<close>

lemma smap_fuse:
  "smap (\<lambda>x. sbind (f x) g) xs = Inr zs \<longleftrightarrow> (\<exists>ys. smap f xs = Inr ys \<and> smap g ys = Inr zs)"
proof (induction xs arbitrary: zs)
  case Nil
  then show ?case by auto
next
  case (Cons x xs)
  show ?case
    by (auto simp: sbind_eq_Inr Cons.IH)
qed

text \<open>A function that keeps an attribute \<open>g\<close> of its argument keeps it pointwise.\<close>

lemma smap_keeps:
  assumes "\<And>x y. f x = Inr y \<Longrightarrow> g y = g x" and "smap f xs = Inr ys"
  shows "map g ys = map g xs"
  using assms(2)
proof (induction xs arbitrary: ys)
  case Nil
  then show ?case by simp
next
  case (Cons x xs)
  then show ?case by (auto simp: sbind_eq_Inr dest: assms(1))
qed

text \<open>A property carried by each step is carried by the whole pass.\<close>

lemma smap_preserves:
  assumes "\<And>x y. f x = Inr y \<Longrightarrow> P x \<Longrightarrow> Q y"
    and "smap f xs = Inr ys" and "\<forall>x \<in> set xs. P x"
  shows "\<forall>y \<in> set ys. Q y"
  using assms(2,3)
proof (induction xs arbitrary: ys)
  case Nil
  then show ?case by simp
next
  case (Cons x xs)
  then show ?case by (auto simp: sbind_eq_Inr dest: assms(1))
qed

text \<open>The entry of a key after a key-preserving pass over an association list.\<close>

lemma map_of_smap:
  assumes keep: "\<And>x y. f x = Inr y \<Longrightarrow> fst y = fst x"
    and run: "smap f kvs = Inr kvs'" and at: "map_of kvs k = Some v"
  shows "\<exists>v'. f (k, v) = Inr (k, v') \<and> map_of kvs' k = Some v'"
  using run at
proof (induction kvs arbitrary: kvs')
  case Nil
  then show ?case by simp
next
  case (Cons kv kvs)
  then obtain y ys where fy: "f kv = Inr y" and rest: "smap f kvs = Inr ys" and kvs': "kvs' = y # ys"
    by (auto simp: sbind_eq_Inr)
  show ?case
  proof (cases "fst kv = k")
    case True
    with Cons.prems have "kv = (k, v)" by (cases kv) simp
    moreover from fy keep have "fst y = fst kv" by blast
    ultimately show ?thesis using fy kvs' by (cases y) auto
  next
    case False
    with Cons.prems rest have "\<exists>v'. f (k, v) = Inr (k, v') \<and> map_of ys k = Some v'"
      by (intro Cons.IH) (auto split: if_splits)
    moreover from fy keep False have "fst y \<noteq> k" by fastforce
    ultimately show ?thesis using kvs' by (cases y) auto
  qed
qed

section \<open>Lemmas on computations on a state\<close>

lemma ereturn_simp [simp, result_simps]: "ereturn a s = (Inr a, s)"
  by (simp add: ereturn_def)

lemma elift_simp [simp, result_simps]: "elift m s = (m, s)"
  by (simp add: elift_def)

lemma ebind_Inl [result_simps]: "m s = (Inl e, s') \<Longrightarrow> ebind m f s = (Inl e, s')"
  by (simp add: ebind_def)

lemma ebind_Inr [result_simps]: "m s = (Inr a, s') \<Longrightarrow> ebind m f s = f a s'"
  by (simp add: ebind_def)

lemma ebind_eq_Inr:
  "ebind m f s = (Inr b, t) \<longleftrightarrow> (\<exists>a s'. m s = (Inr a, s') \<and> f a s' = (Inr b, t))"
  by (auto simp: ebind_def split: prod.splits sum.splits)

lemma ebind_eq_Inl:
  "ebind m f s = (Inl e, t) \<longleftrightarrow>
     m s = (Inl e, t) \<or> (\<exists>a s'. m s = (Inr a, s') \<and> f a s' = (Inl e, t))"
  by (auto simp: ebind_def split: prod.splits sum.splits)

lemma emap_Inr_length:
  "emap f xs s = (Inr ys, t) \<Longrightarrow> length ys = length xs"
  by (induction xs arbitrary: s ys) (auto simp: ebind_eq_Inr)

text \<open>A property of the state that every step keeps, on success and on failure,
  holds after the loop.\<close>

lemma emap_invariant:
  assumes step: "\<And>x s r t. x \<in> set xs \<Longrightarrow> f x s = (r, t) \<Longrightarrow> I s \<Longrightarrow> I t"
    and "emap f xs s = (r, t)" and "I s"
  shows "I t"
  using assms
proof (induction xs arbitrary: s r t)
  case Nil
  then show ?case by simp
next
  case (Cons x xs)
  show ?case
  proof (cases "f x s")
    case (Pair r1 s1)
    with Cons.prems(1,3) have I1: "I s1" by auto
    show ?thesis
    proof (cases r1)
      case (Inl e)
      with Pair Cons.prems(2) I1 show ?thesis by (simp add: ebind_def)
    next
      case (Inr y)
      obtain r2 s2 where rest: "emap f xs s1 = (r2, s2)" by fastforce
      from Cons.IH [OF _ rest I1] Cons.prems(1) have "I s2" by auto
      with Pair Inr rest Cons.prems(2) show ?thesis
        by (cases r2) (auto simp: ebind_def)
    qed
  qed
qed

text \<open>A loop whose body always returns, with a result satisfying \<open>P\<close>, returns
  one such result per element.\<close>

lemma emap_total_inv:
  assumes step: "\<And>x s. x \<in> set xs \<Longrightarrow> I s \<Longrightarrow> \<exists>y t. f x s = (Inr y, t) \<and> P x y \<and> I t"
    and "I s"
  shows "\<exists>ys t. emap f xs s = (Inr ys, t) \<and> list_all2 P xs ys \<and> I t"
  using assms
proof (induction xs arbitrary: s)
  case Nil
  then show ?case by simp
next
  case (Cons x xs)
  from Cons.prems(1) [of x s] Cons.prems(2) obtain y s1 where x: "f x s = (Inr y, s1)"
    and "P x y" and "I s1" by auto
  moreover from Cons.IH [of s1] Cons.prems(1) \<open>I s1\<close> obtain ys t where "emap f xs s1 = (Inr ys, t)"
    and "list_all2 P xs ys" and "I t" by auto
  ultimately show ?case by (simp add: ebind_def)
qed

lemma emap_total:
  assumes "\<And>x s. x \<in> set xs \<Longrightarrow> \<exists>y t. f x s = (Inr y, t) \<and> P y"
  shows "\<exists>ys t. emap f xs s = (Inr ys, t) \<and> list_all P ys \<and> length ys = length xs"
  using assms
proof (induction xs arbitrary: s)
  case Nil
  then show ?case by simp
next
  case (Cons x xs)
  from Cons.prems [of x s] obtain y s1 where x: "f x s = (Inr y, s1)" and "P y" by auto
  moreover from Cons.IH [of s1] Cons.prems obtain ys t where "emap f xs s1 = (Inr ys, t)"
    and "list_all P ys" and "length ys = length xs" by auto
  ultimately show ?case by (simp add: ebind_def)
qed

text \<open>The two outcomes of a sequenced step.\<close>

lemma ebind_cases:
  assumes "ebind m f s = (r, t)"
  obtains (raised) e where "m s = (Inl e, t)" and "r = Inl e"
  | (returned) a s' where "m s = (Inr a, s')" and "f a s' = (r, t)"
  using assms by (cases "m s") (auto simp: ebind_def split: sum.splits)

text \<open>A property of the state and of the results collected so far (\<open>acc\<close>) that every
  successful step extends holds of the whole successful loop.\<close>

lemma emap_collect:
  assumes step: "\<And>x s y t acc. x \<in> set xs \<Longrightarrow> f x s = (Inr y, t) \<Longrightarrow> J acc s \<Longrightarrow> J (acc @ [y]) t"
    and "emap f xs s = (Inr ys, t)" and "J acc s"
  shows "J (acc @ ys) t"
  using assms
proof (induction xs arbitrary: s ys t acc)
  case Nil
  then show ?case by simp
next
  case (Cons x xs)
  from Cons.prems(2) obtain y s1 ys' where x: "f x s = (Inr y, s1)"
    and rest: "emap f xs s1 = (Inr ys', t)" and ys: "ys = y # ys'"
    by (auto simp: ebind_eq_Inr)
  from Cons.prems(1) [OF _ x Cons.prems(3)] have "J (acc @ [y]) s1" by simp
  have step': "\<And>x s y t acc. x \<in> set xs \<Longrightarrow> f x s = (Inr y, t) \<Longrightarrow> J acc s \<Longrightarrow> J (acc @ [y]) t"
    using Cons.prems(1) by (metis list.set_intros(2))
  from Cons.IH [OF step' rest \<open>J (acc @ [y]) s1\<close>] have "J ((acc @ [y]) @ ys') t" .
  with ys show ?case by simp
qed

section \<open>Lemmas on optional values\<close>

lemma opt_all_simps [simp]: "opt_all P None" "opt_all P (Some v) = P v"
  by (simp_all add: opt_all_def)

lemma opt_all_mono: "opt_all P x \<Longrightarrow> (\<And>v. P v \<Longrightarrow> Q v) \<Longrightarrow> opt_all Q x"
  by (cases x) auto

section \<open>Association lists as ordered dictionaries\<close>

text \<open>
  \<^const>\<open>AList.update\<close> replaces the value of a present key in place and appends
  a new key at the end: the insertion-ordered assignment of a Python dict.
\<close>

lemma update_keys_present:
  "k \<in> set (map fst al) \<Longrightarrow> map fst (AList.update k v al) = map fst al"
  by (induction al) auto

lemma update_keys_absent:
  "k \<notin> set (map fst al) \<Longrightarrow> map fst (AList.update k v al) = map fst al @ [k]"
  by (induction al) auto

lemma map_of_update_other [simp]:
  "k' \<noteq> k \<Longrightarrow> map_of (AList.update k v al) k' = map_of al k'"
  by (simp add: update_conv')

text \<open>A key of a dict is either absent, or present with its value.\<close>

lemma dict_key_cases:
  obtains (absent) "k \<notin> set (map fst kvs)" and "map_of kvs k = None"
    | (present) v where "k \<in> set (map fst kvs)" and "map_of kvs k = Some v"
proof (cases "map_of kvs k")
  case None
  then show ?thesis using that(1) by (simp add: map_of_eq_None_iff)
next
  case (Some v)
  then have "k \<in> set (map fst kvs)" using map_of_SomeD [OF Some] by force
  then show ?thesis using that(2) Some by blast
qed

lemma map_of_update_same [simp]:
  "map_of (AList.update k v al) k = Some v"
  by (simp add: update_conv')

lemma list_all2_in_set2: "list_all2 P xs ys \<Longrightarrow> y \<in> set ys \<Longrightarrow> \<exists>x \<in> set xs. P x y"
  by (induction rule: list_all2_induct) auto

lemma list_all2_map_eq: "list_all2 (\<lambda>x y. g y = f x) xs ys \<Longrightarrow> map g ys = map f xs"
  by (induction rule: list_all2_induct) simp_all

lemma smap_Inr_set: "smap f xs = Inr ys \<Longrightarrow> y \<in> set ys \<Longrightarrow> \<exists>x \<in> set xs. f x = Inr y"
  by (induction xs arbitrary: ys) (auto simp: sbind_eq_Inr)

lemma smap_Inr_list_all2: "smap f xs = Inr ys \<Longrightarrow> list_all2 (\<lambda>x y. f x = Inr y) xs ys"
  by (simp add: smap_Inr_iff list_all2_conv_all_nth)

lemma list_all2_mono_set:
  "list_all2 P xs ys \<Longrightarrow> (\<And>x y. x \<in> set xs \<Longrightarrow> P x y \<Longrightarrow> Q x y) \<Longrightarrow> list_all2 Q xs ys"
  by (induction rule: list_all2_induct) auto

end
