(* ===== verification/PyValue.thy ===== *)
theory PyValue
  imports Prelude
begin

text \<open>
  The Python values and operations the script \<open>src/data_import_export.py\<close>
  applies to its data: the record mappings it builds and cleans are \<open>dict\<close>s
  with string keys, their fields are strings, numbers, dates and model
  instances.  This theory gives those values as a datatype, the exceptions the
  script can meet as a datatype, and the built-in operations it uses
  (\<open>in\<close>, subscription, item assignment, iteration,
  \<open>''.join(filter(str.isdigit, v))\<close>) as fallible functions that raise exactly
  where CPython raises.
\<close>

section \<open>Values\<close>

text \<open>
  A \<open>float\<close> is its exact decimal value, or one of the three special values.
  (The rounding of a decimal literal to a binary double and the sign of zero are
  not modelled: no property of the script depends on them.)
\<close>

datatype pyfloat = Fin rat | PosInf | NegInf | NaN

text \<open>A \<open>datetime.date\<close>: year, month, day.\<close>

datatype pydate = Date int nat nat

text \<open>
  Dicts keep insertion order, as CPython's do, and the script's dicts have string
  keys only, so a dict is an association list from strings.  \<open>PyInst c k\<close> is
  an instance of the Django model class \<open>c\<close> whose primary key is \<open>k\<close>.
  Values are trees: shared or cyclic containers are outside the model.
\<close>

datatype pyval =
    PyNone
  | PyBool bool
  | PyInt int
  | PyFloat pyfloat
  | PyStr string
  | PyDate pydate
  | PyList "pyval list"
  | PyDict "(string \<times> pyval) list"
  | PyInst string nat

text \<open>
  The exceptions the script can raise.  \<open>IntegrityError\<close> is the database's
  (unique, not-null and check constraints), \<open>DoesNotExist\<close> the ORM's (a
  foreign key that names no stored row), \<open>ValidationError\<close> Django's (a value a
  field cannot convert when it is saved); the others are Python's.
\<close>

datatype pyexc = TypeError | ValueError | KeyError | IndexError | OverflowError | AttributeError
  | IntegrityError | DoesNotExist | ValidationError

type_synonym 'a py = "pyexc + 'a"

text \<open>Well-formed values: the keys of every dict are distinct.\<close>

fun py_wf :: "pyval \<Rightarrow> bool" where
  "py_wf (PyList xs) = (\<forall>x \<in> set xs. py_wf x)"
| "py_wf (PyDict kvs) = (distinct (map fst kvs) \<and> (\<forall>kv \<in> set kvs. py_wf (snd kv)))"
| "py_wf _ = True"

text \<open>Type tests: a \<open>str\<close>, a \<open>datetime.date\<close>.\<close>

fun is_str :: "pyval \<Rightarrow> bool" where
  "is_str (PyStr _) = True"
| "is_str _ = False"

fun is_date :: "pyval \<Rightarrow> bool" where
  "is_date (PyDate _) = True"
| "is_date _ = False"

section \<open>Characters\<close>

text \<open>
  A Python \<open>str\<close> is a list of code points.  The model reads an Isabelle
  \<^typ>\<open>char\<close> as the code point \<open>of_char c\<close> in U+0000 to U+00FF (Latin-1), and
  classifies it as CPython's Unicode tables do in that range: \<open>str.isdigit\<close>
  holds for \<open>0\<close>--\<open>9\<close> and for the superscripts U+00B2, U+00B3, U+00B9;
  \<open>int()\<close> and \<open>float()\<close> accept the decimal digits \<open>0\<close>--\<open>9\<close> only; the
  whitespace they strip is U+0009--U+000D, U+001C--U+0020, U+0085 and U+00A0.
\<close>

definition py_isdigit_char :: "char \<Rightarrow> bool" where
  "py_isdigit_char c \<longleftrightarrow>
     (let n = of_char c :: nat in (48 \<le> n \<and> n \<le> 57) \<or> n = 178 \<or> n = 179 \<or> n = 185)"

definition py_isdecimal_char :: "char \<Rightarrow> bool" where
  "py_isdecimal_char c \<longleftrightarrow> (let n = of_char c :: nat in 48 \<le> n \<and> n \<le> 57)"

definition py_isspace_char :: "char \<Rightarrow> bool" where
  "py_isspace_char c \<longleftrightarrow>
     (let n = of_char c :: nat in (9 \<le> n \<and> n \<le> 13) \<or> (28 \<le> n \<and> n \<le> 32) \<or> n = 133 \<or> n = 160)"

text \<open>\<open>str.isdigit\<close> on a whole string: non-empty and every character a digit.\<close>

definition py_isdigit :: "string \<Rightarrow> bool" where
  "py_isdigit s \<longleftrightarrow> s \<noteq> [] \<and> list_all py_isdigit_char s"

text \<open>\<open>str.strip()\<close> with no argument.\<close>

definition py_strip :: "string \<Rightarrow> string" where
  "py_strip s = rev (dropWhile py_isspace_char (rev (dropWhile py_isspace_char s)))"

text \<open>Substring test, the meaning of \<open>needle in s\<close> for two strings.\<close>

fun str_contains :: "string \<Rightarrow> string \<Rightarrow> bool" where
  "str_contains n [] = (n = [])"
| "str_contains n (c # cs) = (take (length n) (c # cs) = n \<or> str_contains n cs)"

section \<open>Built-in operations\<close>

text \<open>
  \<open>k in v\<close> for a string \<open>k\<close>: key membership in a dict, substring in a string,
  element equality in a list (a string equals only the same string); every other
  value is not iterable and raises \<open>TypeError\<close>.
\<close>

fun py_contains :: "string \<Rightarrow> pyval \<Rightarrow> bool py" where
  "py_contains k (PyDict kvs) = Inr (k \<in> set (map fst kvs))"
| "py_contains k (PyStr s) = Inr (str_contains k s)"
| "py_contains k (PyList xs) = Inr (PyStr k \<in> set xs)"
| "py_contains k _ = Inl TypeError"

text \<open>
  \<open>v[k]\<close> for a string \<open>k\<close>: a missing key of a dict raises \<open>KeyError\<close>;
  strings and lists take integer indices only and every other value is not
  subscriptable, so both raise \<open>TypeError\<close>.
\<close>

fun py_getitem :: "pyval \<Rightarrow> string \<Rightarrow> pyval py" where
  "py_getitem (PyDict kvs) k = (case map_of kvs k of Some v \<Rightarrow> Inr v | None \<Rightarrow> Inl KeyError)"
| "py_getitem _ k = Inl TypeError"

text \<open>\<open>v[k] = x\<close>: only a dict supports item assignment with a string key.\<close>

fun py_setitem :: "pyval \<Rightarrow> string \<Rightarrow> pyval \<Rightarrow> pyval py" where
  "py_setitem (PyDict kvs) k x = Inr (PyDict (AList.update k x kvs))"
| "py_setitem _ k x = Inl TypeError"

text \<open>
  \<open>for x in v\<close>: a list yields its elements, a dict its keys, a string its
  one-character strings; every other value raises \<open>TypeError\<close>.
\<close>

fun py_iter :: "pyval \<Rightarrow> pyval list py" where
  "py_iter (PyList xs) = Inr xs"
| "py_iter (PyDict kvs) = Inr (map (\<lambda>kv. PyStr (fst kv)) kvs)"
| "py_iter (PyStr s) = Inr (map (\<lambda>c. PyStr [c]) s)"
| "py_iter _ = Inl TypeError"

text \<open>
  \<open>filter(str.isdigit, xs)\<close>: \<open>str.isdigit\<close> called unbound raises
  \<open>TypeError\<close> on a non-string element; the kept elements are strings.
\<close>

fun py_filter_isdigit :: "pyval list \<Rightarrow> string list py" where
  "py_filter_isdigit [] = Inr []"
| "py_filter_isdigit (PyStr s # xs) =
     sbind (py_filter_isdigit xs) (\<lambda>ss. Inr (if py_isdigit s then s # ss else ss))"
| "py_filter_isdigit (_ # xs) = Inl TypeError"

text \<open>\<open>''.join(filter(str.isdigit, v))\<close>.\<close>

definition join_filter_isdigit :: "pyval \<Rightarrow> string py" where
  "join_filter_isdigit v =
     sbind (py_iter v) (\<lambda>xs. sbind (py_filter_isdigit xs) (\<lambda>ss. Inr (concat ss)))"

end
