(* ===== verification/Coerce.thy ===== *)
theory Coerce
  imports PyValue
begin

text \<open>
  The built-in constructors \<open>float(v)\<close> and \<open>int(v)\<close> that the cleaner of
  \<open>src/data_import_export.py\<close> applies to the \<open>price\<close> and \<open>pages\<close> fields, with
  the string grammars CPython accepts (surrounding whitespace, a sign, single
  underscores between digits, \<open>inf\<close>, \<open>infinity\<close> and \<open>nan\<close> for floats) and
  the exceptions they raise: \<open>ValueError\<close> for a malformed string or a NaN,
  \<open>TypeError\<close> for a value of the wrong type, and \<open>OverflowError\<close> for an
  integer too large for a double or an infinite float given to \<open>int()\<close>.
\<close>

section \<open>Digit strings\<close>

definition dec_value :: "string \<Rightarrow> nat" where
  "dec_value s = foldl (\<lambda>acc c. 10 * acc + (of_char c - 48)) 0 s"

text \<open>
  \<open>us_ok p s\<close>: every underscore of \<open>s\<close> has a decimal digit right before it and
  right after it; \<open>p\<close> says whether the character before \<open>s\<close> is a digit.
\<close>

fun us_ok :: "bool \<Rightarrow> string \<Rightarrow> bool" where
  "us_ok p [] = True"
| "us_ok p (c # cs) =
     (if c = CHR ''_''
      then p \<and> (case cs of d # _ \<Rightarrow> py_isdecimal_char d | [] \<Rightarrow> False) \<and> us_ok False cs
      else us_ok (py_isdecimal_char c) cs)"

text \<open>A digit group: decimal digits, single underscores between two of them.\<close>

definition digit_group :: "string \<Rightarrow> bool" where
  "digit_group s \<longleftrightarrow>
     s \<noteq> [] \<and> list_all (\<lambda>c. py_isdecimal_char c \<or> c = CHR ''_'') s \<and> us_ok False s"

text \<open>An optional leading sign: whether it is a minus, and the rest.\<close>

definition split_sign :: "string \<Rightarrow> bool \<times> string" where
  "split_sign s =
     (case s of
        c # r \<Rightarrow> if c = CHR ''-'' then (True, r) else if c = CHR ''+'' then (False, r) else (False, s)
      | [] \<Rightarrow> (False, []))"

definition signed :: "bool \<Rightarrow> 'a::ring_1 \<Rightarrow> 'a" where
  "signed neg x = (if neg then - x else x)"

section \<open>int()\<close>

text \<open>\<open>int(s)\<close> for a string in base 10.\<close>

definition parse_int_str :: "string \<Rightarrow> int option" where
  "parse_int_str s =
     (let (neg, d) = split_sign (py_strip s)
      in if digit_group d then Some (signed neg (int (dec_value (filter py_isdecimal_char d))))
         else None)"

text \<open>
  \<open>int(v)\<close>: an integer is itself, a bool is 0 or 1, a finite float is truncated
  towards zero, an infinite float overflows, a NaN and a malformed string raise
  \<open>ValueError\<close>, and every other type raises \<open>TypeError\<close>.
\<close>

fun py_int :: "pyval \<Rightarrow> int py" where
  "py_int (PyInt i) = Inr i"
| "py_int (PyBool b) = Inr (if b then 1 else 0)"
| "py_int (PyFloat (Fin q)) = Inr (if 0 \<le> q then \<lfloor>q\<rfloor> else \<lceil>q\<rceil>)"
| "py_int (PyFloat PosInf) = Inl OverflowError"
| "py_int (PyFloat NegInf) = Inl OverflowError"
| "py_int (PyFloat NaN) = Inl ValueError"
| "py_int (PyStr s) = (case parse_int_str s of Some i \<Rightarrow> Inr i | None \<Rightarrow> Inl ValueError)"
| "py_int _ = Inl TypeError"

section \<open>float()\<close>

text \<open>
  The least magnitude that rounds to infinity: halfway between the largest
  double \<open>2^1024 - 2^971\<close> and \<open>2^1024\<close>, which round-half-even sends up.
\<close>

definition float_overflow_int :: int where
  "float_overflow_int = 2 ^ 1024 - 2 ^ 970"

definition float_overflow_bound :: rat where
  "float_overflow_bound = of_int float_overflow_int"

definition float_of_rat :: "rat \<Rightarrow> pyfloat" where
  "float_of_rat q =
     (if float_overflow_bound \<le> q then PosInf
      else if q \<le> - float_overflow_bound then NegInf
      else Fin q)"

definition ascii_lower :: "char \<Rightarrow> char" where
  "ascii_lower c =
     (let n = of_char c :: nat in if 65 \<le> n \<and> n \<le> 90 then char_of (n + 32) else c)"

text \<open>
  The mantissa \<open>digits [. digits]\<close> or \<open>. digits\<close>: its digits read as one
  number, and the number of digits after the point.
\<close>

definition parse_mantissa :: "string \<Rightarrow> (nat \<times> nat) option" where
  "parse_mantissa m =
     (let ip = takeWhile py_isdecimal_char m; rest = dropWhile py_isdecimal_char m
      in case rest of
           [] \<Rightarrow> if ip = [] then None else Some (dec_value ip, 0)
         | c # fp \<Rightarrow>
             if c = CHR ''.'' \<and> list_all py_isdecimal_char fp \<and> (ip \<noteq> [] \<or> fp \<noteq> [])
             then Some (dec_value (ip @ fp), length fp) else None)"

text \<open>The exponent part: empty, or \<open>e\<close>/\<open>E\<close>, a sign and at least one digit.\<close>

definition parse_exponent :: "string \<Rightarrow> int option" where
  "parse_exponent x =
     (case x of
        [] \<Rightarrow> Some 0
      | _ # r \<Rightarrow>
          (let (neg, d) = split_sign r
           in if d \<noteq> [] \<and> list_all py_isdecimal_char d
              then Some (signed neg (int (dec_value d))) else None))"

definition pow10 :: "int \<Rightarrow> rat" where
  "pow10 k = (if 0 \<le> k then 10 ^ nat k else inverse (10 ^ nat (- k)))"

definition is_exp_char :: "char \<Rightarrow> bool" where
  "is_exp_char c \<longleftrightarrow> c = CHR ''e'' \<or> c = CHR ''E''"

definition parse_decimal :: "string \<Rightarrow> rat option" where
  "parse_decimal r =
     (case parse_mantissa (takeWhile (\<lambda>c. \<not> is_exp_char c) r) of
        None \<Rightarrow> None
      | Some (v, fl) \<Rightarrow>
          (case parse_exponent (dropWhile (\<lambda>c. \<not> is_exp_char c) r) of
             None \<Rightarrow> None
           | Some e \<Rightarrow> Some (of_nat v * pow10 (e - int fl))))"

text \<open>\<open>float(s)\<close> for a string.\<close>

definition parse_float_str :: "string \<Rightarrow> pyfloat option" where
  "parse_float_str s =
     (let t = py_strip s
      in if \<not> us_ok False t then None
         else
           (let (neg, r) = split_sign (filter (\<lambda>c. c \<noteq> CHR ''_'') t); l = map ascii_lower r
            in if l = ''inf'' \<or> l = ''infinity'' then Some (if neg then NegInf else PosInf)
               else if l = ''nan'' then Some NaN
               else map_option (\<lambda>q. float_of_rat (signed neg q)) (parse_decimal r)))"

text \<open>
  \<open>float(v)\<close>: a float is itself, a bool is 0.0 or 1.0, an integer converts
  unless it is too large for a double, a string is parsed, and every other type
  raises \<open>TypeError\<close>.
\<close>

fun py_float :: "pyval \<Rightarrow> pyfloat py" where
  "py_float (PyFloat f) = Inr f"
| "py_float (PyBool b) = Inr (Fin (if b then 1 else 0))"
| "py_float (PyInt i) =
     (if float_overflow_int \<le> \<bar>i\<bar> then Inl OverflowError else Inr (Fin (of_int i)))"
| "py_float (PyStr s) = (case parse_float_str s of Some f \<Rightarrow> Inr f | None \<Rightarrow> Inl ValueError)"
| "py_float _ = Inl TypeError"

end
