(* ===== verification/Cleaner.thy ===== *)
theory Cleaner
  imports Coerce
begin

text \<open>
  The data cleaner \<open>clean_raw_data\<close> of \<open>src/data_import_export.py\<close>
  (lines 20--43).  Each item of the input is processed in place by three
  guarded steps: the \<open>isbn\<close> field keeps only the characters \<open>str.isdigit\<close>
  accepts, the \<open>price\<close> field becomes \<open>float(price)\<close> or \<open>0.0\<close>, the
  \<open>pages\<close> field becomes \<open>int(pages)\<close> or \<open>0\<close>; the loop collects the
  processed items in a new list.  Each step is a definition here, written with
  the exact Python operations of its line (\<open>in\<close>, subscription, item
  assignment, the \<open>try\<close>/\<open>except\<close> and its exception list), so that items
  that are not dicts, and fields that do not convert, take the branches the
  interpreter takes.

  The second half gives the cleaner's contract (spec section 4.2) as a
  field-by-field function \<open>clean_field\<close> over a dict's entries, and proves that
  the code refines it on dicts with distinct keys.
\<close>

section \<open>The code\<close>

text \<open>Lines 25--26: \<open>if 'isbn' in item: item['isbn'] = ''.join(filter(str.isdigit, item['isbn']))\<close>.\<close>

definition clean_isbn :: "pyval \<Rightarrow> pyval py" where
  "clean_isbn item =
     sbind (py_contains ''isbn'' item) (\<lambda>has.
       if has then
         sbind (py_getitem item ''isbn'') (\<lambda>v.
         sbind (join_filter_isdigit v) (\<lambda>s.
         py_setitem item ''isbn'' (PyStr s)))
       else Inr item)"

text \<open>
  Lines 29--33.  The \<open>try\<close> covers the read of the field, the conversion and the
  assignment; the handler's assignment is outside it.
\<close>

definition clean_price :: "pyval \<Rightarrow> pyval py" where
  "clean_price item =
     sbind (py_contains ''price'' item) (\<lambda>has.
       if has then
         try_except [TypeError, ValueError]
           (sbind (py_getitem item ''price'') (\<lambda>v.
            sbind (py_float v) (\<lambda>f.
            py_setitem item ''price'' (PyFloat f))))
           (py_setitem item ''price'' (PyFloat (Fin 0)))
       else Inr item)"

text \<open>Lines 36--40.\<close>

definition clean_pages :: "pyval \<Rightarrow> pyval py" where
  "clean_pages item =
     sbind (py_contains ''pages'' item) (\<lambda>has.
       if has then
         try_except [TypeError, ValueError]
           (sbind (py_getitem item ''pages'') (\<lambda>v.
            sbind (py_int v) (\<lambda>i.
            py_setitem item ''pages'' (PyInt i))))
           (py_setitem item ''pages'' (PyInt 0))
       else Inr item)"

text \<open>The body of the loop, lines 24--40, in the order of the source.\<close>

definition clean_item :: "pyval \<Rightarrow> pyval py" where
  "clean_item item = sbind (clean_isbn item) (\<lambda>item. sbind (clean_price item) clean_pages)"

text \<open>The loop of lines 22--42, appending each processed item to \<open>cleaned\<close>.\<close>

fun clean_loop :: "pyval list \<Rightarrow> pyval list \<Rightarrow> pyval list py" where
  "clean_loop cleaned [] = Inr cleaned"
| "clean_loop cleaned (item # items) =
     sbind (clean_item item) (\<lambda>item'. clean_loop (cleaned @ [item']) items)"

text \<open>The whole function: iterate the argument, run the loop, return the new list.\<close>

definition clean_raw_data :: "pyval \<Rightarrow> pyval py" where
  "clean_raw_data raw_data =
     sbind (py_iter raw_data) (\<lambda>items.
     sbind (clean_loop [] items) (\<lambda>cleaned. Inr (PyList cleaned)))"

section \<open>The contract, field by field\<close>

text \<open>
  Spec section 4.2 read as a function of one field: the new value of an
  \<open>isbn\<close>, \<open>price\<close> or \<open>pages\<close> field, every other field unchanged.
\<close>

definition isbn_value :: "pyval \<Rightarrow> pyval py" where
  "isbn_value v = sbind (join_filter_isdigit v) (\<lambda>s. Inr (PyStr s))"

definition price_value :: "pyval \<Rightarrow> pyval py" where
  "price_value v =
     try_except [TypeError, ValueError] (sbind (py_float v) (\<lambda>f. Inr (PyFloat f))) (Inr (PyFloat (Fin 0)))"

definition pages_value :: "pyval \<Rightarrow> pyval py" where
  "pages_value v =
     try_except [TypeError, ValueError] (sbind (py_int v) (\<lambda>i. Inr (PyInt i))) (Inr (PyInt 0))"

definition on_key :: "string \<Rightarrow> (pyval \<Rightarrow> pyval py) \<Rightarrow> string \<times> pyval \<Rightarrow> (string \<times> pyval) py" where
  "on_key k f kv = (if fst kv = k then sbind (f (snd kv)) (\<lambda>v. Inr (k, v)) else Inr kv)"

definition clean_field :: "string \<times> pyval \<Rightarrow> (string \<times> pyval) py" where
  "clean_field kv =
     sbind (on_key ''isbn'' isbn_value kv) (\<lambda>kv.
     sbind (on_key ''price'' price_value kv) (on_key ''pages'' pages_value))"

section \<open>The loop is an element-wise map\<close>

lemma clean_loop_smap:
  "clean_loop acc items = sbind (smap clean_item items) (\<lambda>ys. Inr (acc @ ys))"
proof (induction items arbitrary: acc)
  case Nil
  then show ?case by simp
next
  case (Cons x xs)
  show ?case
    by (cases "clean_item x"; cases "smap clean_item xs") (simp_all add: Cons.IH)
qed

section \<open>The steps on a dict\<close>

lemma on_key_same [simp]: "on_key k f (k, v) = sbind (f v) (\<lambda>v'. Inr (k, v'))"
  by (simp add: on_key_def)

lemma on_key_other [simp]: "k' \<noteq> k \<Longrightarrow> on_key k f (k', v) = Inr (k', v)"
  by (simp add: on_key_def)

lemma on_key_fst: "on_key k f kv = Inr kv' \<Longrightarrow> fst kv' = fst kv"
  by (auto simp: on_key_def sbind_eq_Inr split: if_splits)

lemma smap_on_key_absent:
  "k \<notin> set (map fst kvs) \<Longrightarrow> smap (on_key k f) kvs = Inr kvs"
  by (induction kvs) auto

lemma smap_on_key_present:
  "distinct (map fst kvs) \<Longrightarrow> map_of kvs k = Some v \<Longrightarrow>
   smap (on_key k f) kvs = sbind (f v) (\<lambda>v'. Inr (AList.update k v' kvs))"
proof (induction kvs)
  case Nil
  then show ?case by simp
next
  case (Cons kv kvs)
  obtain k1 v1 where kv: "kv = (k1, v1)" by (cases kv)
  show ?case
  proof (cases "k1 = k")
    case True
    with Cons.prems kv have "v1 = v" and "k \<notin> set (map fst kvs)" by auto
    then show ?thesis using True kv
      by (cases "f v") (simp_all add: smap_on_key_absent)
  next
    case False
    with Cons.prems kv have "smap (on_key k f) kvs = sbind (f v) (\<lambda>v'. Inr (AList.update k v' kvs))"
      by (intro Cons.IH) auto
    then show ?thesis using False kv
      by (cases "f v") simp_all
  qed
qed

text \<open>Each step of the loop body, on a dict, is a pass of \<open>on_key\<close> over its entries.\<close>

lemma clean_isbn_dict:
  assumes "distinct (map fst kvs)"
  shows "clean_isbn (PyDict kvs) = sbind (smap (on_key ''isbn'' isbn_value) kvs) (\<lambda>kvs'. Inr (PyDict kvs'))"
proof (cases rule: dict_key_cases [of "''isbn''" kvs])
  case absent
  then show ?thesis by (simp add: clean_isbn_def smap_on_key_absent)
next
  case (present v)
  with assms show ?thesis
    by (cases "join_filter_isdigit v") (simp_all add: clean_isbn_def isbn_value_def smap_on_key_present)
qed

lemma clean_price_dict:
  assumes "distinct (map fst kvs)"
  shows "clean_price (PyDict kvs) = sbind (smap (on_key ''price'' price_value) kvs) (\<lambda>kvs'. Inr (PyDict kvs'))"
proof (cases rule: dict_key_cases [of "''price''" kvs])
  case absent
  then show ?thesis by (simp add: clean_price_def smap_on_key_absent)
next
  case (present v)
  with assms show ?thesis
    by (cases "py_float v") (simp_all add: clean_price_def price_value_def smap_on_key_present)
qed

lemma clean_pages_dict:
  assumes "distinct (map fst kvs)"
  shows "clean_pages (PyDict kvs) = sbind (smap (on_key ''pages'' pages_value) kvs) (\<lambda>kvs'. Inr (PyDict kvs'))"
proof (cases rule: dict_key_cases [of "''pages''" kvs])
  case absent
  then show ?thesis by (simp add: clean_pages_def smap_on_key_absent)
next
  case (present v)
  with assms show ?thesis
    by (cases "py_int v") (simp_all add: clean_pages_def pages_value_def smap_on_key_present)
qed

section \<open>The code refines the contract\<close>

lemma on_key_distinct:
  assumes "smap (on_key k f) kvs = Inr kvs'" and "distinct (map fst kvs)"
  shows "distinct (map fst kvs')"
proof -
  have "map fst kvs' = map fst kvs" by (rule smap_keeps [OF on_key_fst assms(1)])
  with assms(2) show ?thesis by simp
qed

lemma clean_item_dict_steps:
  assumes "distinct (map fst kvs)"
  shows "clean_item (PyDict kvs) = Inr out \<longleftrightarrow>
    (\<exists>k1 k2 k3. smap (on_key ''isbn'' isbn_value) kvs = Inr k1 \<and>
       smap (on_key ''price'' price_value) k1 = Inr k2 \<and>
       smap (on_key ''pages'' pages_value) k2 = Inr k3 \<and> out = PyDict k3)"
proof
  assume "clean_item (PyDict kvs) = Inr out"
  then obtain k1 where s1: "smap (on_key ''isbn'' isbn_value) kvs = Inr k1"
    and r1: "sbind (clean_price (PyDict k1)) clean_pages = Inr out"
    by (auto simp: clean_item_def clean_isbn_dict [OF assms] sbind_eq_Inr)
  from s1 assms have d1: "distinct (map fst k1)" by (rule on_key_distinct)
  from r1 obtain k2 where s2: "smap (on_key ''price'' price_value) k1 = Inr k2"
    and r2: "clean_pages (PyDict k2) = Inr out"
    by (auto simp: clean_price_dict [OF d1] sbind_eq_Inr)
  from s2 d1 have d2: "distinct (map fst k2)" by (rule on_key_distinct)
  from r2 obtain k3 where "smap (on_key ''pages'' pages_value) k2 = Inr k3" and "out = PyDict k3"
    by (auto simp: clean_pages_dict [OF d2] sbind_eq_Inr)
  with s1 s2 show "\<exists>k1 k2 k3. smap (on_key ''isbn'' isbn_value) kvs = Inr k1 \<and>
       smap (on_key ''price'' price_value) k1 = Inr k2 \<and>
       smap (on_key ''pages'' pages_value) k2 = Inr k3 \<and> out = PyDict k3" by blast
next
  assume "\<exists>k1 k2 k3. smap (on_key ''isbn'' isbn_value) kvs = Inr k1 \<and>
       smap (on_key ''price'' price_value) k1 = Inr k2 \<and>
       smap (on_key ''pages'' pages_value) k2 = Inr k3 \<and> out = PyDict k3"
  then obtain k1 k2 k3 where s1: "smap (on_key ''isbn'' isbn_value) kvs = Inr k1"
    and s2: "smap (on_key ''price'' price_value) k1 = Inr k2"
    and s3: "smap (on_key ''pages'' pages_value) k2 = Inr k3" and out: "out = PyDict k3"
    by blast
  from s1 assms have d1: "distinct (map fst k1)" by (rule on_key_distinct)
  from s2 d1 have d2: "distinct (map fst k2)" by (rule on_key_distinct)
  show "clean_item (PyDict kvs) = Inr out"
    using s1 s2 s3 out
    by (simp add: clean_item_def clean_isbn_dict [OF assms] clean_price_dict [OF d1]
        clean_pages_dict [OF d2])
qed

text \<open>On a dict with distinct keys, the loop body succeeds exactly when every field
  passes \<^const>\<open>clean_field\<close>, and its result is the dict of the passed fields.\<close>

lemma clean_item_dict_Inr:
  assumes "distinct (map fst kvs)"
  shows "clean_item (PyDict kvs) = Inr out \<longleftrightarrow>
    (\<exists>kvs'. smap clean_field kvs = Inr kvs' \<and> out = PyDict kvs')"
  unfolding clean_item_dict_steps [OF assms] clean_field_def [abs_def] smap_fuse
  by blast

lemma clean_field_keeps_key: "clean_field kv = Inr kv' \<Longrightarrow> fst kv' = fst kv"
  by (auto simp: clean_field_def sbind_eq_Inr dest!: on_key_fst)

lemma clean_field_isbn [simp]:
  "clean_field (''isbn'', v) = sbind (isbn_value v) (\<lambda>v'. Inr (''isbn'', v'))"
  by (cases "isbn_value v") (simp_all add: clean_field_def)

lemma clean_field_price [simp]:
  "clean_field (''price'', v) = sbind (price_value v) (\<lambda>v'. Inr (''price'', v'))"
  by (cases "price_value v") (simp_all add: clean_field_def)

lemma clean_field_pages [simp]:
  "clean_field (''pages'', v) = sbind (pages_value v) (\<lambda>v'. Inr (''pages'', v'))"
  by (simp add: clean_field_def)

lemma clean_field_other:
  "k \<notin> {''isbn'', ''price'', ''pages''} \<Longrightarrow> clean_field (k, v) = Inr (k, v)"
  by (simp add: clean_field_def)

section \<open>The values of the three fields\<close>

lemma py_filter_isdigit_chars:
  "py_filter_isdigit (map (\<lambda>c. PyStr [c]) s) = Inr (map (\<lambda>c. [c]) (filter py_isdigit_char s))"
  by (induction s) (simp_all add: py_isdigit_def)

lemma join_filter_isdigit_str: "join_filter_isdigit (PyStr s) = Inr (filter py_isdigit_char s)"
  by (simp add: join_filter_isdigit_def py_filter_isdigit_chars)

lemma py_filter_isdigit_Inr:
  "py_filter_isdigit xs = Inr ss \<Longrightarrow> \<forall>s \<in> set ss. py_isdigit s"
  by (induction xs arbitrary: ss rule: py_filter_isdigit.induct)
     (auto simp: sbind_eq_Inr split: if_splits)

lemma join_filter_isdigit_digits:
  "join_filter_isdigit v = Inr s \<Longrightarrow> \<forall>c \<in> set s. py_isdigit_char c"
  by (auto simp: join_filter_isdigit_def sbind_eq_Inr py_isdigit_def list_all_iff
      dest!: py_filter_isdigit_Inr)

lemma py_filter_isdigit_Inl: "py_filter_isdigit xs = Inl e \<Longrightarrow> e = TypeError"
  by (induction xs rule: py_filter_isdigit.induct) (auto simp: sbind_eq_Inl)

lemma join_filter_isdigit_Inl: "join_filter_isdigit v = Inl e \<Longrightarrow> e = TypeError"
  by (cases v) (auto simp: join_filter_isdigit_def sbind_eq_Inl dest: py_filter_isdigit_Inl)

lemma py_float_Inl: "py_float v = Inl e \<Longrightarrow> e \<in> {TypeError, ValueError, OverflowError}"
  by (cases v) (auto split: option.splits if_splits)

lemma py_int_Inl: "py_int v = Inl e \<Longrightarrow> e \<in> {TypeError, ValueError, OverflowError}"
  by (cases v rule: py_int.cases) (auto split: option.splits)

lemma price_value_eq:
  "price_value v = (case py_float v of
      Inr f \<Rightarrow> Inr (PyFloat f)
    | Inl e \<Rightarrow> if e = OverflowError then Inl OverflowError else Inr (PyFloat (Fin 0)))"
  by (cases "py_float v") (auto simp: price_value_def dest: py_float_Inl)

lemma pages_value_eq:
  "pages_value v = (case py_int v of
      Inr i \<Rightarrow> Inr (PyInt i)
    | Inl e \<Rightarrow> if e = OverflowError then Inl OverflowError else Inr (PyInt 0))"
  by (cases "py_int v") (auto simp: pages_value_def dest: py_int_Inl)


lemma py_float_overflow:
  "py_float v = Inl OverflowError \<longleftrightarrow> (\<exists>i. v = PyInt i \<and> float_overflow_int \<le> \<bar>i\<bar>)"
  by (cases v) (auto split: option.splits)

lemma py_int_overflow:
  "py_int v = Inl OverflowError \<longleftrightarrow> v = PyFloat PosInf \<or> v = PyFloat NegInf"
  by (cases v rule: py_int.cases) (auto split: option.splits)

section \<open>Items that are not dicts\<close>

lemma py_getitem_non_dict: "\<forall>kvs. item \<noteq> PyDict kvs \<Longrightarrow> py_getitem item k = Inl TypeError"
  by (cases item) auto

lemma py_setitem_non_dict: "\<forall>kvs. item \<noteq> PyDict kvs \<Longrightarrow> py_setitem item k v = Inl TypeError"
  by (cases item) auto

text \<open>
  An item that is not a dict either passes the loop body unchanged (when none of the
  three keys is \<open>in\<close> it) or raises \<open>TypeError\<close>: its fields cannot be read or set.
\<close>

lemma clean_item_non_dict:
  assumes "\<forall>kvs. item \<noteq> PyDict kvs" and "clean_item item = Inr out"
  shows "out = item"
  using assms
  by (auto simp: clean_item_def clean_isbn_def clean_price_def clean_pages_def sbind_eq_Inr
      py_getitem_non_dict py_setitem_non_dict split: if_splits)

lemma clean_item_str:
  "clean_item (PyStr k) =
     (if str_contains ''isbn'' k \<or> str_contains ''price'' k \<or> str_contains ''pages'' k
      then Inl TypeError else Inr (PyStr k))"
  by (simp add: clean_item_def clean_isbn_def clean_price_def clean_pages_def)

lemma clean_raw_data_list:
  "clean_raw_data (PyList xs) = sbind (smap clean_item xs) (\<lambda>ys. Inr (PyList ys))"
  by (simp add: clean_raw_data_def clean_loop_smap)

section \<open>Per-field facts behind idempotence and well-formedness\<close>

lemma clean_field_idem: "clean_field kv = Inr kv' \<Longrightarrow> clean_field kv' = Inr kv'"
proof -
  assume run: "clean_field kv = Inr kv'"
  obtain k v where kv: "kv = (k, v)" by (cases kv)
  show ?thesis
  proof (cases "k \<in> {''isbn'', ''price'', ''pages''}")
    case False
    with run kv have "kv' = (k, v)" by (simp add: clean_field_other)
    with False show ?thesis by (simp add: clean_field_other)
  next
    case True
    then consider "k = ''isbn''" | "k = ''price''" | "k = ''pages''" by blast
    then show ?thesis
    proof cases
      case 1
      with run kv obtain s where "join_filter_isdigit v = Inr s" "kv' = (''isbn'', PyStr s)"
        by (auto simp: isbn_value_def sbind_eq_Inr)
      then show ?thesis
        by (simp add: isbn_value_def join_filter_isdigit_str filter_id_conv
            join_filter_isdigit_digits)
    next
      case 2
      with run kv show ?thesis
        by (cases "py_float v") (auto simp: price_value_eq sbind_eq_Inr split: if_splits)
    next
      case 3
      with run kv show ?thesis
        by (cases "py_int v") (auto simp: pages_value_eq sbind_eq_Inr split: if_splits)
    qed
  qed
qed

lemma smap_on_key_Inl:
  "smap (on_key k f) kvs = Inl e \<Longrightarrow> distinct (map fst kvs) \<Longrightarrow>
   \<exists>v. map_of kvs k = Some v \<and> f v = Inl e"
  by (induction kvs) (auto simp: on_key_def sbind_eq_Inl smap_on_key_absent split: if_splits)

lemma smap_on_key_other_key:
  "smap (on_key k f) kvs = Inr kvs' \<Longrightarrow> k' \<noteq> k \<Longrightarrow> map_of kvs' k' = map_of kvs k'"
  by (induction kvs arbitrary: kvs') (auto simp: on_key_def sbind_eq_Inr split: if_splits)

lemma smap_clean_item_keys:
  "smap clean_item (map (\<lambda>kv. PyStr (fst kv)) kvs) =
     (if \<exists>k \<in> set (map fst kvs). str_contains ''isbn'' k \<or> str_contains ''price'' k \<or> str_contains ''pages'' k
      then Inl TypeError else Inr (map (\<lambda>kv. PyStr (fst kv)) kvs))"
  by (induction kvs) (auto simp: clean_item_str)

lemma smap_clean_item_dicts:
  assumes "\<forall>kvs \<in> set dicts. distinct (map fst kvs)"
  shows "smap clean_item (map PyDict dicts) = Inr ys \<longleftrightarrow>
    (\<exists>dicts'. smap (smap clean_field) dicts = Inr dicts' \<and> ys = map PyDict dicts')"
  using assms
proof (induction dicts arbitrary: ys)
  case Nil
  then show ?case by auto
next
  case (Cons kvs dicts)
  then show ?case by (fastforce simp: sbind_eq_Inr clean_item_dict_Inr)
qed

section \<open>Properties of the cleaner\<close>

text \<open>
  C1.  The entry point calls the cleaner with the generator's dict
  \<open>{'authors': ..., 'books': ..., 'publishers': ...}\<close>.  Iterating a dict yields
  its keys, so the cleaner processes the key strings: it raises \<open>TypeError\<close> if
  one of them contains \<open>isbn\<close>, \<open>price\<close> or \<open>pages\<close>, and otherwise returns the
  list of the keys, leaving the records themselves untouched.
\<close>

theorem clean_raw_data_dict_input:
  "clean_raw_data (PyDict kvs) =
     (if \<exists>k \<in> set (map fst kvs). str_contains ''isbn'' k \<or> str_contains ''price'' k \<or> str_contains ''pages'' k
      then Inl TypeError else Inr (PyList (map (\<lambda>kv. PyStr (fst kv)) kvs)))"
  by (simp add: clean_raw_data_def clean_loop_smap smap_clean_item_keys)

theorem clean_raw_data_dict_input_witness:
  "clean_raw_data (PyDict [(''authors'', PyList []), (''books'', PyList []), (''publishers'', PyList [])]) =
   Inr (PyList [PyStr ''authors'', PyStr ''books'', PyStr ''publishers''])"
  using clean_raw_data_dict_input [of "[(''authors'', PyList []), (''books'', PyList []), (''publishers'', PyList [])]"]
  by simp

text \<open>
  C2.  Refinement: on a list of dicts with distinct keys, the cleaner succeeds
  exactly when the contract of spec section 4.2, applied field by field to every
  record (\<^const>\<open>clean_field\<close>), succeeds, and it returns the same records.
\<close>

theorem clean_raw_data_refines:
  assumes "\<forall>kvs \<in> set dicts. distinct (map fst kvs)"
  shows "clean_raw_data (PyList (map PyDict dicts)) = Inr out \<longleftrightarrow>
    (\<exists>dicts'. smap (smap clean_field) dicts = Inr dicts' \<and> out = PyList (map PyDict dicts'))"
  using smap_clean_item_dicts [OF assms] by (auto simp: clean_raw_data_list sbind_eq_Inr)

theorem clean_raw_data_refines_witness:
  "clean_raw_data (PyList [PyDict [(''isbn'', PyStr ''1-2''), (''pages'', PyStr ''7'')]]) =
   Inr (PyList [PyDict [(''isbn'', PyStr ''12''), (''pages'', PyInt 7)]])"
proof -
  have "smap (smap clean_field) [[(''isbn'', PyStr ''1-2''), (''pages'', PyStr ''7'')]] =
        Inr [[(''isbn'', PyStr ''12''), (''pages'', PyInt 7)]]"
    by code_simp
  then show ?thesis
    using clean_raw_data_refines [of "[[(''isbn'', PyStr ''1-2''), (''pages'', PyStr ''7'')]]"
        "PyList [PyDict [(''isbn'', PyStr ''12''), (''pages'', PyInt 7)]]"]
    by simp
qed

text \<open>
  C3.  The cleaner preserves the number of records and their order: on a list it
  succeeds exactly when it returns a list of the same length whose \<open>i\<close>-th
  element is the \<open>i\<close>-th input item processed by the loop body.
\<close>

theorem clean_raw_data_order:
  "clean_raw_data (PyList xs) = Inr out \<longleftrightarrow>
    (\<exists>ys. out = PyList ys \<and> length ys = length xs \<and> (\<forall>i < length xs. clean_item (xs ! i) = Inr (ys ! i)))"
  by (auto simp: clean_raw_data_list sbind_eq_Inr smap_Inr_iff)

theorem clean_raw_data_order_witness:
  "clean_raw_data (PyList [PyDict [(''pages'', PyStr ''12'')], PyDict []]) =
   Inr (PyList [PyDict [(''pages'', PyInt 12)], PyDict []])"
proof -
  have "clean_item (PyDict [(''pages'', PyStr ''12'')]) = Inr (PyDict [(''pages'', PyInt 12)])"
    and "clean_item (PyDict []) = Inr (PyDict [])"
    by code_simp+
  then have "\<forall>i < 2. clean_item ([PyDict [(''pages'', PyStr ''12'')], PyDict []] ! i) =
                     Inr ([PyDict [(''pages'', PyInt 12)], PyDict []] ! i)"
    by (auto simp: less_2_cases_iff)
  then show ?thesis
    using clean_raw_data_order [of "[PyDict [(''pages'', PyStr ''12'')], PyDict []]"
        "PyList [PyDict [(''pages'', PyInt 12)], PyDict []]"]
    by simp
qed


text \<open>
  C4.  After cleaning, a string \<open>isbn\<close> field holds exactly the characters of
  the input that \<open>str.isdigit\<close> accepts, in their order: a subsequence of the
  input made of digit characters only.
\<close>

theorem clean_item_isbn:
  assumes "distinct (map fst kvs)" and "map_of kvs ''isbn'' = Some (PyStr s)"
    and "clean_item (PyDict kvs) = Inr out"
  shows "py_getitem out ''isbn'' = Inr (PyStr (filter py_isdigit_char s))"
proof -
  from assms(1,3) obtain kvs' where run: "smap clean_field kvs = Inr kvs'" and out: "out = PyDict kvs'"
    by (auto simp: clean_item_dict_Inr)
  from map_of_smap [OF clean_field_keeps_key run assms(2)] obtain v'
    where "clean_field (''isbn'', PyStr s) = Inr (''isbn'', v')" and "map_of kvs' ''isbn'' = Some v'"
    by blast
  then show ?thesis using out by (simp add: isbn_value_def join_filter_isdigit_str)
qed

theorem clean_item_isbn_witness:
  "py_getitem (PyDict [(''isbn'', PyStr ''9780'')]) ''isbn'' = Inr (PyStr ''9780'')"
proof -
  have "clean_item (PyDict [(''isbn'', PyStr ''978-0'')]) = Inr (PyDict [(''isbn'', PyStr ''9780'')])"
    by code_simp
  moreover have "filter py_isdigit_char ''978-0'' = ''9780''"
    by code_simp
  ultimately show ?thesis
    using clean_item_isbn [of "[(''isbn'', PyStr ''978-0'')]" "''978-0''" "PyDict [(''isbn'', PyStr ''9780'')]"]
    by simp
qed

text \<open>
  C5.  After cleaning, the \<open>price\<close> field holds \<open>float(v)\<close> of its input
  \<open>v\<close>, or \<open>0.0\<close> when that conversion raises \<open>TypeError\<close> or \<open>ValueError\<close>.
\<close>

theorem clean_item_price:
  assumes "distinct (map fst kvs)" and "map_of kvs ''price'' = Some v"
    and "clean_item (PyDict kvs) = Inr out"
  shows "py_getitem out ''price'' = Inr (case py_float v of Inr f \<Rightarrow> PyFloat f | Inl _ \<Rightarrow> PyFloat (Fin 0))"
proof -
  from assms(1,3) obtain kvs' where run: "smap clean_field kvs = Inr kvs'" and out: "out = PyDict kvs'"
    by (auto simp: clean_item_dict_Inr)
  from map_of_smap [OF clean_field_keeps_key run assms(2)] obtain v'
    where "clean_field (''price'', v) = Inr (''price'', v')" and "map_of kvs' ''price'' = Some v'"
    by blast
  then show ?thesis using out
    by (cases "py_float v") (auto simp: price_value_eq sbind_eq_Inr split: if_splits)
qed

theorem clean_item_price_witness:
  "py_getitem (PyDict [(''price'', PyFloat (Fin 0))]) ''price'' = Inr (PyFloat (Fin 0))"
proof -
  have "clean_item (PyDict [(''price'', PyStr ''N/A'')]) = Inr (PyDict [(''price'', PyFloat (Fin 0))])"
    and "py_float (PyStr ''N/A'') = Inl ValueError"
    by code_simp+
  then show ?thesis
    using clean_item_price [of "[(''price'', PyStr ''N/A'')]" "PyStr ''N/A''" "PyDict [(''price'', PyFloat (Fin 0))]"]
    by simp
qed

text \<open>
  C6.  After cleaning, the \<open>pages\<close> field holds \<open>int(v)\<close> of its input \<open>v\<close>,
  or \<open>0\<close> when that conversion raises \<open>TypeError\<close> or \<open>ValueError\<close>.
\<close>

theorem clean_item_pages:
  assumes "distinct (map fst kvs)" and "map_of kvs ''pages'' = Some v"
    and "clean_item (PyDict kvs) = Inr out"
  shows "py_getitem out ''pages'' = Inr (case py_int v of Inr i \<Rightarrow> PyInt i | Inl _ \<Rightarrow> PyInt 0)"
proof -
  from assms(1,3) obtain kvs' where run: "smap clean_field kvs = Inr kvs'" and out: "out = PyDict kvs'"
    by (auto simp: clean_item_dict_Inr)
  from map_of_smap [OF clean_field_keeps_key run assms(2)] obtain v'
    where "clean_field (''pages'', v) = Inr (''pages'', v')" and "map_of kvs' ''pages'' = Some v'"
    by blast
  then show ?thesis using out
    by (cases "py_int v") (auto simp: pages_value_eq sbind_eq_Inr split: if_splits)
qed

theorem clean_item_pages_witness:
  "py_getitem (PyDict [(''pages'', PyInt 0)]) ''pages'' = Inr (PyInt 0)"
proof -
  have "clean_item (PyDict [(''pages'', PyStr ''twelve'')]) = Inr (PyDict [(''pages'', PyInt 0)])"
    and "py_int (PyStr ''twelve'') = Inl ValueError"
    by code_simp+
  then show ?thesis
    using clean_item_pages [of "[(''pages'', PyStr ''twelve'')]" "PyStr ''twelve''" "PyDict [(''pages'', PyInt 0)]"]
    by simp
qed

text \<open>
  C7.  Cleaning keeps the keys of a record and their order, and leaves every
  field other than \<open>isbn\<close>, \<open>price\<close> and \<open>pages\<close> as it was.
\<close>

theorem clean_item_other_fields:
  assumes "distinct (map fst kvs)" and "clean_item (PyDict kvs) = Inr out"
  shows "\<exists>kvs'. out = PyDict kvs' \<and> map fst kvs' = map fst kvs \<and>
           (\<forall>k. k \<notin> {''isbn'', ''price'', ''pages''} \<longrightarrow> map_of kvs' k = map_of kvs k)"
proof -
  from assms obtain kvs' where run: "smap clean_field kvs = Inr kvs'" and out: "out = PyDict kvs'"
    by (auto simp: clean_item_dict_Inr)
  have keys: "map fst kvs' = map fst kvs" by (rule smap_keeps [OF clean_field_keeps_key run])
  have "map_of kvs' k = map_of kvs k" if other: "k \<notin> {''isbn'', ''price'', ''pages''}" for k
  proof (cases rule: dict_key_cases [of k kvs])
    case absent
    from keys absent(1) have "k \<notin> fst ` set kvs'" by (metis set_map)
    then have "map_of kvs' k = None" by (simp add: map_of_eq_None_iff)
    with absent(2) show ?thesis by simp
  next
    case (present v)
    from map_of_smap [OF clean_field_keeps_key run present(2)] obtain v'
      where "clean_field (k, v) = Inr (k, v')" and "map_of kvs' k = Some v'" by blast
    with other present(2) show ?thesis by (simp add: clean_field_other)
  qed
  with out keys show ?thesis by blast
qed

theorem clean_item_other_fields_witness:
  "\<exists>kvs'. PyDict [(''title'', PyStr ''A''), (''pages'', PyInt 7)] = PyDict kvs' \<and>
     map fst kvs' = [''title'', ''pages''] \<and>
     (\<forall>k. k \<notin> {''isbn'', ''price'', ''pages''} \<longrightarrow>
        map_of kvs' k = map_of [(''title'', PyStr ''A''), (''pages'', PyStr ''7'')] k)"
proof -
  have "clean_item (PyDict [(''title'', PyStr ''A''), (''pages'', PyStr ''7'')]) =
        Inr (PyDict [(''title'', PyStr ''A''), (''pages'', PyInt 7)])"
    by code_simp
  then show ?thesis
    using clean_item_other_fields [of "[(''title'', PyStr ''A''), (''pages'', PyStr ''7'')]"
        "PyDict [(''title'', PyStr ''A''), (''pages'', PyInt 7)]"]
    by simp
qed


text \<open>
  C8.  The cleaner returns on a record whose \<open>isbn\<close>, if present, is a string,
  whose \<open>price\<close> is not an integer too large for a double, and whose
  \<open>pages\<close> is not an infinite float; every other value of every field is
  accepted.
\<close>

theorem clean_item_succeeds:
  assumes "distinct (map fst kvs)"
    and "\<forall>v. map_of kvs ''isbn'' = Some v \<longrightarrow> (\<exists>s. v = PyStr s)"
    and "\<forall>i. map_of kvs ''price'' = Some (PyInt i) \<longrightarrow> \<bar>i\<bar> < float_overflow_int"
    and "map_of kvs ''pages'' \<noteq> Some (PyFloat PosInf)" and "map_of kvs ''pages'' \<noteq> Some (PyFloat NegInf)"
  shows "\<exists>out. clean_item (PyDict kvs) = Inr out"
proof -
  have "\<exists>y. clean_field kv = Inr y" if "kv \<in> set kvs" for kv
  proof -
    obtain k v where kv: "kv = (k, v)" by (cases kv)
    with that assms(1) have at: "map_of kvs k = Some v" by simp
    consider "k = ''isbn''" | "k = ''price''" | "k = ''pages''" | "k \<notin> {''isbn'', ''price'', ''pages''}"
      by blast
    then show ?thesis
    proof cases
      case 1
      with assms(2) at obtain s where "v = PyStr s" by auto
      with 1 kv show ?thesis by (simp add: isbn_value_def join_filter_isdigit_str)
    next
      case 2
      with assms(3) at have "py_float v \<noteq> Inl OverflowError" by (auto simp: py_float_overflow)
      with 2 kv show ?thesis by (cases "py_float v") (auto simp: price_value_eq)
    next
      case 3
      with assms(4,5) at have "py_int v \<noteq> Inl OverflowError" by (auto simp: py_int_overflow)
      with 3 kv show ?thesis by (cases "py_int v") (auto simp: pages_value_eq)
    next
      case 4
      with kv show ?thesis by (simp add: clean_field_other)
    qed
  qed
  then obtain kvs' where "smap clean_field kvs = Inr kvs'" using smap_all_Inr by blast
  then show ?thesis using clean_item_dict_Inr [OF assms(1)] by blast
qed

theorem clean_item_succeeds_witness:
  "\<exists>out. clean_item (PyDict [(''isbn'', PyStr ''1-2''), (''price'', PyInt 5), (''pages'', PyNone)]) = Inr out"
proof -
  have "\<bar>5::int\<bar> < float_overflow_int" by (simp add: float_overflow_int_def)
  then show ?thesis
    using clean_item_succeeds [of "[(''isbn'', PyStr ''1-2''), (''price'', PyInt 5), (''pages'', PyNone)]"]
    by simp
qed

text \<open>
  C9.  The only exceptions that escape the cleaning of a record are a
  \<open>TypeError\<close> from an \<open>isbn\<close> value that is not an iterable of strings, and an
  \<open>OverflowError\<close> from a \<open>price\<close> integer too large for a double or an
  infinite \<open>pages\<close> float: the \<open>try\<close> blocks catch \<open>TypeError\<close> and
  \<open>ValueError\<close> only.
\<close>

theorem clean_item_errors:
  assumes "distinct (map fst kvs)" and "clean_item (PyDict kvs) = Inl e"
  shows "(e = TypeError \<and> (\<exists>v. map_of kvs ''isbn'' = Some v \<and> join_filter_isdigit v = Inl TypeError))
       \<or> (e = OverflowError \<and>
            ((\<exists>i. map_of kvs ''price'' = Some (PyInt i) \<and> float_overflow_int \<le> \<bar>i\<bar>)
             \<or> map_of kvs ''pages'' = Some (PyFloat PosInf) \<or> map_of kvs ''pages'' = Some (PyFloat NegInf)))"
proof (cases "smap (on_key ''isbn'' isbn_value) kvs")
  case (Inl e1)
  with assms have "e1 = e" by (simp add: clean_item_def clean_isbn_dict)
  with smap_on_key_Inl [OF Inl assms(1)] obtain v
    where "map_of kvs ''isbn'' = Some v" and "isbn_value v = Inl e" by blast
  then show ?thesis
    by (auto simp: isbn_value_def sbind_eq_Inl dest: join_filter_isdigit_Inl)
next
  case (Inr k1)
  have d1: "distinct (map fst k1)" using Inr assms(1) by (rule on_key_distinct)
  show ?thesis
  proof (cases "smap (on_key ''price'' price_value) k1")
    case (Inl e2)
    with assms Inr d1 have "e2 = e" by (simp add: clean_item_def clean_isbn_dict clean_price_dict)
    with smap_on_key_Inl [OF Inl d1] obtain v
      where "map_of k1 ''price'' = Some v" and "price_value v = Inl e" by blast
    moreover have "map_of k1 ''price'' = map_of kvs ''price''"
      using Inr by (rule smap_on_key_other_key) simp
    ultimately show ?thesis
      by (cases "py_float v") (auto simp: price_value_eq py_float_overflow split: if_splits)
  next
    case (Inr k2)
    have d2: "distinct (map fst k2)" using Inr d1 by (rule on_key_distinct)
    from assms \<open>smap (on_key ''isbn'' isbn_value) kvs = Inr k1\<close> Inr d1 d2
    have "smap (on_key ''pages'' pages_value) k2 = Inl e"
      by (cases "smap (on_key ''pages'' pages_value) k2")
         (simp_all add: clean_item_def clean_isbn_dict clean_price_dict clean_pages_dict)
    with smap_on_key_Inl d2 obtain v
      where "map_of k2 ''pages'' = Some v" and "pages_value v = Inl e" by blast
    moreover have "map_of k2 ''pages'' = map_of kvs ''pages''"
      using smap_on_key_other_key [OF Inr] smap_on_key_other_key [OF \<open>smap (on_key ''isbn'' isbn_value) kvs = Inr k1\<close>]
      by simp
    ultimately show ?thesis
      by (cases "py_int v") (auto simp: pages_value_eq py_int_overflow split: if_splits)
  qed
qed

theorem clean_item_errors_witness:
  "clean_item (PyDict [(''isbn'', PyInt 978)]) = Inl TypeError \<and>
   map_of [(''isbn'', PyInt 978)] ''isbn'' = Some (PyInt 978) \<and>
   join_filter_isdigit (PyInt 978) = Inl TypeError"
proof -
  have run: "clean_item (PyDict [(''isbn'', PyInt 978)]) = Inl TypeError" by code_simp
  have "join_filter_isdigit (PyInt 978) = Inl TypeError \<or> OverflowError = TypeError"
    using clean_item_errors [OF _ run] by simp
  with run show ?thesis by simp
qed

text \<open>
  C10.  Cleaning is idempotent: a cleaned record passes the cleaner unchanged.
  (So the in-place mutation of the source cannot be observed through a record
  that occurs twice in the input list.)
\<close>

theorem clean_item_idempotent:
  assumes "py_wf item" and "clean_item item = Inr out"
  shows "clean_item out = Inr out"
proof (cases "\<exists>kvs. item = PyDict kvs")
  case True
  then obtain kvs where item: "item = PyDict kvs" by blast
  with assms(1) have d: "distinct (map fst kvs)" by simp
  from assms(2) item d obtain kvs' where run: "smap clean_field kvs = Inr kvs'" and out: "out = PyDict kvs'"
    by (auto simp: clean_item_dict_Inr)
  have "map fst kvs' = map fst kvs" by (rule smap_keeps [OF clean_field_keeps_key run])
  with d have d': "distinct (map fst kvs')" by simp
  from run have "smap clean_field kvs' = Inr kvs'"
    by (auto simp: smap_Inr_iff intro: clean_field_idem)
  with out d' show ?thesis by (simp add: clean_item_dict_Inr)
next
  case False
  with assms(2) have "out = item" by (intro clean_item_non_dict) auto
  with assms(2) show ?thesis by simp
qed

theorem clean_item_idempotent_witness:
  "clean_item (PyDict [(''isbn'', PyStr ''12''), (''price'', PyFloat (Fin 5))]) =
   Inr (PyDict [(''isbn'', PyStr ''12''), (''price'', PyFloat (Fin 5))])"
proof -
  have "py_wf (PyDict [(''isbn'', PyStr ''1-2''), (''price'', PyInt 5)])"
    and "clean_item (PyDict [(''isbn'', PyStr ''1-2''), (''price'', PyInt 5)]) =
         Inr (PyDict [(''isbn'', PyStr ''12''), (''price'', PyFloat (Fin 5))])"
    by code_simp+
  then show ?thesis by (rule clean_item_idempotent)
qed

section \<open>Runs behind the findings\<close>

text \<open>
  Against spec section 4.2 ("a total function, it never fails"), the
  cleaner raises on malformed input: \<open>TypeError\<close> for an \<open>isbn\<close> of \<open>None\<close>,
  \<open>OverflowError\<close> for a \<open>price\<close> of \<open>2 ** 1024\<close>, \<open>OverflowError\<close> for a
  \<open>pages\<close> of \<open>float('inf')\<close>.
\<close>

theorem clean_raw_data_not_total:
  "clean_raw_data (PyList [PyDict [(''isbn'', PyNone)]]) = Inl TypeError \<and>
   clean_raw_data (PyList [PyDict [(''price'', PyInt (2 ^ 1024))]]) = Inl OverflowError \<and>
   clean_raw_data (PyList [PyDict [(''pages'', PyFloat PosInf)]]) = Inl OverflowError"
  by code_simp

text \<open>
  \<open>str.isdigit\<close> accepts the superscript digits, so an ISBN such as
  \<open>'978\<^sup>2'\<close> (U+00B2) survives cleaning unchanged although it is not a
  decimal number: \<open>int()\<close> rejects it.
\<close>

theorem clean_isbn_keeps_superscripts:
  "clean_raw_data (PyList [PyDict [(''isbn'', PyStr (''978'' @ [char_of (178::nat)]))]]) =
     Inr (PyList [PyDict [(''isbn'', PyStr (''978'' @ [char_of (178::nat)]))]]) \<and>
   py_int (PyStr (''978'' @ [char_of (178::nat)])) = Inl ValueError"
  by code_simp

end
