(* ===== verification/Schema.thy ===== *)
theory Schema
  imports PyValue
begin

text \<open>
  The record kinds of \<open>src/myapp/models.py\<close>: the field declarations of the
  model classes Author (lines 5--12), Book (lines 14--32) and Publisher (lines
  34--42), the genre choices (lines 15--21), and what the ORM derives from them:
  the keyword arguments a constructor accepts, the default of an omitted field,
  and the database constraints a stored row must meet.

  As written, lines 14--32 are indented so that \<open>class Book\<close> is nested in
  \<open>Author\<close> and the field lines 23--29 fall back into Author's body (spec
  section 9 flags this).  The model follows the spec and the rest of the
  program: three top-level kinds, Book owning the fields of lines 23--29.
\<close>

section \<open>Field declarations\<close>

text \<open>The three model classes, and the class name an instance reports.\<close>

datatype model = Author | Book | Publisher

fun model_name :: "model \<Rightarrow> string" where
  "model_name Author = ''Author''"
| "model_name Book = ''Book''"
| "model_name Publisher = ''Publisher''"

text \<open>
  The field classes used by the models, with the options that matter to storage:
  \<open>CharField n\<close> has \<open>max_length = n\<close>; \<open>URLField\<close> and \<open>EmailField\<close> have
  Django's default lengths 200 and 254; \<open>DecimalField d p\<close> has
  \<open>max_digits = d\<close>, \<open>decimal_places = p\<close>; a relation names its target model.
\<close>

datatype field_kind =
    CharField nat
  | TextField
  | DateField
  | URLField
  | EmailField
  | PositiveIntegerField
  | DecimalField nat nat
  | ForeignKey model
  | ManyToManyField model

record field_decl =
  fd_name :: string
  fd_kind :: field_kind
  fd_unique :: bool
  fd_blank :: bool

definition field :: "string \<Rightarrow> field_kind \<Rightarrow> field_decl" where
  "field n k = \<lparr>fd_name = n, fd_kind = k, fd_unique = False, fd_blank = False\<rparr>"

text \<open>\<open>class Author\<close>, lines 6--9.\<close>

definition author_fields :: "field_decl list" where
  "author_fields =
     [field ''name'' (CharField 100),
      field ''birth_date'' DateField,
      field ''country'' (CharField 50),
      (field ''biography'' TextField)\<lparr>fd_blank := True\<rparr>]"

text \<open>\<open>GENRE_CHOICES\<close>, lines 15--21: the stored codes (the labels are the Chinese
  words for novel, science fiction, history, biography, education).\<close>

datatype genre = FIC | SCI | HIS | BIO | EDU

fun genre_code :: "genre \<Rightarrow> string" where
  "genre_code FIC = ''FIC''"
| "genre_code SCI = ''SCI''"
| "genre_code HIS = ''HIS''"
| "genre_code BIO = ''BIO''"
| "genre_code EDU = ''EDU''"

definition genre_choices :: "string list" where
  "genre_choices = map genre_code [FIC, SCI, HIS, BIO, EDU]"

text \<open>The fields of Book, lines 23--29.\<close>

definition book_fields :: "field_decl list" where
  "book_fields =
     [field ''title'' (CharField 200),
      field ''author'' (ForeignKey Author),
      field ''publication_date'' DateField,
      field ''genre'' (CharField 3),
      (field ''isbn'' (CharField 13))\<lparr>fd_unique := True\<rparr>,
      field ''pages'' PositiveIntegerField,
      field ''price'' (DecimalField 6 2)]"

text \<open>\<open>class Publisher\<close>, lines 35--39.\<close>

definition publisher_fields :: "field_decl list" where
  "publisher_fields =
     [field ''name'' (CharField 100),
      field ''address'' (CharField 200),
      field ''website'' URLField,
      field ''contact_email'' EmailField,
      field ''books'' (ManyToManyField Book)]"

section \<open>What the ORM derives from the declarations\<close>

fun is_m2m :: "field_kind \<Rightarrow> bool" where
  "is_m2m (ManyToManyField _) = True"
| "is_m2m _ = False"

text \<open>The fields stored in the model's own table (a many-to-many relation has a
  table of its own).\<close>

definition column_fields :: "field_decl list \<Rightarrow> field_decl list" where
  "column_fields fs = filter (\<lambda>fd. \<not> is_m2m (fd_kind fd)) fs"

text \<open>
  Django's \<open>Field.get_default()\<close> for a field without \<open>default\<close> and with
  \<open>null=False\<close>: the empty string for the string-valued fields (those that
  allow empty strings), \<open>None\<close> for the others.
\<close>

fun empty_strings_allowed :: "field_kind \<Rightarrow> bool" where
  "empty_strings_allowed (CharField _) = True"
| "empty_strings_allowed TextField = True"
| "empty_strings_allowed URLField = True"
| "empty_strings_allowed EmailField = True"
| "empty_strings_allowed _ = False"

definition field_default :: "field_decl \<Rightarrow> pyval" where
  "field_default fd = (if empty_strings_allowed (fd_kind fd) then PyStr [] else PyNone)"

type_synonym row = "(string \<times> pyval) list"

text \<open>
  \<open>Model(**kwargs)\<close>: the keyword arguments must be a dict; a foreign key must
  be given an instance of its target model or \<open>None\<close> (\<open>ValueError\<close>
  otherwise, raised while the fields are assigned); a keyword that names no
  column field, nor \<open>id\<close>/\<open>pk\<close>, raises \<open>TypeError\<close> (this includes the
  many-to-many field, which cannot be assigned directly).  The new instance holds
  one value per column field, the argument's or the default.  (The attribute
  name \<open>author_id\<close> of the foreign key is not modelled as a keyword, and a
  primary key given as \<open>id\<close> or \<open>pk\<close> is accepted but not kept: the store
  assigns the keys.)
\<close>

definition fk_value_ok :: "field_decl \<Rightarrow> pyval \<Rightarrow> bool" where
  "fk_value_ok fd v =
     (case fd_kind fd of
        ForeignKey m \<Rightarrow> (case v of PyNone \<Rightarrow> True | PyInst c _ \<Rightarrow> c = model_name m | _ \<Rightarrow> False)
      | _ \<Rightarrow> True)"

definition model_init :: "field_decl list \<Rightarrow> pyval \<Rightarrow> row py" where
  "model_init fs kw =
     (case kw of
        PyDict kvs \<Rightarrow>
          (let cols = column_fields fs in
           if \<not> (\<forall>fd \<in> set cols. opt_all (fk_value_ok fd) (map_of kvs (fd_name fd)))
           then Inl ValueError
           else if \<not> (\<forall>k \<in> set (map fst kvs). k \<in> set (''id'' # ''pk'' # map fd_name cols))
           then Inl TypeError
           else Inr (map (\<lambda>fd. (fd_name fd, case map_of kvs (fd_name fd) of
                                              Some v \<Rightarrow> v | None \<Rightarrow> field_default fd)) cols))
      | _ \<Rightarrow> Inl TypeError)"

end
