(* ===== verification/Store.thy ===== *)
theory Store
  imports Schema Coerce
begin

text \<open>
  The database behind the models of \<open>src/myapp/models.py\<close>, and the ORM
  operations that \<open>import_to_database\<close> and \<open>export_from_database\<close> of
  \<open>src/data_import_export.py\<close> call on it: \<open>bulk_create\<close> (lines 97, 106),
  \<open>objects.all()\<close> (lines 100, 109, 133, 142, 154), \<open>objects.create\<close>
  (line 112) and \<open>publisher.books.set\<close> (line 115).

  A table is its rows, each with the primary key the database assigned, and the
  next key of its auto-increment counter.  The many-to-many relation
  \<open>Publisher.books\<close> is its own table of (publisher key, book key) pairs.

  Saving converts each value with its field's \<open>get_prep_value\<close> before the
  \<open>INSERT\<close> (\<open>prep_value\<close>): a \<open>DateField\<close> takes a date or an ISO date
  string, an \<open>IntegerField\<close> applies \<open>int()\<close>, a \<open>DecimalField\<close> applies
  \<open>Decimal()\<close> and refuses non-finite values; a value a field cannot convert
  raises before anything is written.  SQLite then binds the integers (beyond 64
  bits: \<open>OverflowError\<close>) and enforces \<open>NOT NULL\<close> on every column (no field
  has \<open>null=True\<close>), \<open>UNIQUE\<close> on \<open>isbn\<close>, the check \<open>pages >= 0\<close> of a
  \<open>PositiveIntegerField\<close>, and the foreign keys; a violation raises
  \<open>IntegrityError\<close>.  \<open>bulk_create\<close> runs in one transaction, so it inserts
  all its rows or none.  Not modelled: \<open>str()\<close> of a non-string given to a text
  field (stored as given), the rounding of a float to \<open>max_digits\<close>
  significant digits and the quantisation to \<open>decimal_places\<close> (no-ops on the
  script's prices, which have at most four digits), the ISO forms that only
  Python 3.11's \<open>date.fromisoformat\<close> adds (\<open>YYYYMMDD\<close>, week dates), and
  the length limits, which SQLite does not enforce.
\<close>

section \<open>State\<close>

record table =
  t_rows :: "(nat \<times> row) list"
  t_next :: nat

record db =
  db_authors :: table
  db_books :: table
  db_publishers :: table
  db_links :: "(nat \<times> nat) list"

definition empty_table :: table where
  "empty_table = \<lparr>t_rows = [], t_next = 1\<rparr>"

definition empty_db :: db where
  "empty_db = \<lparr>db_authors = empty_table, db_books = empty_table,
                db_publishers = empty_table, db_links = []\<rparr>"

definition table_keys :: "table \<Rightarrow> nat list" where
  "table_keys t = map fst (t_rows t)"

fun model_fields :: "model \<Rightarrow> field_decl list" where
  "model_fields Author = author_fields"
| "model_fields Book = book_fields"
| "model_fields Publisher = publisher_fields"

fun get_table :: "model \<Rightarrow> db \<Rightarrow> table" where
  "get_table Author d = db_authors d"
| "get_table Book d = db_books d"
| "get_table Publisher d = db_publishers d"

fun put_table :: "model \<Rightarrow> table \<Rightarrow> db \<Rightarrow> db" where
  "put_table Author t d = d\<lparr>db_authors := t\<rparr>"
| "put_table Book t d = d\<lparr>db_books := t\<rparr>"
| "put_table Publisher t d = d\<lparr>db_publishers := t\<rparr>"

section \<open>Constraints\<close>

text \<open>The check \<open>pages >= 0\<close> of a \<open>PositiveIntegerField\<close>, on the integer
  its conversion stored (\<open>NULL\<close> passes a check).\<close>

fun nonneg_value :: "pyval \<Rightarrow> bool" where
  "nonneg_value (PyInt i) = (0 \<le> i)"
| "nonneg_value _ = True"

text \<open>
  A foreign key holds an instance of its target model (the constructor admits
  nothing else but \<open>None\<close>, which \<open>NOT NULL\<close> rejects) whose key is in the
  target table.
\<close>

definition fk_target_ok :: "model \<Rightarrow> db \<Rightarrow> pyval \<Rightarrow> bool" where
  "fk_target_ok m d v =
     (case v of PyInst c k \<Rightarrow> c = model_name m \<and> k \<in> set (table_keys (get_table m d)) | _ \<Rightarrow> False)"

text \<open>A stored row has one value per column, none of them \<open>NULL\<close>, and meets the
  checks and foreign keys of its fields.\<close>

definition row_ok :: "field_decl list \<Rightarrow> db \<Rightarrow> row \<Rightarrow> bool" where
  "row_ok fs d r \<longleftrightarrow>
     map fst r = map fd_name (column_fields fs) \<and>
     (\<forall>kv \<in> set r. snd kv \<noteq> PyNone) \<and>
     (\<forall>fd \<in> set fs.
        case fd_kind fd of
          PositiveIntegerField \<Rightarrow> opt_all nonneg_value (map_of r (fd_name fd))
        | ForeignKey m \<Rightarrow> opt_all (fk_target_ok m d) (map_of r (fd_name fd))
        | _ \<Rightarrow> True)"

definition unique_ok :: "field_decl list \<Rightarrow> row list \<Rightarrow> bool" where
  "unique_ok fs rs \<longleftrightarrow> (\<forall>fd \<in> set fs. fd_unique fd \<longrightarrow> distinct (map (\<lambda>r. map_of r (fd_name fd)) rs))"

section \<open>Conversions on save\<close>

text \<open>\<open>datetime.date(y, m, d)\<close> accepts years 1--9999 and the days of the
  month, with the Gregorian leap years.\<close>

definition is_leap :: "int \<Rightarrow> bool" where
  "is_leap y \<longleftrightarrow> y mod 4 = 0 \<and> (y mod 100 \<noteq> 0 \<or> y mod 400 = 0)"

definition days_in_month :: "int \<Rightarrow> nat \<Rightarrow> nat" where
  "days_in_month y m = [31, if is_leap y then 29 else 28, 31, 30, 31, 30, 31, 31, 30, 31, 30, 31] ! (m - 1)"

definition valid_date :: "int \<Rightarrow> nat \<Rightarrow> nat \<Rightarrow> bool" where
  "valid_date y m d \<longleftrightarrow> 1 \<le> y \<and> y \<le> 9999 \<and> 1 \<le> m \<and> m \<le> 12 \<and> 1 \<le> d \<and> d \<le> days_in_month y m"

text \<open>Django's \<open>parse_date\<close>: \<open>re.match\<close> of
  \<open>(\\d{4})-(\\d{1,2})-(\\d{1,2})$\<close>, where \<open>$\<close> also matches before a final
  newline; the three digit groups.\<close>

definition date_match :: "string \<Rightarrow> (string \<times> string \<times> string) option" where
  "date_match s =
     (let t = (if s \<noteq> [] \<and> last s = CHR 0x0A then butlast s else s);
          y = take 4 t; r1 = drop 4 t
      in if length y = 4 \<and> list_all py_isdecimal_char y \<and> take 1 r1 = ''-'' then
           (let r2 = drop 1 r1; m = takeWhile py_isdecimal_char r2; r3 = drop (length m) r2
            in if 1 \<le> length m \<and> length m \<le> 2 \<and> take 1 r3 = ''-'' then
                 (let dd = drop 1 r3
                  in if 1 \<le> length dd \<and> length dd \<le> 2 \<and> list_all py_isdecimal_char dd
                     then Some (y, m, dd) else None)
               else None)
         else None)"

text \<open>\<open>decimal.Decimal(s)\<close> of a string, finite values: surrounding whitespace,
  a sign, underscores between digits, a decimal literal.\<close>

definition decimal_of_str :: "string \<Rightarrow> rat option" where
  "decimal_of_str s =
     (let t = py_strip s
      in if \<not> us_ok False t then None
         else (case split_sign (filter (\<lambda>c. c \<noteq> CHR ''_'') t) of
                 (neg, r) \<Rightarrow> map_option (signed neg) (parse_decimal r)))"

text \<open>
  \<open>Field.get_prep_value\<close> of the field kinds of the models.
  \<open>DateField.to_python\<close>: a date is kept, a string is parsed (no match or no
  such date: \<open>ValidationError\<close>), any other value makes
  \<open>date.fromisoformat\<close> raise \<open>TypeError\<close>.  \<open>IntegerField\<close>: \<open>int(value)\<close>,
  re-raising its exception.  \<open>DecimalField.to_python\<close>: \<open>Decimal(value)\<close>, any
  failure or a non-finite result \<open>ValidationError\<close>; a Decimal is kept as its
  exact value.  The text fields and the keys keep the value.  \<open>None\<close> passes
  every field.
\<close>

fun prep_value :: "field_kind \<Rightarrow> pyval \<Rightarrow> pyval py" where
  "prep_value DateField v =
     (case v of
        PyNone \<Rightarrow> Inr PyNone
      | PyDate dt \<Rightarrow> Inr (PyDate dt)
      | PyStr s \<Rightarrow>
          (case date_match s of
             None \<Rightarrow> Inl ValidationError
           | Some (y, m, dd) \<Rightarrow>
               if valid_date (int (dec_value y)) (dec_value m) (dec_value dd)
               then Inr (PyDate (Date (int (dec_value y)) (dec_value m) (dec_value dd)))
               else Inl ValidationError)
      | _ \<Rightarrow> Inl TypeError)"
| "prep_value PositiveIntegerField v =
     (if v = PyNone then Inr PyNone else sbind (py_int v) (\<lambda>i. Inr (PyInt i)))"
| "prep_value (DecimalField p s) v =
     (case v of
        PyNone \<Rightarrow> Inr PyNone
      | PyBool b \<Rightarrow> Inr (PyFloat (Fin (if b then 1 else 0)))
      | PyInt i \<Rightarrow> Inr (PyFloat (Fin (of_int i)))
      | PyFloat (Fin q) \<Rightarrow> Inr (PyFloat (Fin q))
      | PyStr t \<Rightarrow> (case decimal_of_str t of Some q \<Rightarrow> Inr (PyFloat (Fin q)) | None \<Rightarrow> Inl ValidationError)
      | _ \<Rightarrow> Inl ValidationError)"
| "prep_value _ v = Inr v"

text \<open>The values of a row, converted column by column in the order of the
  fields (\<open>SQLInsertCompiler.prepare_value\<close>).\<close>

definition prep_row :: "field_decl list \<Rightarrow> row \<Rightarrow> row py" where
  "prep_row fs r =
     smap (\<lambda>kv. case find (\<lambda>fd. fd_name fd = fst kv) fs of
                  None \<Rightarrow> Inr kv
                | Some fd \<Rightarrow> sbind (prep_value (fd_kind fd) (snd kv)) (\<lambda>v. Inr (fst kv, v))) r"

text \<open>SQLite binds Python integers as signed 64-bit values.\<close>

definition sqlite_int_ok :: "pyval \<Rightarrow> bool" where
  "sqlite_int_ok v = (case v of PyInt i \<Rightarrow> - (2 ^ 63) \<le> i \<and> i < 2 ^ 63 | _ \<Rightarrow> True)"

definition bind_ok :: "field_decl list \<Rightarrow> row \<Rightarrow> bool" where
  "bind_ok fs r =
     list_all (\<lambda>fd. case fd_kind fd of
                      PositiveIntegerField \<Rightarrow> opt_all sqlite_int_ok (map_of r (fd_name fd))
                    | _ \<Rightarrow> True) fs"

section \<open>Operations\<close>

definition table_append :: "table \<Rightarrow> row list \<Rightarrow> table" where
  "table_append t rs =
     \<lparr>t_rows = t_rows t @ zip [t_next t ..< t_next t + length rs] rs,
      t_next = t_next t + length rs\<rparr>"

text \<open>
  One \<open>INSERT\<close> transaction of converted rows into the table of a model: the
  integers bind, every row meets the constraints and the unique columns stay
  distinct over the old and the new rows, or nothing is inserted and
  \<open>OverflowError\<close> or \<open>IntegrityError\<close> is raised.
\<close>

definition db_insert :: "model \<Rightarrow> row list \<Rightarrow> db \<Rightarrow> unit py \<times> db" where
  "db_insert m rs d =
     (let t = get_table m d; fs = model_fields m
      in if \<not> list_all (bind_ok fs) rs then (Inl OverflowError, d)
         else if (\<forall>r \<in> set rs. row_ok fs d r) \<and> unique_ok fs (map snd (t_rows t) @ rs)
         then (Inr (), put_table m (table_append t rs) d)
         else (Inl IntegrityError, d))"

text \<open>
  Saving the rows of new instances: convert every value, then insert.  (A
  \<open>bulk_create\<close> of more than 999 parameters is split into several
  \<open>INSERT\<close>s in the one transaction; then a later batch's conversion error can
  come after an earlier batch's \<open>IntegrityError\<close>, which the model reports
  first.  The outcome, an exception and nothing stored, is the same.)
\<close>

definition insert_rows :: "model \<Rightarrow> row list \<Rightarrow> db \<Rightarrow> unit py \<times> db" where
  "insert_rows m rs d =
     (case smap (prep_row (model_fields m)) rs of
        Inl e \<Rightarrow> (Inl e, d)
      | Inr rs' \<Rightarrow> db_insert m rs' d)"

text \<open>\<open>Model.objects.bulk_create(objs)\<close>: the instances' rows in one transaction.\<close>

definition bulk_create :: "model \<Rightarrow> row list \<Rightarrow> db \<Rightarrow> unit py \<times> db" where
  "bulk_create m rs d = insert_rows m rs d"

text \<open>
  \<open>Model.objects.all()\<close>: the instances of the table.  The models declare no
  ordering; the model returns them in key order, the order SQLite returns them.
\<close>

definition objects_all :: "model \<Rightarrow> db \<Rightarrow> pyval list" where
  "objects_all m d = map (\<lambda>kr. PyInst (model_name m) (fst kr)) (t_rows (get_table m d))"

text \<open>\<open>Model.objects.create(**kw)\<close>: construct the instance, save it, return it.\<close>

definition objects_create :: "model \<Rightarrow> pyval \<Rightarrow> db \<Rightarrow> pyval py \<times> db" where
  "objects_create m kw d =
     (case model_init (model_fields m) kw of
        Inl e \<Rightarrow> (Inl e, d)
      | Inr r \<Rightarrow>
          (case insert_rows m [r] d of
             (Inl e, d') \<Rightarrow> (Inl e, d')
           | (Inr _, d') \<Rightarrow> (Inr (PyInst (model_name m) (t_next (get_table m d))), d')))"

text \<open>
  \<open>publisher.books.set(objs)\<close> for the saved publisher with key \<open>p\<close>: the
  related books become exactly the given ones.  An element is a Book instance
  or a key; another model's instance or any other value raises \<open>TypeError\<close>; a
  key that is not a stored book violates the foreign key of the relation table.
\<close>

fun book_key :: "pyval \<Rightarrow> nat option" where
  "book_key (PyInst c k) = (if c = model_name Book then Some k else None)"
| "book_key (PyInt i) = (if 0 \<le> i then Some (nat i) else None)"
| "book_key _ = None"

definition books_set :: "nat \<Rightarrow> pyval list \<Rightarrow> db \<Rightarrow> unit py \<times> db" where
  "books_set p objs d =
     (if \<not> list_all (\<lambda>x. book_key x \<noteq> None) objs then (Inl TypeError, d)
      else
        (let ks = remdups (map (\<lambda>x. the (book_key x)) objs)
         in if \<not> list_all (\<lambda>k. k \<in> set (table_keys (db_books d))) ks then (Inl IntegrityError, d)
            else (Inr (), d\<lparr>db_links := filter (\<lambda>l. fst l \<noteq> p) (db_links d) @ map (Pair p) ks\<rparr>)))"

text \<open>The keys of the books linked to the publisher with key \<open>p\<close>, in link
  order (what \<open>publisher.books.all()\<close> reads, line 160).\<close>

definition related_books :: "nat \<Rightarrow> db \<Rightarrow> nat list" where
  "related_books p d = map snd (filter (\<lambda>l. fst l = p) (db_links d))"

section \<open>Well-formed stores\<close>

text \<open>
  The invariant every operation keeps: keys are distinct and below the counter,
  every stored row meets the constraints of its model (so every book refers to a
  stored author), the unique columns are distinct, and every link joins a stored
  publisher to a stored book.
\<close>

definition keys_ok :: "table \<Rightarrow> bool" where
  "keys_ok t \<longleftrightarrow> distinct (table_keys t) \<and> (\<forall>k \<in> set (table_keys t). k < t_next t)"

definition table_wf :: "model \<Rightarrow> db \<Rightarrow> bool" where
  "table_wf m d \<longleftrightarrow>
     keys_ok (get_table m d) \<and>
     (\<forall>r \<in> set (map snd (t_rows (get_table m d))). row_ok (model_fields m) d r) \<and>
     unique_ok (model_fields m) (map snd (t_rows (get_table m d)))"

definition links_ok :: "db \<Rightarrow> bool" where
  "links_ok d \<longleftrightarrow>
     (\<forall>l \<in> set (db_links d).
        fst l \<in> set (table_keys (db_publishers d)) \<and> snd l \<in> set (table_keys (db_books d)))"

definition db_wf :: "db \<Rightarrow> bool" where
  "db_wf d \<longleftrightarrow> (\<forall>m \<in> set [Author, Book, Publisher]. table_wf m d) \<and> links_ok d"

text \<open>A row that meets the constraints keeps meeting them when tables grow.\<close>

definition keys_grow :: "db \<Rightarrow> db \<Rightarrow> bool" where
  "keys_grow d d' \<longleftrightarrow> (\<forall>m. set (table_keys (get_table m d)) \<subseteq> set (table_keys (get_table m d')))"

section \<open>Lemmas on the store\<close>

lemma all_models: "(\<forall>m \<in> set [Author, Book, Publisher]. P m) \<longleftrightarrow> (\<forall>m. P m)"
  by (metis list.set_intros(1) list.set_intros(2) model.exhaust)

lemma db_wf_iff: "db_wf d \<longleftrightarrow> (\<forall>m. table_wf m d) \<and> links_ok d"
  by (simp only: db_wf_def all_models)

lemma get_put_same [simp]: "get_table m (put_table m t d) = t"
  by (cases m) simp_all

lemma get_put_other [simp]: "m' \<noteq> m \<Longrightarrow> get_table m' (put_table m t d) = get_table m' d"
  by (cases m; cases m') simp_all

lemma links_put [simp]: "db_links (put_table m t d) = db_links d"
  by (cases m) simp_all

lemma get_table_links [simp]: "get_table m (d\<lparr>db_links := ls\<rparr>) = get_table m d"
  by (cases m) simp_all

lemma table_append_keys:
  "table_keys (table_append t rs) = table_keys t @ [t_next t ..< t_next t + length rs]"
  by (simp add: table_append_def table_keys_def)

lemma table_append_rows:
  "map snd (t_rows (table_append t rs)) = map snd (t_rows t) @ rs"
  by (simp add: table_append_def)

lemma table_append_next [simp]: "t_next (table_append t rs) = t_next t + length rs"
  by (simp add: table_append_def)

lemma keys_ok_append: "keys_ok t \<Longrightarrow> keys_ok (table_append t rs)"
  unfolding keys_ok_def table_append_keys table_append_next
  by (auto simp: distinct_append)

lemma fk_target_ok_mono: "fk_target_ok m d v \<Longrightarrow> keys_grow d d' \<Longrightarrow> fk_target_ok m d' v"
  by (auto simp: fk_target_ok_def keys_grow_def split: pyval.splits)

lemma row_ok_mono:
  assumes "row_ok fs d r" and grow: "keys_grow d d'"
  shows "row_ok fs d' r"
proof -
  have fk: "opt_all (fk_target_ok m d') x" if "opt_all (fk_target_ok m d) x" for m x
    using that by (rule opt_all_mono) (rule fk_target_ok_mono [OF _ grow])
  show ?thesis using assms(1) unfolding row_ok_def
    by (fastforce split: field_kind.splits intro: fk)
qed

lemma keys_grow_append: "keys_grow d (put_table m (table_append (get_table m d) rs) d)"
  unfolding keys_grow_def
  by (metis get_put_other get_put_same order_refl set_append sup_ge1 table_append_keys)

lemma keys_grow_links: "keys_grow d (d\<lparr>db_links := ls\<rparr>)"
  by (simp add: keys_grow_def)

lemma table_wf_append:
  assumes wf: "table_wf m d" and new: "\<forall>r \<in> set rs. row_ok (model_fields m) d r"
    and uniq: "unique_ok (model_fields m) (map snd (t_rows (get_table m d)) @ rs)"
  shows "table_wf m (put_table m (table_append (get_table m d) rs) d)"
  using wf new uniq keys_grow_append [of d m rs]
  by (auto simp: table_wf_def keys_ok_append table_append_rows intro: row_ok_mono)

lemma table_wf_other:
  assumes "table_wf m' d" and "m' \<noteq> m"
  shows "table_wf m' (put_table m (table_append (get_table m d) rs) d)"
  using assms keys_grow_append [of d m rs]
  by (auto simp: table_wf_def intro: row_ok_mono)

lemma links_ok_append:
  assumes "links_ok d"
  shows "links_ok (put_table m (table_append (get_table m d) rs) d)"
proof -
  let ?d' = "put_table m (table_append (get_table m d) rs) d"
  have grow: "set (table_keys (get_table m' d)) \<subseteq> set (table_keys (get_table m' ?d'))" for m'
    using keys_grow_append [of d m rs] by (simp add: keys_grow_def)
  from grow [of Publisher] grow [of Book] assms show ?thesis
    by (auto simp: links_ok_def)
qed

text \<open>Every insert keeps the store well formed, whether it succeeds or raises.\<close>

lemma db_insert_wf:
  assumes run: "db_insert m rs d = (r, d')" and wf: "db_wf d"
  shows "db_wf d'"
proof (cases "list_all (bind_ok (model_fields m)) rs \<and> (\<forall>x \<in> set rs. row_ok (model_fields m) d x) \<and>
              unique_ok (model_fields m) (map snd (t_rows (get_table m d)) @ rs)")
  case True
  then have d': "d' = put_table m (table_append (get_table m d) rs) d"
    using run by (simp add: db_insert_def Let_def)
  have "table_wf m' d'" for m'
  proof (cases "m' = m")
    case True
    with wf \<open>_ \<and> (\<forall>x \<in> set rs. _) \<and> _\<close> show ?thesis by (simp add: d' db_wf_iff table_wf_append)
  next
    case False
    with wf show ?thesis by (simp add: d' db_wf_iff table_wf_other)
  qed
  moreover have "links_ok d'" using wf by (simp add: d' db_wf_iff links_ok_append)
  ultimately show ?thesis by (simp add: db_wf_iff)
next
  case False
  with run have "d' = d" by (auto simp: db_insert_def Let_def split: if_splits)
  with wf show ?thesis by simp
qed

lemma insert_rows_wf: "insert_rows m rs d = (r, d') \<Longrightarrow> db_wf d \<Longrightarrow> db_wf d'"
  by (auto simp: insert_rows_def split: sum.splits intro: db_insert_wf)

lemma books_set_wf:
  assumes run: "books_set p objs d = (r, d')" and p: "p \<in> set (table_keys (db_publishers d))"
    and wf: "db_wf d"
  shows "db_wf d'"
proof -
  consider "d' = d"
    | ks where "d' = d\<lparr>db_links := filter (\<lambda>l. fst l \<noteq> p) (db_links d) @ map (Pair p) ks\<rparr>"
        and "\<forall>k \<in> set ks. k \<in> set (table_keys (db_books d))"
    using run by (auto simp: books_set_def Let_def list_all_iff split: if_splits)
  then show ?thesis
  proof cases
    case 1
    with wf show ?thesis by simp
  next
    case (2 ks)
    have "table_wf m d'" for m
      using wf 2(1) keys_grow_links [of d] by (auto simp: db_wf_iff table_wf_def intro: row_ok_mono)
    moreover have "links_ok d'" using wf 2 p by (auto simp: db_wf_iff links_ok_def)
    ultimately show ?thesis by (simp add: db_wf_iff)
  qed
qed


text \<open>The two outcomes of an insert: all rows appended, or \<open>IntegrityError\<close> and
  nothing changed.\<close>

lemma db_insert_Inr:
  "db_insert m rs d = (Inr u, d') \<Longrightarrow> d' = put_table m (table_append (get_table m d) rs) d"
  by (auto simp: db_insert_def Let_def split: if_splits)

lemma db_insert_Inl: "db_insert m rs d = (Inl e, d') \<Longrightarrow> d' = d"
  by (auto simp: db_insert_def Let_def split: if_splits)

lemma insert_rows_Inr:
  assumes "insert_rows m rs d = (Inr u, d')"
  obtains rs' where "smap (prep_row (model_fields m)) rs = Inr rs'"
    and "d' = put_table m (table_append (get_table m d) rs') d"
  using assms by (auto simp: insert_rows_def split: sum.splits dest: db_insert_Inr)

lemma insert_rows_Inl: "insert_rows m rs d = (Inl e, d') \<Longrightarrow> d' = d"
  by (auto simp: insert_rows_def split: sum.splits dest: db_insert_Inl)

lemma prep_rows_length: "smap (prep_row fs) rs = Inr rs' \<Longrightarrow> length rs' = length rs"
  by (rule smap_Inr_length)

lemma smap_single: "smap f [x] = Inr ys \<longleftrightarrow> (\<exists>y. f x = Inr y \<and> ys = [y])"
  by (auto simp: sbind_eq_Inr)

lemma objects_create_Inr:
  assumes "objects_create m kw d = (Inr v, d')"
  obtains r0 r where "model_init (model_fields m) kw = Inr r0" and "prep_row (model_fields m) r0 = Inr r"
    and "d' = put_table m (table_append (get_table m d) [r]) d"
    and "v = PyInst (model_name m) (t_next (get_table m d))"
  using assms
  by (auto simp: objects_create_def sbind_eq_Inr split: sum.splits prod.splits elim!: insert_rows_Inr)

lemma objects_create_Inl: "objects_create m kw d = (Inl e, d') \<Longrightarrow> d' = d"
  by (auto simp: objects_create_def split: sum.splits prod.splits dest: insert_rows_Inl)

lemma objects_create_wf: "objects_create m kw d = (r, d') \<Longrightarrow> db_wf d \<Longrightarrow> db_wf d'"
  by (auto simp: objects_create_def split: sum.splits prod.splits intro: insert_rows_wf)

text \<open>The key of a created instance is a new key of its table.\<close>

lemma new_key_fresh: "keys_ok t \<Longrightarrow> t_next t \<notin> set (table_keys t)"
  by (auto simp: keys_ok_def)

lemma new_key_stored: "t_next t \<in> set (table_keys (table_append t [r]))"
  by (simp add: table_append_keys)

text \<open>In a well-formed store every book refers to a stored author.\<close>

lemma book_columns:
  "map fd_name (column_fields book_fields) =
     [''title'', ''author'', ''publication_date'', ''genre'', ''isbn'', ''pages'', ''price'']"
  by (simp add: book_fields_def column_fields_def field_def)

lemma book_row_author:
  assumes ok: "row_ok book_fields d row"
  obtains a where "map_of row ''author'' = Some (PyInst ''Author'' a)"
    and "a \<in> set (table_keys (db_authors d))"
proof -
  from ok have "map fst row = map fd_name (column_fields book_fields)" by (simp add: row_ok_def)
  then have "''author'' \<in> set (map fst row)" unfolding book_columns by simp
  then have "map_of row ''author'' \<noteq> None" by (simp add: map_of_eq_None_iff)
  then obtain v where v: "map_of row ''author'' = Some v" by blast
  have fd: "field ''author'' (ForeignKey Author) \<in> set book_fields" by (simp add: book_fields_def)
  from ok have "\<forall>fd \<in> set book_fields. case fd_kind fd of
      ForeignKey m \<Rightarrow> opt_all (fk_target_ok m d) (map_of row (fd_name fd)) | _ \<Rightarrow> True"
    unfolding row_ok_def by (auto split: field_kind.splits)
  from bspec [OF this fd] v have "fk_target_ok Author d v" by (simp add: field_def)
  with v that show ?thesis by (auto simp: fk_target_ok_def split: pyval.splits)
qed

lemma db_wf_book_author:
  assumes wf: "db_wf d" and row: "row \<in> set (map snd (t_rows (db_books d)))"
  obtains a where "map_of row ''author'' = Some (PyInst ''Author'' a)"
    and "a \<in> set (table_keys (db_authors d))"
proof -
  from wf have "table_wf Book d" by (simp add: db_wf_iff)
  then have "\<forall>r \<in> set (map snd (t_rows (db_books d))). row_ok book_fields d r"
    by (simp add: table_wf_def)
  with row have "row_ok book_fields d row" by blast
  then show ?thesis using that by (rule book_row_author)
qed


lemma books_set_Inr:
  assumes "books_set p objs d = (Inr u, d')"
  shows "d' = d\<lparr>db_links := filter (\<lambda>l. fst l \<noteq> p) (db_links d) @
                              map (Pair p) (remdups (map (\<lambda>x. the (book_key x)) objs))\<rparr>"
  using assms by (auto simp: books_set_def Let_def split: if_splits)


lemma related_books_put [simp]: "related_books q (put_table m t d) = related_books q d"
  by (simp add: related_books_def)

lemma related_books_relink:
  "related_books q (d\<lparr>db_links := filter (\<lambda>l. fst l \<noteq> k) (db_links d) @ map (Pair k) ks\<rparr>) =
     (if q = k then ks else related_books q d)"
proof (cases "q = k")
  case True
  then show ?thesis by (induction ks) (auto simp: related_books_def filter_empty_conv)
next
  case False
  then have "map snd (filter (\<lambda>l. fst l \<noteq> k \<and> fst l = q) ls) = map snd (filter (\<lambda>l. fst l = q) ls)" for ls
    by (induction ls) auto
  with False show ?thesis by (simp add: related_books_def filter_empty_conv)
qed

text \<open>Positions drawn in \<open>Book.objects.all()\<close> name distinct books.\<close>

lemma sample_book_keys:
  assumes keys: "distinct (table_keys (db_books d))" and "is": "distinct is"
    and bound: "\<forall>i \<in> set is. i < length (t_rows (db_books d))"
  shows "remdups (map (\<lambda>x. the (book_key x)) (map (\<lambda>i. objects_all Book d ! i) is)) =
           map (\<lambda>i. table_keys (db_books d) ! i) is"
proof -
  have "map (\<lambda>x. the (book_key x)) (map (\<lambda>i. objects_all Book d ! i) is) =
          map (\<lambda>i. table_keys (db_books d) ! i) is"
    using bound by (simp add: objects_all_def table_keys_def)
  moreover have "distinct (map (\<lambda>i. table_keys (db_books d) ! i) is)"
  proof -
    have "inj_on (\<lambda>i. table_keys (db_books d) ! i) (set is)"
    proof (rule inj_onI)
      fix x y assume "x \<in> set is" "y \<in> set is"
        and eq: "table_keys (db_books d) ! x = table_keys (db_books d) ! y"
      with bound have "x < length (table_keys (db_books d))" "y < length (table_keys (db_books d))"
        by (simp_all add: table_keys_def)
      with keys eq show "x = y" by (simp add: nth_eq_iff_index_eq)
    qed
    with "is" show ?thesis by (simp add: distinct_map)
  qed
  ultimately show ?thesis by (metis distinct_remdups_id)
qed


lemma table_append_Nil [simp]: "table_append t [] = t"
  by (simp add: table_append_def)

lemma insert_rows_Nil:
  "unique_ok (model_fields m) (map snd (t_rows (get_table m d))) \<Longrightarrow> insert_rows m [] d = (Inr (), d)"
  by (cases m) (simp_all add: insert_rows_def db_insert_def)

lemma empty_db_wf: "db_wf empty_db"
  by code_simp

end
