(* ===== verification/Random_Source.thy ===== *)
theory Random_Source
  imports PyValue "HOL-Library.Multiset"
begin

text \<open>
  The random choices of \<open>import_to_database\<close> in \<open>src/data_import_export.py\<close>:
  \<open>random.choice(all_authors)\<close> (line 103) and
  \<open>random.sample(all_books, min(10, len(all_books)))\<close> (line 114).  As spec
  section 9 asks, the random source is a parameter: a state \<open>'r\<close> and three draws,
  an index below \<open>n\<close> (the draw of \<open>choice\<close>) and \<open>k\<close> positions out of \<open>n\<close>
  (the draw of \<open>sample\<close>), and \<open>random()\<close>, a number in [0, 1) (the draw of
  \<open>random.uniform\<close>, line 70; \<open>random.choice\<close> and \<open>random.randint\<close> of
  the generator, lines 67 and 69, use the first draw).  \<open>source_ok\<close> is their contract.  The Python
  functions wrap the draws with CPython's checks: \<open>choice\<close> of an empty sequence
  raises \<open>IndexError\<close>, \<open>sample\<close> of more elements than the population (or a
  negative number) raises \<open>ValueError\<close>.

  \<open>cpython_source\<close> implements the interface as CPython does on top of
  \<open>_randbelow\<close>: \<open>choice\<close> draws one index, \<open>sample\<close> runs the pool
  algorithm (partial Fisher-Yates over a copy of the population).  CPython uses
  that algorithm when the population has at most 21 elements, or
  \<open>21 + 4 ^ ceil(log(3k, 4))\<close> when \<open>k > 5\<close> (85 for the script's \<open>k = 10\<close>),
  and otherwise draws positions with rejection of repeats; both meet the same
  contract, which is all the importer's properties assume.
\<close>

record 'r random_source =
  rnd_index :: "nat \<Rightarrow> 'r \<Rightarrow> nat \<times> 'r"
  rnd_sample :: "nat \<Rightarrow> nat \<Rightarrow> 'r \<Rightarrow> nat list \<times> 'r"
  rnd_random :: "'r \<Rightarrow> rat \<times> 'r"

definition source_ok :: "'r random_source \<Rightarrow> bool" where
  "source_ok rs \<longleftrightarrow>
     (\<forall>n r. 0 < n \<longrightarrow> fst (rnd_index rs n r) < n) \<and>
     (\<forall>n k r. k \<le> n \<longrightarrow>
        length (fst (rnd_sample rs n k r)) = k \<and> distinct (fst (rnd_sample rs n k r)) \<and>
        (\<forall>i \<in> set (fst (rnd_sample rs n k r)). i < n)) \<and>
     (\<forall>r. 0 \<le> fst (rnd_random rs r) \<and> fst (rnd_random rs r) < 1)"

section \<open>The Python functions\<close>

text \<open>\<open>random.choice(seq)\<close>: \<open>seq[_randbelow(len(seq))]\<close> after the emptiness check.\<close>

definition py_choice :: "'r random_source \<Rightarrow> 'a list \<Rightarrow> 'r \<Rightarrow> 'a py \<times> 'r" where
  "py_choice rs xs r =
     (if xs = [] then (Inl IndexError, r)
      else (case rnd_index rs (length xs) r of
              (i, r') \<Rightarrow> (if i < length xs then Inr (xs ! i) else Inl IndexError, r')))"

text \<open>\<open>random.sample(population, k)\<close>.\<close>

definition py_sample :: "'r random_source \<Rightarrow> 'a list \<Rightarrow> int \<Rightarrow> 'r \<Rightarrow> 'a list py \<times> 'r" where
  "py_sample rs xs k r =
     (if k < 0 \<or> int (length xs) < k then (Inl ValueError, r)
      else (case rnd_sample rs (length xs) (nat k) r of
              (is, r') \<Rightarrow>
                (if \<forall>i \<in> set is. i < length xs then Inr (map (\<lambda>i. xs ! i) is) else Inl IndexError, r')))"

text \<open>\<open>random.randint(a, b)\<close>: \<open>randrange(a, b + 1)\<close>, i.e.
  \<open>a + _randbelow(b - a + 1)\<close>; an empty range raises \<open>ValueError\<close>.\<close>

definition py_randint :: "'r random_source \<Rightarrow> int \<Rightarrow> int \<Rightarrow> 'r \<Rightarrow> int py \<times> 'r" where
  "py_randint rs a b r =
     (if b < a then (Inl ValueError, r)
      else (case rnd_index rs (nat (b - a + 1)) r of (i, r') \<Rightarrow> (Inr (a + int i), r')))"

text \<open>\<open>random.uniform(a, b)\<close>: \<open>a + (b - a) * random()\<close> (exact arithmetic:
  the rounding of the binary product is not modelled).\<close>

definition py_uniform :: "'r random_source \<Rightarrow> rat \<Rightarrow> rat \<Rightarrow> 'r \<Rightarrow> rat \<times> 'r" where
  "py_uniform rs a b r = (case rnd_random rs r of (u, r') \<Rightarrow> (a + (b - a) * u, r'))"

section \<open>CPython's implementation\<close>

text \<open>
  The pool algorithm: \<open>m\<close> live entries at the front of \<open>pool\<close>; each step draws
  \<open>j = _randbelow(m)\<close>, takes \<open>pool[j]\<close> and moves the last live entry into its
  place.
\<close>

fun pool_sample :: "(nat \<Rightarrow> 'r \<Rightarrow> nat \<times> 'r) \<Rightarrow> nat \<Rightarrow> nat list \<Rightarrow> nat \<Rightarrow> 'r \<Rightarrow> nat list \<times> 'r" where
  "pool_sample rb m pool 0 r = ([], r)"
| "pool_sample rb m pool (Suc k) r =
     (case rb m r of
        (j, r1) \<Rightarrow>
          (case pool_sample rb (m - 1) (pool[j := pool ! (m - 1)]) k r1 of
             (rest, r2) \<Rightarrow> (pool ! j # rest, r2)))"

definition randbelow_ok :: "(nat \<Rightarrow> 'r \<Rightarrow> nat \<times> 'r) \<Rightarrow> bool" where
  "randbelow_ok rb \<longleftrightarrow> (\<forall>m r. 0 < m \<longrightarrow> fst (rb m r) < m)"

definition random_ok :: "('r \<Rightarrow> rat \<times> 'r) \<Rightarrow> bool" where
  "random_ok rf \<longleftrightarrow> (\<forall>r. 0 \<le> fst (rf r) \<and> fst (rf r) < 1)"

definition cpython_source :: "(nat \<Rightarrow> 'r \<Rightarrow> nat \<times> 'r) \<Rightarrow> ('r \<Rightarrow> rat \<times> 'r) \<Rightarrow> 'r random_source" where
  "cpython_source rb rf =
     \<lparr>rnd_index = rb, rnd_sample = (\<lambda>n k r. pool_sample rb n [0..<n] k r), rnd_random = rf\<rparr>"

text \<open>
  A concrete \<open>_randbelow\<close> for evaluation: a linear congruential generator
  (the state is the generator's seed).
\<close>

definition lcg_below :: "nat \<Rightarrow> nat \<Rightarrow> nat \<times> nat" where
  "lcg_below m s = (s mod m, (1103515245 * s + 12345) mod 2 ^ 31)"

text \<open>The source the sample runs use: CPython's algorithms on a \<open>_randbelow\<close>
  that always draws 0 and a \<open>random()\<close> that always returns 0.\<close>

definition zero_source :: "unit random_source" where
  "zero_source = cpython_source (\<lambda>m r. (0, r)) (\<lambda>r. (0, r))"

section \<open>The implementation meets the contract\<close>

lemma take_last_split:
  assumes "0 < m" and "m \<le> length xs"
  shows "take m xs = take (m - 1) xs @ [xs ! (m - 1)]"
proof -
  from assms(1) obtain m' where m: "m = Suc m'" by (cases m) auto
  with assms(2) show ?thesis by (simp add: take_Suc_conv_app_nth)
qed

lemma mset_take_update_last:
  assumes j: "j < m" and m: "m \<le> length pool"
  shows "mset (take (m - 1) (pool[j := pool ! (m - 1)])) = mset (take m pool) - {#pool ! j#}"
proof -
  have split: "mset (take m pool) = add_mset (pool ! (m - 1)) (mset (take (m - 1) pool))"
    using take_last_split [of m pool] j m by simp
  show ?thesis
  proof (cases "j = m - 1")
    case True
    then show ?thesis by (simp add: split)
  next
    case False
    with j have j': "j < m - 1" by simp
    with m have len: "j < length (take (m - 1) pool)" by simp
    have "take (m - 1) (pool[j := pool ! (m - 1)]) = (take (m - 1) pool)[j := pool ! (m - 1)]"
      by (rule take_update_swap)
    moreover have "pool ! j \<in># mset (take (m - 1) pool)"
      using len by (metis nth_mem_mset nth_take j')
    ultimately show ?thesis
      using len j' by (simp add: mset_update split)
  qed
qed

lemma distinct_mset_sub: "mset xs \<subseteq># mset ys \<Longrightarrow> distinct ys \<Longrightarrow> distinct xs"
proof (induction xs arbitrary: ys)
  case Nil
  then show ?case by simp
next
  case (Cons x xs)
  from Cons.prems(1) have sub: "mset xs \<subseteq># mset (remove1 x ys)"
    by (simp add: insert_subset_eq_iff)
  from Cons.IH [OF sub] Cons.prems(2) have "distinct xs" by simp
  moreover have "x \<notin> set xs"
  proof -
    have "set xs \<subseteq> set (remove1 x ys)" using set_mset_mono [OF sub] by (metis set_mset_mset)
    moreover have "x \<notin> set (remove1 x ys)" using Cons.prems(2) by simp
    ultimately show ?thesis by blast
  qed
  ultimately show ?case by simp
qed

lemma pool_sample_mset:
  assumes rb_ok: "randbelow_ok rb"
  shows "k \<le> m \<Longrightarrow> m \<le> length pool \<Longrightarrow> pool_sample rb m pool k r = (res, r') \<Longrightarrow>
         length res = k \<and> mset res \<subseteq># mset (take m pool)"
proof (induction k arbitrary: m pool r res r')
  case 0
  then show ?case by simp
next
  case (Suc k)
  obtain j r1 where rb: "rb m r = (j, r1)" by fastforce
  from Suc.prems(1) have "0 < m" by simp
  with rb_ok rb have j: "j < m" unfolding randbelow_ok_def by (metis fst_conv)
  let ?pool' = "pool[j := pool ! (m - 1)]"
  obtain rest r2 where rec: "pool_sample rb (m - 1) ?pool' k r1 = (rest, r2)" by fastforce
  with Suc.prems(3) rb have res: "res = pool ! j # rest" by simp
  from Suc.prems(1,2) have "k \<le> m - 1" and "m - 1 \<le> length ?pool'" by simp_all
  from Suc.IH [OF this rec]
  have IH: "length rest = k \<and> mset rest \<subseteq># mset (take (m - 1) ?pool')" .
  have "take m pool ! j = pool ! j" using j by simp
  moreover have "j < length (take m pool)" using j Suc.prems(2) by simp
  ultimately have in_take: "pool ! j \<in># mset (take m pool)" by (metis nth_mem_mset)
  have eq: "mset (take (m - 1) ?pool') = mset (take m pool) - {#pool ! j#}"
    by (rule mset_take_update_last [OF j Suc.prems(2)])
  from IH have "mset rest \<subseteq># mset (take (m - 1) ?pool')" by blast
  then have "mset rest \<subseteq># mset (take m pool) - {#pool ! j#}" by (simp only: eq)
  with in_take res have "mset res \<subseteq># mset (take m pool)"
    by (simp add: insert_subset_eq_iff)
  with IH res show ?case by simp
qed

lemma cpython_sample_ok:
  assumes "randbelow_ok rb" and "k \<le> n"
  shows "length (fst (pool_sample rb n [0..<n] k r)) = k \<and>
         distinct (fst (pool_sample rb n [0..<n] k r)) \<and>
         (\<forall>i \<in> set (fst (pool_sample rb n [0..<n] k r)). i < n)"
proof -
  obtain res r' where run: "pool_sample rb n [0..<n] k r = (res, r')" by fastforce
  then have fst_run: "fst (pool_sample rb n [0..<n] k r) = res" by simp
  from pool_sample_mset [OF assms(1) assms(2) _ run] have len: "length res = k"
    and sub: "mset res \<subseteq># mset [0..<n]" by simp_all
  from sub have "distinct res" by (rule distinct_mset_sub) simp
  moreover have "set res \<subseteq> {0..<n}" using set_mset_mono [OF sub] by simp
  ultimately show ?thesis using len unfolding fst_run by auto
qed

lemma cpython_source_ok:
  assumes "randbelow_ok rb" and rf: "random_ok rf"
  shows "source_ok (cpython_source rb rf)"
proof -
  have "\<forall>n r. 0 < n \<longrightarrow> fst (rb n r) < n" using assms(1) by (simp add: randbelow_ok_def)
  moreover have "\<forall>n k r. k \<le> n \<longrightarrow>
      length (fst (pool_sample rb n [0..<n] k r)) = k \<and> distinct (fst (pool_sample rb n [0..<n] k r)) \<and>
      (\<forall>i \<in> set (fst (pool_sample rb n [0..<n] k r)). i < n)"
    using cpython_sample_ok [OF assms(1)] by blast
  ultimately show ?thesis using rf by (simp add: source_ok_def cpython_source_def random_ok_def)
qed

lemma zero_source_ok: "source_ok zero_source"
  unfolding zero_source_def by (rule cpython_source_ok) (simp_all add: randbelow_ok_def random_ok_def)

lemma lcg_below_ok: "randbelow_ok lcg_below"
  unfolding randbelow_ok_def lcg_below_def by simp


section \<open>The Python functions on a source that meets the contract\<close>

lemma py_choice_Inr:
  "py_choice rs xs r = (Inr x, r') \<Longrightarrow> x \<in> set xs"
  by (auto simp: py_choice_def split: if_splits prod.splits)

lemma py_choice_empty: "py_choice rs [] r = (Inl IndexError, r)"
  by (simp add: py_choice_def)

lemma py_sample_Inr:
  assumes "py_sample rs xs k r = (Inr ys, r')"
  obtains "is" where "fst (rnd_sample rs (length xs) (nat k) r) = is"
    and "ys = map (\<lambda>i. xs ! i) is" and "\<forall>i \<in> set is. i < length xs"
    and "0 \<le> k" and "k \<le> int (length xs)"
  using assms by (auto simp: py_sample_def split: if_splits prod.splits)

lemma py_sample_ok:
  assumes ok: "source_ok rs" and k: "0 \<le> k" "k \<le> int (length xs)"
  obtains "is" r' where "py_sample rs xs k r = (Inr (map (\<lambda>i. xs ! i) is), r')"
    and "distinct is" and "length is = nat k" and "\<forall>i \<in> set is. i < length xs"
proof -
  obtain "is" r' where run: "rnd_sample rs (length xs) (nat k) r = (is, r')" by fastforce
  from ok k have "nat k \<le> length xs" by simp
  with ok run have "length is = nat k" and "distinct is" and "\<forall>i \<in> set is. i < length xs"
    unfolding source_ok_def by (metis fst_conv)+
  moreover from this(3) run k have "py_sample rs xs k r = (Inr (map (\<lambda>i. xs ! i) is), r')"
    by (simp add: py_sample_def)
  ultimately show ?thesis using that by blast
qed


lemma py_choice_ok:
  assumes "source_ok rs" and "xs \<noteq> []"
  shows "\<exists>x r'. py_choice rs xs r = (Inr x, r') \<and> x \<in> set xs"
proof -
  obtain i r' where d: "rnd_index rs (length xs) r = (i, r')" by fastforce
  from assms(1) have "\<forall>n r. 0 < n \<longrightarrow> fst (rnd_index rs n r) < n" by (simp add: source_ok_def)
  from this [rule_format, of "length xs" r] d assms(2) have "i < length xs" by simp
  with d assms(2) show ?thesis by (simp add: py_choice_def)
qed

lemma py_randint_ok:
  assumes "source_ok rs" and "a \<le> b"
  shows "\<exists>i r'. py_randint rs a b r = (Inr i, r') \<and> a \<le> i \<and> i \<le> b"
proof -
  obtain i r' where d: "rnd_index rs (nat (b - a + 1)) r = (i, r')" by fastforce
  from assms(1) have "\<forall>n r. 0 < n \<longrightarrow> fst (rnd_index rs n r) < n" by (simp add: source_ok_def)
  from this [rule_format, of "nat (b - a + 1)" r] d assms(2) have "i < nat (b - a + 1)" by simp
  with d assms(2) show ?thesis by (simp add: py_randint_def)
qed

lemma py_uniform_bounds:
  assumes "source_ok rs" and "a \<le> b"
  shows "a \<le> fst (py_uniform rs a b r) \<and> fst (py_uniform rs a b r) \<le> b"
proof -
  obtain u r' where d: "rnd_random rs r = (u, r')" by fastforce
  from assms(1) have "\<forall>r. 0 \<le> fst (rnd_random rs r) \<and> fst (rnd_random rs r) < 1"
    by (simp add: source_ok_def)
  from this [rule_format, of r] d have u: "0 \<le> u" "u < 1" by simp_all
  from u assms(2) have "(b - a) * u \<le> b - a" by (simp add: mult_left_le)
  with u assms(2) d show ?thesis by (simp add: py_uniform_def)
qed

end
