(* ===== verification/Importer.thy ===== *)
theory Importer
  imports Store Random_Source
begin

text \<open>
  \<open>import_to_database\<close> of \<open>src/data_import_export.py\<close> (lines 90--122) over
  the store of theory \<open>Store\<close> and the random source of theory \<open>Random_Source\<close>.  The
  state of a run is the database and the state of the random generator
  (\<open>world\<close>); every step is a function of the state to its outcome (a
  Python exception or a value) and the state reached.  The store calls commit
  one by one (no transaction spans the function), so an exception leaves the
  writes made before it in place.

  The three phases are the three loops of the source: \<open>import_authors\<close>
  (lines 93--97), \<open>import_books\<close> (lines 100--106, with the loop body
  \<open>assign_author\<close>, lines 103--105) and \<open>import_publishers\<close> (lines
  109--116, with the loop body \<open>import_publisher\<close>, lines 112--116).  The
  assignment \<open>book_data['author'] = ...\<close> also changes the caller's dicts in
  place; the rest of the function never reads them again, so the model keeps the
  updated dict local to the loop body.
\<close>

section \<open>The state of a run\<close>

record 'r world =
  w_db :: db
  w_rng :: 'r

definition on_db :: "(db \<Rightarrow> 'a py \<times> db) \<Rightarrow> 'r world \<Rightarrow> 'a py \<times> 'r world" where
  "on_db f w = (case f (w_db w) of (x, d') \<Rightarrow> (x, w\<lparr>w_db := d'\<rparr>))"

definition on_rng :: "('r \<Rightarrow> 'a py \<times> 'r) \<Rightarrow> 'r world \<Rightarrow> 'a py \<times> 'r world" where
  "on_rng f w = (case f (w_rng w) of (x, r') \<Rightarrow> (x, w\<lparr>w_rng := r'\<rparr>))"

definition db_read :: "(db \<Rightarrow> 'a) \<Rightarrow> 'r world \<Rightarrow> 'a py \<times> 'r world" where
  "db_read f w = (Inr (f (w_db w)), w)"

section \<open>The three phases\<close>

text \<open>Lines 93--96: \<open>for author_data in data['authors']: Author(**author_data)\<close>.\<close>

definition author_rows :: "pyval \<Rightarrow> row list py" where
  "author_rows data =
     sbind (py_getitem data ''authors'') (\<lambda>v. sbind (py_iter v) (smap (model_init author_fields)))"

text \<open>Lines 93--97, returning \<open>len(author_objs)\<close>.\<close>

definition import_authors :: "pyval \<Rightarrow> 'r world \<Rightarrow> nat py \<times> 'r world" where
  "import_authors data =
     ebind (elift (author_rows data))
       (\<lambda>rows. ebind (on_db (bulk_create Author rows)) (\<lambda>_. ereturn (length rows)))"

text \<open>Lines 103--105: draw the author (the right-hand side is evaluated first),
  store it under \<open>'author'\<close>, build the Book.\<close>

definition assign_author :: "'r random_source \<Rightarrow> pyval list \<Rightarrow> pyval \<Rightarrow> 'r world \<Rightarrow> row py \<times> 'r world" where
  "assign_author rs all_authors book_data =
     ebind (on_rng (py_choice rs all_authors))
       (\<lambda>a. elift (sbind (py_setitem book_data ''author'' a) (model_init book_fields)))"

text \<open>Lines 100--106, returning \<open>len(book_objs)\<close>.\<close>

definition import_books :: "'r random_source \<Rightarrow> pyval \<Rightarrow> 'r world \<Rightarrow> nat py \<times> 'r world" where
  "import_books rs data =
     ebind (db_read (objects_all Author))
       (\<lambda>all_authors. ebind (elift (sbind (py_getitem data ''books'') py_iter))
         (\<lambda>items. ebind (emap (assign_author rs all_authors) items)
           (\<lambda>rows. ebind (on_db (bulk_create Book rows)) (\<lambda>_. ereturn (length rows)))))"

text \<open>Line 115: \<open>publisher.books.set(...)\<close> on the instance that
  \<open>objects.create\<close> returned (always a Publisher instance).\<close>

definition related_books_set :: "pyval \<Rightarrow> pyval list \<Rightarrow> db \<Rightarrow> unit py \<times> db" where
  "related_books_set p objs d =
     (case p of PyInst c k \<Rightarrow> books_set k objs d | _ \<Rightarrow> (Inl TypeError, d))"

text \<open>Lines 112--116: create the publisher, draw \<open>min(10, len(all_books))\<close> books,
  link them.\<close>

definition import_publisher :: "'r random_source \<Rightarrow> pyval list \<Rightarrow> pyval \<Rightarrow> 'r world \<Rightarrow> pyval py \<times> 'r world" where
  "import_publisher rs all_books publisher_data =
     ebind (on_db (objects_create Publisher publisher_data))
       (\<lambda>p. ebind (on_rng (py_sample rs all_books (min 10 (int (length all_books)))))
         (\<lambda>books_to_assign. ebind (on_db (related_books_set p books_to_assign))
           (\<lambda>_. ereturn p)))"

text \<open>Lines 109--116, returning \<open>publisher_objs\<close>.\<close>

definition import_publishers :: "'r random_source \<Rightarrow> pyval \<Rightarrow> 'r world \<Rightarrow> pyval list py \<times> 'r world" where
  "import_publishers rs data =
     ebind (db_read (objects_all Book))
       (\<lambda>all_books. ebind (elift (sbind (py_getitem data ''publishers'') py_iter))
         (\<lambda>items. emap (import_publisher rs all_books) items))"

text \<open>The function: the three phases, then the dict of counts (lines 118--122).\<close>

definition import_to_database :: "'r random_source \<Rightarrow> pyval \<Rightarrow> 'r world \<Rightarrow> pyval py \<times> 'r world" where
  "import_to_database rs data =
     ebind (import_authors data)
       (\<lambda>na. ebind (import_books rs data)
         (\<lambda>nb. ebind (import_publishers rs data)
           (\<lambda>ps. ereturn (PyDict [(''authors'', PyInt (int na)), (''books'', PyInt (int nb)),
                                   (''publishers'', PyInt (int (length ps)))]))))"


text \<open>What the publishers loop has done so far, from the state \<open>w0\<close> it
  started in: books and authors untouched, one publisher row per created
  publisher, and each created publisher linked to \<open>min(10, n)\<close> distinct
  stored books.\<close>

definition publishers_done :: "'r world \<Rightarrow> pyval list \<Rightarrow> 'r world \<Rightarrow> bool" where
  "publishers_done w0 ps w \<longleftrightarrow>
     db_books (w_db w) = db_books (w_db w0) \<and> db_authors (w_db w) = db_authors (w_db w0) \<and>
     keys_ok (db_publishers (w_db w)) \<and>
     length (t_rows (db_publishers (w_db w))) = length (t_rows (db_publishers (w_db w0))) + length ps \<and>
     (\<forall>p \<in> set (table_keys (db_publishers (w_db w))). p \<notin> set (table_keys (db_publishers (w_db w0))) \<longrightarrow>
        distinct (related_books p (w_db w)) \<and>
        length (related_books p (w_db w)) = min 10 (length (t_rows (db_books (w_db w0)))) \<and>
        set (related_books p (w_db w)) \<subseteq> set (table_keys (db_books (w_db w0))))"

section \<open>A sample run\<close>

text \<open>Inputs on which the properties below are exercised: one record of each
  kind in the shape the generator produces them (cleaned) and an empty store;
  the random source is \<open>zero_source\<close> of theory \<open>Random_Source\<close>.\<close>

definition sample_author :: pyval where
  "sample_author = PyDict [(''name'', PyStr ''A''), (''birth_date'', PyDate (Date 1970 1 1)),
                           (''country'', PyStr ''C''), (''biography'', PyStr ''B'')]"

definition sample_book :: pyval where
  "sample_book = PyDict [(''title'', PyStr ''T''), (''publication_date'', PyDate (Date 2000 1 1)),
                         (''genre'', PyStr ''FIC''), (''isbn'', PyStr ''9780134685991''),
                         (''pages'', PyInt 100), (''price'', PyFloat (Fin 10))]"

definition sample_publisher :: pyval where
  "sample_publisher = PyDict [(''name'', PyStr ''P''), (''address'', PyStr ''Ad''),
                              (''website'', PyStr ''W''), (''contact_email'', PyStr ''E'')]"

definition sample_data :: "pyval list \<Rightarrow> pyval" where
  "sample_data authors = PyDict [(''authors'', PyList authors), (''books'', PyList [sample_book]),
                                 (''publishers'', PyList [sample_publisher])]"

definition start_world :: "unit world" where
  "start_world = \<lparr>w_db = empty_db, w_rng = ()\<rparr>"

section \<open>Lemmas on the steps\<close>

lemma on_db_result:
  "on_db f w = (x, w') \<longleftrightarrow> (\<exists>d'. f (w_db w) = (x, d') \<and> w' = w\<lparr>w_db := d'\<rparr>)"
  by (auto simp: on_db_def split: prod.splits)

lemma on_rng_result:
  "on_rng f w = (x, w') \<longleftrightarrow> (\<exists>r'. f (w_rng w) = (x, r') \<and> w' = w\<lparr>w_rng := r'\<rparr>)"
  by (auto simp: on_rng_def split: prod.splits)

lemma db_read_result: "db_read f w = (x, w') \<longleftrightarrow> x = Inr (f (w_db w)) \<and> w' = w"
  by (auto simp: db_read_def)

lemmas step_results = on_db_result on_rng_result db_read_result

text \<open>Drawing an author and building a book leaves the database alone.\<close>

lemma assign_author_db: "assign_author rs as bd w = (r, w') \<Longrightarrow> w_db w' = w_db w"
  by (auto simp: assign_author_def step_results elim!: ebind_cases)

lemma assign_authors_db: "emap (assign_author rs as) bds w = (r, w') \<Longrightarrow> w_db w' = w_db w"
  using emap_invariant [where I = "\<lambda>v. w_db v = w_db w"] assign_author_db by metis

lemma bulk_create_wf: "bulk_create m rs d = (r, d') \<Longrightarrow> db_wf d \<Longrightarrow> db_wf d'"
  unfolding bulk_create_def by (rule insert_rows_wf)

text \<open>The instance \<open>objects.create\<close> returns is a stored publisher.\<close>

lemma objects_create_publisher_key:
  assumes "objects_create Publisher kw d = (Inr p, d')"
  shows "p = PyInst ''Publisher'' (t_next (db_publishers d)) \<and>
         t_next (db_publishers d) \<in> set (table_keys (db_publishers d'))"
  using assms by (rule objects_create_Inr) (simp add: new_key_stored)

lemma related_books_set_wf:
  assumes "related_books_set (PyInst c k) objs d = (r, d')"
    and "k \<in> set (table_keys (db_publishers d))" and "db_wf d"
  shows "db_wf d'"
  using assms by (simp add: related_books_set_def books_set_wf)

lemma import_publisher_wf:
  assumes run: "import_publisher rs bs pd w = (r, w')" and wf: "db_wf (w_db w)"
  shows "db_wf (w_db w')"
  using run unfolding import_publisher_def
proof (cases rule: ebind_cases)
  case (raised e)
  with wf show ?thesis by (auto simp: on_db_result intro: objects_create_wf)
next
  case (returned p w1)
  then obtain d1 where cr: "objects_create Publisher pd (w_db w) = (Inr p, d1)"
    and w1: "w1 = w\<lparr>w_db := d1\<rparr>" by (auto simp: on_db_result)
  from objects_create_wf [OF cr wf] have wf1: "db_wf d1" .
  from objects_create_publisher_key [OF cr] obtain k where p: "p = PyInst ''Publisher'' k"
    and k: "k \<in> set (table_keys (db_publishers d1))" by blast
  from returned(2) show ?thesis
  proof (cases rule: ebind_cases)
    case (raised e)
    with w1 wf1 show ?thesis by (auto simp: on_rng_result)
  next
    case (returned bs' w2)
    then have w2: "w_db w2 = d1" using w1 by (auto simp: on_rng_result)
    from returned(2) show ?thesis
      by (cases rule: ebind_cases)
         (use w2 p k wf1 in \<open>auto simp: on_db_result intro: related_books_set_wf\<close>)
  qed
qed


lemma import_authors_wf:
  "import_authors data w = (r, w') \<Longrightarrow> db_wf (w_db w) \<Longrightarrow> db_wf (w_db w')"
  by (auto simp: import_authors_def on_db_result elim!: ebind_cases) (blast dest: bulk_create_wf)+

lemma import_books_wf:
  assumes "import_books rs data w = (r, w')" and "db_wf (w_db w)"
  shows "db_wf (w_db w')"
  using assms unfolding import_books_def
  by (auto simp: step_results elim!: ebind_cases dest!: assign_authors_db) (metis bulk_create_wf)+

lemma import_publishers_wf:
  assumes "import_publishers rs data w = (r, w')" and "db_wf (w_db w)"
  shows "db_wf (w_db w')"
  using assms unfolding import_publishers_def
proof (cases rule: ebind_cases)
  case (returned bs w1)
  then have w1: "w1 = w" by (simp add: db_read_result)
  from returned(2) show ?thesis
    by (cases rule: ebind_cases)
       (use w1 assms(2) in \<open>auto intro: emap_invariant [where I = "\<lambda>v. db_wf (w_db v)"] import_publisher_wf\<close>)
qed (simp add: db_read_result)


section \<open>The successful runs of the phases\<close>

lemma import_authors_Inr:
  assumes "import_authors data w = (Inr n, w')"
  obtains rows stored where "author_rows data = Inr rows" and "n = length rows"
    and "smap (prep_row author_fields) rows = Inr stored"
    and "w_db w' = put_table Author (table_append (db_authors (w_db w)) stored) (w_db w)"
    and "w_rng w' = w_rng w"
proof -
  from assms obtain rows w1 where rows: "author_rows data = Inr rows"
    and ins: "on_db (bulk_create Author rows) w = (Inr (), w1)" and n: "n = length rows" and w1: "w' = w1"
    unfolding import_authors_def by (auto simp: ebind_eq_Inr elift_def ereturn_def)
  from ins obtain d1 where "insert_rows Author rows (w_db w) = (Inr (), d1)" and "w1 = w\<lparr>w_db := d1\<rparr>"
    by (auto simp: on_db_result bulk_create_def)
  with rows n w1 that show ?thesis by (auto elim!: insert_rows_Inr)
qed

lemma author_rows_Inr:
  assumes "author_rows data = Inr rows"
  obtains items where "sbind (py_getitem data ''authors'') py_iter = Inr items"
    and "length rows = length items"
  using assms unfolding author_rows_def
  by (auto simp: sbind_eq_Inr dest: smap_Inr_length)

lemma import_books_Inr:
  assumes "import_books rs data w = (Inr n, w')"
  obtains items rows where "sbind (py_getitem data ''books'') py_iter = Inr items"
    and "length rows = length items" and "n = length rows"
    and "\<exists>stored. smap (prep_row book_fields) rows = Inr stored \<and>
           w_db w' = put_table Book (table_append (db_books (w_db w)) stored) (w_db w)"
proof -
  from assms obtain items w1 rows w2 where items: "sbind (py_getitem data ''books'') py_iter = Inr items"
    and loop: "emap (assign_author rs (objects_all Author (w_db w))) items w = (Inr rows, w2)"
    and ins: "on_db (bulk_create Book rows) w2 = (Inr (), w1)" and n: "n = length rows" and w1: "w' = w1"
    unfolding import_books_def by (auto simp: ebind_eq_Inr db_read_result)
  from loop have len: "length rows = length items" and w2: "w_db w2 = w_db w"
    by (simp_all add: emap_Inr_length assign_authors_db)
  from ins obtain d1 where "insert_rows Book rows (w_db w2) = (Inr (), d1)" and "w1 = w2\<lparr>w_db := d1\<rparr>"
    by (auto simp: on_db_result bulk_create_def)
  with w1 w2 have "\<exists>stored. smap (prep_row book_fields) rows = Inr stored \<and>
      w_db w' = put_table Book (table_append (db_books (w_db w)) stored) (w_db w)"
    by (auto elim!: insert_rows_Inr)
  with items len n show ?thesis using that by blast
qed

lemma import_publisher_Inr:
  assumes "import_publisher rs bs pd w = (Inr p, w')"
  obtains row0 row sel r' where "model_init publisher_fields pd = Inr row0"
    and "prep_row publisher_fields row0 = Inr row"
    and "py_sample rs bs (min 10 (int (length bs))) (w_rng w) = (Inr sel, r')"
    and "p = PyInst ''Publisher'' (t_next (db_publishers (w_db w)))"
    and "books_set (t_next (db_publishers (w_db w))) sel
           (put_table Publisher (table_append (db_publishers (w_db w)) [row]) (w_db w)) = (Inr (), w_db w')"
    and "w_rng w' = r'"
proof -
  from assms obtain p' w1 where cr: "on_db (objects_create Publisher pd) w = (Inr p', w1)"
    and rest: "ebind (on_rng (py_sample rs bs (min 10 (int (length bs)))))
                 (\<lambda>b. ebind (on_db (related_books_set p' b)) (\<lambda>_. ereturn p')) w1 = (Inr p, w')"
    unfolding import_publisher_def by (auto simp: ebind_eq_Inr)
  from cr obtain d1 where cr': "objects_create Publisher pd (w_db w) = (Inr p', d1)"
    and w1: "w1 = w\<lparr>w_db := d1\<rparr>" by (auto simp: on_db_result)
  from cr' obtain row0 row where row0: "model_init publisher_fields pd = Inr row0"
    and row: "prep_row publisher_fields row0 = Inr row"
    and d1: "d1 = put_table Publisher (table_append (db_publishers (w_db w)) [row]) (w_db w)"
    and p': "p' = PyInst ''Publisher'' (t_next (db_publishers (w_db w)))"
    by (rule objects_create_Inr) simp_all
  from rest obtain sel w2 where smp: "on_rng (py_sample rs bs (min 10 (int (length bs)))) w1 = (Inr sel, w2)"
    and set: "ebind (on_db (related_books_set p' sel)) (\<lambda>_. ereturn p') w2 = (Inr p, w')"
    by (auto simp: ebind_eq_Inr)
  from smp w1 obtain r' where smp': "py_sample rs bs (min 10 (int (length bs))) (w_rng w) = (Inr sel, r')"
    and w2: "w2 = w\<lparr>w_db := d1, w_rng := r'\<rparr>" by (auto simp: on_rng_result)
  from set w2 p' d1 have "books_set (t_next (db_publishers (w_db w))) sel
      (put_table Publisher (table_append (db_publishers (w_db w)) [row]) (w_db w)) = (Inr (), w_db w')"
    and "p = p'" and "w_rng w' = r'"
    by (auto simp: ebind_eq_Inr on_db_result related_books_set_def)
  with row0 row smp' p' show ?thesis using that by blast
qed


lemma import_publisher_step:
  assumes "import_publisher rs bs pd w = (Inr p, w')"
  obtains row sel where "p = PyInst ''Publisher'' (t_next (db_publishers (w_db w)))"
    and "py_sample rs bs (min 10 (int (length bs))) (w_rng w) = (Inr sel, w_rng w')"
    and "w_db w' = (put_table Publisher (table_append (db_publishers (w_db w)) [row]) (w_db w))
           \<lparr>db_links := filter (\<lambda>l. fst l \<noteq> t_next (db_publishers (w_db w))) (db_links (w_db w)) @
              map (Pair (t_next (db_publishers (w_db w)))) (remdups (map (\<lambda>x. the (book_key x)) sel))\<rparr>"
  using assms by (rule import_publisher_Inr) (auto dest!: books_set_Inr)

text \<open>The books drawn for one publisher: \<open>min(10, n)\<close> distinct stored books.\<close>

lemma sampled_books:
  assumes ok: "source_ok rs" and keys: "distinct (table_keys (db_books d))"
    and run: "py_sample rs (objects_all Book d) (min 10 (int (length (objects_all Book d)))) r = (Inr sel, r')"
  shows "length (remdups (map (\<lambda>x. the (book_key x)) sel)) = min 10 (length (t_rows (db_books d)))"
    and "set (remdups (map (\<lambda>x. the (book_key x)) sel)) \<subseteq> set (table_keys (db_books d))"
proof -
  let ?k = "min 10 (int (length (objects_all Book d)))"
  from run obtain "is" where is_run: "fst (rnd_sample rs (length (objects_all Book d)) (nat ?k) r) = is"
    and sel: "sel = map (\<lambda>i. objects_all Book d ! i) is"
    and bound: "\<forall>i \<in> set is. i < length (objects_all Book d)"
    by (rule py_sample_Inr) simp
  from ok is_run have "distinct is" and len: "length is = nat ?k"
    unfolding source_ok_def by (metis nat_le_iff min.cobounded2 of_nat_le_iff)+
  with keys bound have eq: "remdups (map (\<lambda>x. the (book_key x)) sel) = map (\<lambda>i. table_keys (db_books d) ! i) is"
    unfolding sel by (intro sample_book_keys) (simp_all add: objects_all_def)
  show "length (remdups (map (\<lambda>x. the (book_key x)) sel)) = min 10 (length (t_rows (db_books d)))"
    unfolding eq using len by (simp add: objects_all_def min_def)
  show "set (remdups (map (\<lambda>x. the (book_key x)) sel)) \<subseteq> set (table_keys (db_books d))"
    unfolding eq using bound by (auto simp: objects_all_def table_keys_def)
qed


lemma publishers_done_start: "keys_ok (db_publishers (w_db w0)) \<Longrightarrow> publishers_done w0 [] w0"
  by (simp add: publishers_done_def)

lemma publishers_done_step:
  assumes src: "source_ok rs" and keys: "distinct (table_keys (db_books (w_db w0)))"
    and run: "import_publisher rs (objects_all Book (w_db w0)) pd w = (Inr p, w')"
    and sofar: "publishers_done w0 ps w"
  shows "publishers_done w0 (ps @ [p]) w'"
proof -
  let ?T = "db_publishers (w_db w)"
  let ?k = "t_next ?T"
  from run obtain row sel where
    smp: "py_sample rs (objects_all Book (w_db w0)) (min 10 (int (length (objects_all Book (w_db w0))))) (w_rng w)
            = (Inr sel, w_rng w')"
    and w': "w_db w' = (put_table Publisher (table_append ?T [row]) (w_db w))
           \<lparr>db_links := filter (\<lambda>l. fst l \<noteq> ?k) (db_links (w_db w)) @
              map (Pair ?k) (remdups (map (\<lambda>x. the (book_key x)) sel))\<rparr>"
    by (rule import_publisher_step) blast
  let ?ks = "remdups (map (\<lambda>x. the (book_key x)) sel)"
  from sampled_books [OF src keys smp]
  have len: "length ?ks = min 10 (length (t_rows (db_books (w_db w0))))"
    and sub: "set ?ks \<subseteq> set (table_keys (db_books (w_db w0)))" by simp_all
  from sofar have kT: "keys_ok ?T" by (simp add: publishers_done_def)
  have keys': "table_keys (db_publishers (w_db w')) = table_keys ?T @ [?k]"
    by (simp add: w' table_append_keys)
  have rel: "related_books q (w_db w') = (if q = ?k then ?ks else related_books q (w_db w))" for q
  proof -
    have "related_books q (w_db w') = related_books q ((w_db w)\<lparr>db_links :=
        filter (\<lambda>l. fst l \<noteq> ?k) (db_links (w_db w)) @ map (Pair ?k) ?ks\<rparr>)"
      by (simp add: w' related_books_def)
    then show ?thesis by (simp only: related_books_relink)
  qed
  show ?thesis
    unfolding publishers_done_def
  proof (intro conjI ballI impI)
    show "keys_ok (db_publishers (w_db w'))" using kT by (simp add: w' keys_ok_append)
    show "length (t_rows (db_publishers (w_db w'))) =
            length (t_rows (db_publishers (w_db w0))) + length (ps @ [p])"
      using sofar by (simp add: w' publishers_done_def table_append_def)
    fix q assume q: "q \<in> set (table_keys (db_publishers (w_db w')))"
      and new: "q \<notin> set (table_keys (db_publishers (w_db w0)))"
    show "distinct (related_books q (w_db w'))"
      and "length (related_books q (w_db w')) = min 10 (length (t_rows (db_books (w_db w0))))"
      and "set (related_books q (w_db w')) \<subseteq> set (table_keys (db_books (w_db w0)))"
      using sofar q new len sub unfolding rel keys' publishers_done_def by auto
  qed (use sofar in \<open>simp_all add: w' publishers_done_def\<close>)
qed


lemma import_publishers_Inr:
  assumes src: "source_ok rs" and wf: "db_wf (w_db w)"
    and run: "import_publishers rs data w = (Inr ps, w')"
  obtains items where "sbind (py_getitem data ''publishers'') py_iter = Inr items"
    and "length ps = length items" and "publishers_done w ps w'"
proof -
  from run obtain items where items: "sbind (py_getitem data ''publishers'') py_iter = Inr items"
    and loop: "emap (import_publisher rs (objects_all Book (w_db w))) items w = (Inr ps, w')"
    unfolding import_publishers_def by (auto simp: ebind_eq_Inr db_read_result)
  from wf have kb: "distinct (table_keys (db_books (w_db w)))"
    and kp: "keys_ok (db_publishers (w_db w))"
    by (auto simp: db_wf_iff table_wf_def keys_ok_def dest: spec [of _ Book] spec [of _ Publisher])
  have "publishers_done w ([] @ ps) w'"
    using publishers_done_step [OF src kb] loop publishers_done_start [OF kp]
    by (rule emap_collect [where J = "publishers_done w"])
  with items loop show ?thesis using that by (simp add: emap_Inr_length)
qed


text \<open>The publishers loop on any source: one new publisher row per created
  publisher, books and authors untouched.\<close>

lemma import_publishers_rows:
  assumes run: "import_publishers rs data w = (Inr ps, w')"
  obtains items where "sbind (py_getitem data ''publishers'') py_iter = Inr items"
    and "length ps = length items"
    and "length (t_rows (db_publishers (w_db w'))) = length (t_rows (db_publishers (w_db w))) + length ps"
    and "db_books (w_db w') = db_books (w_db w)" and "db_authors (w_db w') = db_authors (w_db w)"
proof -
  from run obtain items where items: "sbind (py_getitem data ''publishers'') py_iter = Inr items"
    and loop: "emap (import_publisher rs (objects_all Book (w_db w))) items w = (Inr ps, w')"
    unfolding import_publishers_def by (auto simp: ebind_eq_Inr db_read_result)
  let ?J = "\<lambda>acc v. length (t_rows (db_publishers (w_db v))) = length (t_rows (db_publishers (w_db w))) + length acc \<and>
                   db_books (w_db v) = db_books (w_db w) \<and> db_authors (w_db v) = db_authors (w_db w)"
  have step: "?J (acc @ [p]) v'" if "import_publisher rs bs pd v = (Inr p, v')" and "?J acc v" for bs pd v p v' acc
    using that(1) by (rule import_publisher_step) (use that(2) in \<open>simp add: table_append_def\<close>)
  have "?J ([] @ ps) w'"
    using step loop by (rule emap_collect [where J = ?J]) simp_all
  with items loop show ?thesis using that by (simp add: emap_Inr_length)
qed

text \<open>The publisher phase of a run that returns: it starts from a store with
  the publishers of the input store, and ends with \<open>publishers_done\<close>.\<close>

lemma import_to_database_publishers:
  assumes src: "source_ok rs" and wf: "db_wf (w_db w)"
    and run: "import_to_database rs data w = (Inr v, w')"
  obtains w2 ps where "publishers_done w2 ps w'" and "db_publishers (w_db w2) = db_publishers (w_db w)"
proof -
  from run obtain na w1 nb w2 ps where a: "import_authors data w = (Inr na, w1)"
    and b: "import_books rs data w1 = (Inr nb, w2)" and pp: "import_publishers rs data w2 = (Inr ps, w')"
    unfolding import_to_database_def by (auto simp: ebind_eq_Inr)
  from a have pub1: "db_publishers (w_db w1) = db_publishers (w_db w)"
    by (rule import_authors_Inr) simp
  from b have pub2: "db_publishers (w_db w2) = db_publishers (w_db w1)"
    by (rule import_books_Inr) auto
  from import_books_wf [OF b import_authors_wf [OF a wf]] have wf2: "db_wf (w_db w2)" .
  from src wf2 pp obtain items where "publishers_done w2 ps w'"
    by (rule import_publishers_Inr)
  with pub1 pub2 that show ?thesis by simp
qed

text \<open>No link of a well-formed store starts at the key a new publisher gets.\<close>

lemma links_fresh_publisher:
  assumes "db_wf d"
  shows "filter (\<lambda>l. fst l \<noteq> t_next (db_publishers d)) (db_links d) = db_links d"
proof -
  from assms have "keys_ok (db_publishers d)" and "links_ok d"
    by (auto simp: db_wf_iff table_wf_def dest: spec [of _ Publisher])
  then have "\<forall>l \<in> set (db_links d). fst l \<noteq> t_next (db_publishers d)"
    unfolding keys_ok_def links_ok_def by fastforce
  then show ?thesis by (simp add: filter_id_conv)
qed

text \<open>Whatever the input and the random draws, and whether it returns or
  raises, the import leaves a well-formed store well formed.\<close>

lemma import_to_database_wf:
  assumes "db_wf (w_db w)" and "import_to_database rs data w = (r, w')"
  shows "db_wf (w_db w')"
  using assms(2) unfolding import_to_database_def
  by (auto elim!: ebind_cases) (metis import_authors_wf import_books_wf import_publishers_wf assms(1))+

section \<open>Properties of the importer\<close>

text \<open>C11 (spec section 8, round trip of the counts): when the import returns,
  it returns the dict \<open>{'authors': a, 'books': b, 'publishers': p}\<close> of the
  lengths of the three input sequences, and each table has grown by exactly its
  count.\<close>

theorem import_to_database_counts:
  assumes run: "import_to_database rs data w = (Inr v, w')"
  shows "\<exists>as bs ps.
    sbind (py_getitem data ''authors'') py_iter = Inr as \<and>
    sbind (py_getitem data ''books'') py_iter = Inr bs \<and>
    sbind (py_getitem data ''publishers'') py_iter = Inr ps \<and>
    v = PyDict [(''authors'', PyInt (int (length as))), (''books'', PyInt (int (length bs))),
                (''publishers'', PyInt (int (length ps)))] \<and>
    length (t_rows (db_authors (w_db w'))) = length (t_rows (db_authors (w_db w))) + length as \<and>
    length (t_rows (db_books (w_db w'))) = length (t_rows (db_books (w_db w))) + length bs \<and>
    length (t_rows (db_publishers (w_db w'))) = length (t_rows (db_publishers (w_db w))) + length ps"
proof -
  from run obtain na w1 nb w2 ps where a: "import_authors data w = (Inr na, w1)"
    and b: "import_books rs data w1 = (Inr nb, w2)" and p: "import_publishers rs data w2 = (Inr ps, w')"
    and v: "v = PyDict [(''authors'', PyInt (int na)), (''books'', PyInt (int nb)),
                        (''publishers'', PyInt (int (length ps)))]"
    unfolding import_to_database_def by (auto simp: ebind_eq_Inr)
  from a obtain rows arows where ar: "author_rows data = Inr rows" and na: "na = length rows"
    and conv: "smap (prep_row author_fields) rows = Inr arows"
    and w1: "w_db w1 = put_table Author (table_append (db_authors (w_db w)) arows) (w_db w)"
    by (rule import_authors_Inr)
  from ar obtain as where as: "sbind (py_getitem data ''authors'') py_iter = Inr as"
    and lra: "length rows = length as" by (rule author_rows_Inr)
  with conv have la: "length arows = length as" by (simp add: smap_Inr_length)
  from b obtain bs brows where bs: "sbind (py_getitem data ''books'') py_iter = Inr bs"
    and lbr: "length brows = length bs" and nb: "nb = length brows"
    and "\<exists>stored. smap (prep_row book_fields) brows = Inr stored \<and>
           w_db w2 = put_table Book (table_append (db_books (w_db w1)) stored) (w_db w1)"
    by (rule import_books_Inr)
  then obtain bstored where lb: "length bstored = length bs"
    and w2: "w_db w2 = put_table Book (table_append (db_books (w_db w1)) bstored) (w_db w1)"
    by (auto dest: smap_Inr_length)
  from p obtain items where items: "sbind (py_getitem data ''publishers'') py_iter = Inr items"
    and lp: "length ps = length items"
    and pubs: "length (t_rows (db_publishers (w_db w'))) = length (t_rows (db_publishers (w_db w2))) + length ps"
    and books: "db_books (w_db w') = db_books (w_db w2)" and authors: "db_authors (w_db w') = db_authors (w_db w2)"
    by (rule import_publishers_rows)
  show ?thesis
    by (rule exI [of _ as], rule exI [of _ bs], rule exI [of _ items])
       (use as bs items v na nb la lb lp pubs lra lbr in \<open>simp add: books authors w1 w2 table_append_def\<close>)
qed


theorem import_to_database_counts_witness:
  "\<exists>as bs ps.
    sbind (py_getitem (sample_data [sample_author]) ''authors'') py_iter = Inr as \<and>
    sbind (py_getitem (sample_data [sample_author]) ''books'') py_iter = Inr bs \<and>
    sbind (py_getitem (sample_data [sample_author]) ''publishers'') py_iter = Inr ps \<and>
    PyDict [(''authors'', PyInt 1), (''books'', PyInt 1), (''publishers'', PyInt 1)] =
      PyDict [(''authors'', PyInt (int (length as))), (''books'', PyInt (int (length bs))),
              (''publishers'', PyInt (int (length ps)))] \<and>
    length (t_rows (db_authors (w_db (snd (import_to_database zero_source (sample_data [sample_author]) start_world))))) = length (t_rows (db_authors (w_db start_world))) + length as \<and>
    length (t_rows (db_books (w_db (snd (import_to_database zero_source (sample_data [sample_author]) start_world))))) = length (t_rows (db_books (w_db start_world))) + length bs \<and>
    length (t_rows (db_publishers (w_db (snd (import_to_database zero_source (sample_data [sample_author]) start_world))))) = length (t_rows (db_publishers (w_db start_world))) + length ps"
proof -
  have "fst (import_to_database zero_source (sample_data [sample_author]) start_world) = Inr (PyDict [(''authors'', PyInt 1), (''books'', PyInt 1), (''publishers'', PyInt 1)])"
    by code_simp
  then have "import_to_database zero_source (sample_data [sample_author]) start_world = (Inr (PyDict [(''authors'', PyInt 1), (''books'', PyInt 1), (''publishers'', PyInt 1)]),
                    snd (import_to_database zero_source (sample_data [sample_author]) start_world))" by (metis prod.collapse)
  then show ?thesis by (rule import_to_database_counts)
qed

text \<open>C12 (spec sections 4.3 and 8): on a source that meets the contract, every
  publisher a successful import creates is linked to exactly
  \<open>min(10, n)\<close> distinct stored books, \<open>n\<close> the number of books in the store.\<close>

theorem import_publisher_books:
  assumes src: "source_ok rs" and wf: "db_wf (w_db w)"
    and run: "import_to_database rs data w = (Inr v, w')"
    and p: "p \<in> set (table_keys (db_publishers (w_db w')))"
    and new: "p \<notin> set (table_keys (db_publishers (w_db w)))"
  shows "distinct (related_books p (w_db w')) \<and>
         length (related_books p (w_db w')) = min 10 (length (t_rows (db_books (w_db w')))) \<and>
         set (related_books p (w_db w')) \<subseteq> set (table_keys (db_books (w_db w')))"
proof -
  from src wf run obtain w2 ps where "publishers_done w2 ps w'"
    and "db_publishers (w_db w2) = db_publishers (w_db w)"
    by (rule import_to_database_publishers)
  with p new show ?thesis by (simp add: publishers_done_def)
qed

theorem import_publisher_books_witness:
  "distinct (related_books 1 (w_db (snd (import_to_database zero_source (sample_data [sample_author]) start_world)))) \<and>
   length (related_books 1 (w_db (snd (import_to_database zero_source (sample_data [sample_author]) start_world)))) = min 10 (length (t_rows (db_books (w_db (snd (import_to_database zero_source (sample_data [sample_author]) start_world)))))) \<and>
   set (related_books 1 (w_db (snd (import_to_database zero_source (sample_data [sample_author]) start_world)))) \<subseteq> set (table_keys (db_books (w_db (snd (import_to_database zero_source (sample_data [sample_author]) start_world)))))"
proof -
  have src: "source_ok zero_source" by (rule zero_source_ok)
  have wf0: "db_wf (w_db start_world)" by code_simp
  have "fst (import_to_database zero_source (sample_data [sample_author]) start_world) = Inr (PyDict [(''authors'', PyInt 1), (''books'', PyInt 1), (''publishers'', PyInt 1)])"
    by code_simp
  then have run: "import_to_database zero_source (sample_data [sample_author]) start_world = (Inr (PyDict [(''authors'', PyInt 1), (''books'', PyInt 1), (''publishers'', PyInt 1)]),
                    snd (import_to_database zero_source (sample_data [sample_author]) start_world))" by (metis prod.collapse)
  have p1: "1 \<in> set (table_keys (db_publishers (w_db (snd (import_to_database zero_source (sample_data [sample_author]) start_world)))))" by code_simp
  have p0: "1 \<notin> set (table_keys (db_publishers (w_db start_world)))" by code_simp
  show ?thesis by (rule import_publisher_books [OF src wf0 run p1 p0])
qed

text \<open>C13: \<open>main\<close> passes the cleaner's output, a list, where a dict is
  expected: \<open>data['authors']\<close> on a list raises \<open>TypeError\<close> before anything
  is stored or drawn.\<close>

theorem import_to_database_list_input:
  "import_to_database rs (PyList xs) w = (Inl TypeError, w)"
  by (simp add: import_to_database_def import_authors_def author_rows_def ebind_def)

text \<open>C14 (spec section 8, scenario): against an empty author table, with no
  authors to import and at least one book, the import raises \<open>IndexError\<close>
  (\<open>random.choice\<close> of an empty list) and the store and the generator are
  exactly as before: no book is persisted.\<close>

theorem import_no_authors_fails:
  assumes "t_rows (db_authors (w_db w)) = []"
    and "py_getitem data ''authors'' = Inr (PyList [])"
    and "py_getitem data ''books'' = Inr (PyList (b # bs))"
  shows "import_to_database rs data w = (Inl IndexError, w)"
proof -
  have "unique_ok author_fields []" by (simp add: unique_ok_def author_fields_def field_def)
  with assms(1) have ins: "bulk_create Author [] (w_db w) = (Inr (), w_db w)"
    by (simp add: bulk_create_def insert_rows_Nil)
  have "import_authors data w = (Inr 0, w)"
    using assms(2) ins by (simp add: import_authors_def author_rows_def ebind_def on_db_def)
  moreover have "objects_all Author (w_db w) = []" using assms(1) by (simp add: objects_all_def)
  then have "import_books rs data w = (Inl IndexError, w)"
    using assms(3) by (simp add: import_books_def assign_author_def ebind_def db_read_def on_rng_def py_choice_empty)
  ultimately show ?thesis by (simp add: import_to_database_def ebind_def)
qed

theorem import_no_authors_fails_witness:
  "import_to_database zero_source (sample_data []) start_world = (Inl IndexError, start_world)"
proof (rule import_no_authors_fails)
  show "t_rows (db_authors (w_db start_world)) = []" by code_simp
  show "py_getitem (sample_data []) ''authors'' = Inr (PyList [])" by code_simp
  show "py_getitem (sample_data []) ''books'' = Inr (PyList [sample_book])" by code_simp
qed

text \<open>C15: the book phase is all or nothing: when it raises (no author to draw,
  a record that is not a dict, a bad keyword, a constraint violated by any row),
  no book is stored and the store is unchanged.\<close>

theorem import_books_atomic:
  assumes "import_books rs data w = (Inl e, w')"
  shows "w_db w' = w_db w"
  using assms unfolding import_books_def
  by (auto simp: step_results bulk_create_def elim!: ebind_cases dest!: assign_authors_db)
     (blast dest: insert_rows_Inl)

theorem import_books_atomic_witness:
  "w_db (snd (import_books zero_source (sample_data []) start_world)) = w_db start_world"
proof -
  have "import_books zero_source (sample_data []) start_world = (Inl IndexError, start_world)" by code_simp
  then have "import_books zero_source (sample_data []) start_world =
      (Inl IndexError, snd (import_books zero_source (sample_data []) start_world))" by simp
  then show ?thesis by (rule import_books_atomic)
qed

text \<open>C16 (divergence from spec section 4.3): with no book in the store, a
  publisher is still created and \<open>random.sample(all_books, 0)\<close> returns the
  empty list, so the publisher gets no books and the import does not fail.\<close>

theorem import_publisher_no_books:
  assumes src: "source_ok rs" and wf: "db_wf (w_db w)"
    and cr: "objects_create Publisher pd (w_db w) = (Inr p, d')"
  shows "\<exists>w'. import_publisher rs [] pd w = (Inr p, w') \<and> w_db w' = d' \<and>
              related_books (t_next (db_publishers (w_db w))) d' = []"
proof -
  obtain r' where smp': "py_sample rs ([] :: pyval list) 0 (w_rng w) = (Inr [], r')"
    by (rule py_sample_ok [OF src, of 0 "[]" "w_rng w"]) auto
  from cr obtain row where p: "p = PyInst ''Publisher'' (t_next (db_publishers (w_db w)))"
    and d': "d' = put_table Publisher (table_append (db_publishers (w_db w)) [row]) (w_db w)"
    by (rule objects_create_Inr) simp_all
  have set: "books_set (t_next (db_publishers (w_db w))) [] d' = (Inr (), d')"
    using links_fresh_publisher [OF wf] by (simp add: books_set_def d')
  have "import_publisher rs [] pd w = (Inr p, w\<lparr>w_db := d', w_rng := r'\<rparr>)"
    using cr smp' set p
    by (simp add: import_publisher_def ebind_def on_db_def on_rng_def related_books_set_def)
  moreover have "related_books (t_next (db_publishers (w_db w))) d' = []"
    using links_fresh_publisher [OF wf]
    by (simp add: d' related_books_def filter_empty_conv) (metis (mono_tags, lifting) filter_id_conv)
  ultimately show ?thesis by auto
qed

theorem import_publisher_no_books_witness:
  "\<exists>w'. import_publisher zero_source [] sample_publisher start_world = (Inr (PyInst ''Publisher'' 1), w') \<and>
        w_db w' = snd (objects_create Publisher sample_publisher (w_db start_world)) \<and>
        related_books (t_next (db_publishers (w_db start_world)))
          (snd (objects_create Publisher sample_publisher (w_db start_world))) = []"
proof -
  have src: "source_ok zero_source" by (rule zero_source_ok)
  have wf0: "db_wf (w_db start_world)" by code_simp
  have "objects_create Publisher sample_publisher (w_db start_world) =
      (Inr (PyInst ''Publisher'' 1), snd (objects_create Publisher sample_publisher (w_db start_world)))"
    by code_simp
  then show ?thesis by (rule import_publisher_no_books [OF src wf0])
qed

end
