(* ===== verification/Import_Success.thy ===== *)
theory Import_Success
  imports Importer
begin

text \<open>
  When \<open>import_to_database\<close> (theory \<open>Importer\<close>) returns.  The theory
  \<open>Importer\<close> shows what a run that returns has done; this theory gives the
  conditions under which each phase returns and the run as a whole returns its
  dict of counts: every record builds a row whose values the save converts
  (\<open>prep_row\<close>: dates, integers, decimals) to a row with no \<open>None\<close> (the
  models' \<open>NOT NULL\<close> columns), with integers SQLite binds and no negative page
  count (\<open>storable\<close>); the books' ISBNs are distinct from each other and from
  the stored ones; there is an author to assign when there are books; and the
  random source keeps its contract.  Each stored row is traced to the record it
  was built from and converted from.
\<close>

section \<open>Conditions on the input\<close>

text \<open>A row with no \<open>None\<close> field: every column of the three models is
  \<open>NOT NULL\<close>.\<close>

definition no_none :: "row \<Rightarrow> bool" where
  "no_none r \<longleftrightarrow> list_all (\<lambda>kv. snd kv \<noteq> PyNone) r"

text \<open>A row the save can store: its values convert (\<open>prep_row\<close>), and the
  converted row has no \<open>None\<close>, its integers bind, and its
  \<open>PositiveIntegerField\<close>s are not negative (the column's \<open>CHECK\<close>).\<close>

definition storable :: "field_decl list \<Rightarrow> row \<Rightarrow> bool" where
  "storable fs r \<longleftrightarrow>
     (case prep_row fs r of
        Inl _ \<Rightarrow> False
      | Inr r' \<Rightarrow> no_none r' \<and> bind_ok fs r' \<and>
          list_all (\<lambda>fd. case fd_kind fd of
                           PositiveIntegerField \<Rightarrow> opt_all nonneg_value (map_of r' (fd_name fd))
                         | _ \<Rightarrow> True) fs)"

text \<open>The ISBN a book record stores: its \<open>isbn\<close> value, the field default
  \<open>''\<close> when absent.\<close>

definition book_isbn :: "pyval \<Rightarrow> pyval" where
  "book_isbn b = (case b of PyDict kvs \<Rightarrow> (case map_of kvs ''isbn'' of Some v \<Rightarrow> v | None \<Rightarrow> PyStr []) | _ \<Rightarrow> PyNone)"

section \<open>The conversion of a row\<close>

lemma prep_step_key:
  "(case find (\<lambda>fd. fd_name fd = fst kv) fs of
      None \<Rightarrow> Inr kv | Some fd \<Rightarrow> sbind (prep_value (fd_kind fd) (snd kv)) (\<lambda>v. Inr (fst kv, v))) = Inr y \<Longrightarrow>
   fst y = fst kv"
  by (auto simp: sbind_eq_Inr split: option.splits)

lemma prep_row_keys: "prep_row fs r = Inr r' \<Longrightarrow> map fst r' = map fst r"
  unfolding prep_row_def by (erule smap_keeps [rotated]) (rule prep_step_key)

text \<open>A column whose field keeps the value keeps it through the conversion.\<close>

lemma prep_row_keep:
  assumes "prep_row fs r = Inr r'" and "map_of r k = Some v"
    and "find (\<lambda>fd. fd_name fd = k) fs = Some fd" and "prep_value (fd_kind fd) v = Inr v"
  shows "map_of r' k = Some v"
  using map_of_smap [OF prep_step_key assms(1) [unfolded prep_row_def] assms(2)] assms(3,4) by auto

text \<open>A row whose every value converts to itself is stored as it is.\<close>

lemma prep_row_id:
  "list_all (\<lambda>kv. case find (\<lambda>fd. fd_name fd = fst kv) fs of
                    None \<Rightarrow> True | Some fd \<Rightarrow> prep_value (fd_kind fd) (snd kv) = Inr (snd kv)) r \<Longrightarrow>
   prep_row fs r = Inr r"
  by (induction r) (auto simp: prep_row_def split: option.splits)

lemma storable_prep:
  assumes "storable fs r"
  obtains r' where "prep_row fs r = Inr r'" and "no_none r'" and "bind_ok fs r'"
    and "list_all (\<lambda>fd. case fd_kind fd of
                           PositiveIntegerField \<Rightarrow> opt_all nonneg_value (map_of r' (fd_name fd))
                         | _ \<Rightarrow> True) fs"
  using assms that by (auto simp: storable_def split: sum.splits)

text \<open>The converted row of a storable row with the columns of the model meets
  the constraints, given the foreign keys.\<close>

lemma storable_row_ok:
  assumes keys: "map fst r0 = map fd_name (column_fields fs)" and st: "storable fs r0"
    and prep: "prep_row fs r0 = Inr r"
    and fk: "\<forall>fd \<in> set fs. case fd_kind fd of ForeignKey m \<Rightarrow> opt_all (fk_target_ok m d) (map_of r (fd_name fd)) | _ \<Rightarrow> True"
  shows "row_ok fs d r \<and> bind_ok fs r"
proof -
  from st prep have nn: "no_none r" and b: "bind_ok fs r"
    and pg: "\<forall>fd \<in> set fs. case fd_kind fd of PositiveIntegerField \<Rightarrow> opt_all nonneg_value (map_of r (fd_name fd)) | _ \<Rightarrow> True"
    by (auto simp: storable_def list_all_iff)
  have "map fst r = map fd_name (column_fields fs)" using prep_row_keys [OF prep] keys by simp
  with nn b pg fk show ?thesis
    by (auto simp: row_ok_def no_none_def list_all_iff split: field_kind.splits)
qed

section \<open>Each phase returns\<close>

lemma model_init_keys: "model_init fs kw = Inr r \<Longrightarrow> map fst r = map fd_name (column_fields fs)"
  by (auto simp: model_init_def Let_def comp_def split: pyval.splits if_splits)

lemma author_row_ok:
  assumes "model_init author_fields a = Inr r0" and "storable author_fields r0"
    and "prep_row author_fields r0 = Inr r"
  shows "row_ok author_fields d r \<and> bind_ok author_fields r"
  by (rule storable_row_ok [OF model_init_keys [OF assms(1)] assms(2,3)]) (simp add: author_fields_def field_def)

lemma publisher_row_ok:
  assumes "model_init publisher_fields p = Inr r0" and "storable publisher_fields r0"
    and "prep_row publisher_fields r0 = Inr r"
  shows "row_ok publisher_fields d r \<and> bind_ok publisher_fields r"
  by (rule storable_row_ok [OF model_init_keys [OF assms(1)] assms(2,3)]) (simp add: publisher_fields_def field_def)

text \<open>The row of a book whose \<open>author\<close> is set to an author instance.\<close>

lemma book_row:
  assumes "sbind (py_setitem b ''author'' (PyInst ''Author'' k)) (model_init book_fields) = Inr r"
  obtains kvs where "b = PyDict kvs"
    and "map_of r ''author'' = Some (PyInst ''Author'' k)"
    and "map_of r ''isbn'' = Some (case map_of kvs ''isbn'' of Some v \<Rightarrow> v | None \<Rightarrow> PyStr [])"
    and "map fst r = map fd_name (column_fields book_fields)"
proof -
  from assms obtain kvs where b: "b = PyDict kvs"
    and init: "model_init book_fields (PyDict (AList.update ''author'' (PyInst ''Author'' k) kvs)) = Inr r"
    by (cases b) (auto simp: sbind_eq_Inr)
  from init have "r = map (\<lambda>fd. (fd_name fd, case map_of (AList.update ''author'' (PyInst ''Author'' k) kvs) (fd_name fd) of
                                    Some v \<Rightarrow> v | None \<Rightarrow> field_default fd)) (column_fields book_fields)"
    by (simp add: model_init_def Let_def split: if_splits)
  then have "map_of r ''author'' = Some (PyInst ''Author'' k)"
    and "map_of r ''isbn'' = Some (case map_of kvs ''isbn'' of Some v \<Rightarrow> v | None \<Rightarrow> PyStr [])"
    by (simp_all add: book_fields_def column_fields_def field_def field_default_def split: option.splits)
  with b model_init_keys [OF init] that show ?thesis by blast
qed

text \<open>The converted row of a book keeps its author and its ISBN.\<close>

lemma book_row_ok:
  assumes init: "sbind (py_setitem b ''author'' (PyInst ''Author'' k)) (model_init book_fields) = Inr r0"
    and st: "storable book_fields r0" and prep: "prep_row book_fields r0 = Inr r"
    and k: "k \<in> set (table_keys (db_authors d))"
  shows "row_ok book_fields d r \<and> bind_ok book_fields r \<and> map_of r ''isbn'' = Some (book_isbn b)"
proof -
  from init obtain kvs where b: "b = PyDict kvs" and a: "map_of r0 ''author'' = Some (PyInst ''Author'' k)"
    and i: "map_of r0 ''isbn'' = Some (case map_of kvs ''isbn'' of Some v \<Rightarrow> v | None \<Rightarrow> PyStr [])"
    and keys: "map fst r0 = map fd_name (column_fields book_fields)" by (rule book_row)
  have "map_of r ''author'' = Some (PyInst ''Author'' k)"
    by (rule prep_row_keep [OF prep a]) (simp add: book_fields_def field_def)+
  moreover have "map_of r ''isbn'' = Some (book_isbn b)"
    using prep_row_keep [OF prep i] b by (simp add: book_fields_def field_def book_isbn_def)
  moreover from this have "row_ok book_fields d r \<and> bind_ok book_fields r" if "map_of r ''author'' = Some (PyInst ''Author'' k)"
    using storable_row_ok [OF keys st prep] that k by (simp add: book_fields_def field_def fk_target_ok_def)
  ultimately show ?thesis by blast
qed

lemma unique_ok_none: "\<forall>fd \<in> set fs. \<not> fd_unique fd \<Longrightarrow> unique_ok fs rs"
  by (simp add: unique_ok_def)

lemma insert_rows_ok:
  "smap (prep_row (model_fields m)) rs = Inr rs' \<Longrightarrow>
   \<forall>r \<in> set rs'. row_ok (model_fields m) d r \<and> bind_ok (model_fields m) r \<Longrightarrow>
   unique_ok (model_fields m) (map snd (t_rows (get_table m d)) @ rs') \<Longrightarrow>
   insert_rows m rs d = (Inr (), put_table m (table_append (get_table m d) rs') d)"
  by (simp add: insert_rows_def db_insert_def Let_def list_all_iff)

text \<open>Rows that are storable convert, row by row.\<close>

lemma prep_rows_ok:
  assumes "\<forall>r \<in> set rows. storable fs r"
  obtains stored where "smap (prep_row fs) rows = Inr stored"
    and "list_all2 (\<lambda>r0 r. prep_row fs r0 = Inr r) rows stored"
proof -
  have "\<exists>r'. prep_row fs r = Inr r'" if "r \<in> set rows" for r
    using assms that by (cases "prep_row fs r") (auto simp: storable_def)
  then have "\<exists>stored. smap (prep_row fs) rows = Inr stored" by (rule smap_all_Inr)
  then show thesis using that smap_Inr_list_all2 by blast
qed

lemma import_authors_ok:
  assumes as: "sbind (py_getitem data ''authors'') py_iter = Inr as"
    and ok: "\<forall>a \<in> set as. \<exists>r. model_init author_fields a = Inr r \<and> storable author_fields r"
  obtains stored where "import_authors data w =
      (Inr (length as), w\<lparr>w_db := put_table Author (table_append (db_authors (w_db w)) stored) (w_db w)\<rparr>)"
    and "length stored = length as"
    and "list_all2 (\<lambda>a r. \<exists>r0. model_init author_fields a = Inr r0 \<and> prep_row author_fields r0 = Inr r) as stored"
proof -
  from ok obtain rows where rows: "smap (model_init author_fields) as = Inr rows"
    by (metis smap_all_Inr)
  have init: "list_all2 (\<lambda>a r. model_init author_fields a = Inr r) as rows"
    using rows by (rule smap_Inr_list_all2)
  have "\<forall>r \<in> set rows. storable author_fields r"
    using ok rows by (fastforce dest: smap_Inr_set)
  then obtain stored where conv: "smap (prep_row author_fields) rows = Inr stored"
    and pr: "list_all2 (\<lambda>r0 r. prep_row author_fields r0 = Inr r) rows stored" by (rule prep_rows_ok)
  have rel: "list_all2 (\<lambda>a r. \<exists>r0. model_init author_fields a = Inr r0 \<and> prep_row author_fields r0 = Inr r) as stored"
    by (rule list_all2_trans [OF _ init pr]) blast
  have "\<forall>r \<in> set stored. row_ok author_fields (w_db w) r \<and> bind_ok author_fields r"
  proof
    fix r assume "r \<in> set stored"
    with rel obtain a r0 where "a \<in> set as" and i: "model_init author_fields a = Inr r0"
      and p: "prep_row author_fields r0 = Inr r" by (blast dest: list_all2_in_set2)
    with ok have "storable author_fields r0" by auto
    from i this p show "row_ok author_fields (w_db w) r \<and> bind_ok author_fields r" by (rule author_row_ok)
  qed
  moreover have "unique_ok author_fields (map snd (t_rows (db_authors (w_db w))) @ stored)"
    by (rule unique_ok_none) (simp add: author_fields_def field_def)
  ultimately have "bulk_create Author rows (w_db w) =
      (Inr (), put_table Author (table_append (db_authors (w_db w)) stored) (w_db w))"
    using conv by (simp add: bulk_create_def insert_rows_ok)
  moreover have "author_rows data = Inr rows" using as rows
    by (simp add: author_rows_def sbind_eq_Inr) (metis sbind_Inr sbind_eq_Inr)
  moreover have "length stored = length as" using list_all2_lengthD [OF rel] by simp
  ultimately show ?thesis using that [of stored] rel smap_Inr_length [OF rows]
    by (simp add: import_authors_def ebind_def on_db_def)
qed

lemma unique_ok_book: "unique_ok book_fields rs \<longleftrightarrow> distinct (map (\<lambda>r. map_of r ''isbn'') rs)"
  by (simp add: unique_ok_def book_fields_def field_def)

lemma objects_all_author:
  "a \<in> set (objects_all Author d) \<Longrightarrow> \<exists>k. a = PyInst ''Author'' k \<and> k \<in> set (table_keys (db_authors d))"
  by (auto simp: objects_all_def table_keys_def)

lemma import_books_ok:
  fixes rs :: "'r random_source" and w :: "'r world"
  assumes src: "source_ok rs"
    and bs: "sbind (py_getitem data ''books'') py_iter = Inr bs"
    and ok: "\<forall>b \<in> set bs. \<forall>k. \<exists>r. sbind (py_setitem b ''author'' (PyInst ''Author'' k)) (model_init book_fields) = Inr r \<and>
                                storable book_fields r"
    and isbn: "distinct (map (\<lambda>r. map_of r ''isbn'') (map snd (t_rows (db_books (w_db w)))) @
                         map (\<lambda>b. Some (book_isbn b)) bs)"
    and auth: "bs \<noteq> [] \<longrightarrow> t_rows (db_authors (w_db w)) \<noteq> []"
  obtains stored w' where "import_books rs data w = (Inr (length bs), w')"
    and "w_db w' = put_table Book (table_append (db_books (w_db w)) stored) (w_db w)"
    and "length stored = length bs"
    and "list_all2 (\<lambda>b r. \<exists>k r0. sbind (py_setitem b ''author'' (PyInst ''Author'' k)) (model_init book_fields) = Inr r0 \<and>
                               prep_row book_fields r0 = Inr r) bs stored"
proof -
  let ?AS = "objects_all Author (w_db w)"
  let ?I = "\<lambda>b r0 k. sbind (py_setitem b ''author'' (PyInst ''Author'' k)) (model_init book_fields) = Inr r0"
  let ?P = "\<lambda>b r0. storable book_fields r0 \<and> (\<exists>k. ?I b r0 k \<and> k \<in> set (table_keys (db_authors (w_db w))))"
  have step: "\<exists>r t. assign_author rs ?AS b v = (Inr r, t) \<and> ?P b r \<and> w_db t = w_db w"
    if b: "b \<in> set bs" and v: "w_db v = w_db w" for b v
  proof -
    from b auth have "?AS \<noteq> []" by (auto simp: objects_all_def)
    from py_choice_ok [OF src this, of "w_rng v"] obtain a r1
      where ch: "py_choice rs ?AS (w_rng v) = (Inr a, r1)" and a: "a \<in> set ?AS" by blast
    from objects_all_author [OF a] obtain k where ak: "a = PyInst ''Author'' k"
      and k: "k \<in> set (table_keys (db_authors (w_db w)))" by blast
    from ok b obtain r where init: "?I b r k" and st: "storable book_fields r" by blast
    have "assign_author rs ?AS b v = (Inr r, v\<lparr>w_rng := r1\<rparr>)"
      using ch ak init by (simp add: assign_author_def ebind_def on_rng_def)
    then show ?thesis using v init st k by auto
  qed
  have "\<exists>rows t. emap (assign_author rs ?AS) bs w = (Inr rows, t) \<and> list_all2 ?P bs rows \<and> w_db t = w_db w"
  proof (rule emap_total_inv [where I = "\<lambda>v. w_db v = w_db w"])
    fix x and s :: "'r world" assume "x \<in> set bs" and "w_db s = w_db w"
    then show "\<exists>y t. assign_author rs ?AS x s = (Inr y, t) \<and> ?P x y \<and> w_db t = w_db w" by (rule step)
  qed simp
  then obtain rows t where loop: "emap (assign_author rs ?AS) bs w = (Inr rows, t)"
    and all: "list_all2 ?P bs rows" and t: "w_db t = w_db w" by blast
  from all have "\<forall>r \<in> set rows. storable book_fields r" by (auto dest: list_all2_in_set2)
  then obtain stored where conv: "smap (prep_row book_fields) rows = Inr stored"
    and pr: "list_all2 (\<lambda>r0 r. prep_row book_fields r0 = Inr r) rows stored" by (rule prep_rows_ok)
  let ?Q = "\<lambda>b r. row_ok book_fields (w_db w) r \<and> bind_ok book_fields r \<and> map_of r ''isbn'' = Some (book_isbn b) \<and>
                 (\<exists>k r0. ?I b r0 k \<and> prep_row book_fields r0 = Inr r)"
  have rel: "list_all2 ?Q bs stored"
    by (rule list_all2_trans [OF _ all pr]) (use book_row_ok in blast)
  then have len: "length stored = length bs" by (simp add: list_all2_lengthD)
  from rel have rok: "\<forall>r \<in> set stored. row_ok book_fields (w_db w) r \<and> bind_ok book_fields r"
    by (auto dest: list_all2_in_set2)
  from rel have "list_all2 (\<lambda>b r. map_of r ''isbn'' = Some (book_isbn b)) bs stored"
    by (rule list_all2_mono) simp
  then have "map (\<lambda>r. map_of r ''isbn'') stored = map (\<lambda>b. Some (book_isbn b)) bs"
    by (rule list_all2_map_eq)
  with isbn have "unique_ok book_fields (map snd (t_rows (db_books (w_db w))) @ stored)"
    by (simp add: unique_ok_book)
  with conv rok have ins: "bulk_create Book rows (w_db w) =
      (Inr (), put_table Book (table_append (db_books (w_db w)) stored) (w_db w))"
    by (simp add: bulk_create_def insert_rows_ok)
  have "import_books rs data w = (Inr (length rows), t\<lparr>w_db := put_table Book (table_append (db_books (w_db w)) stored) (w_db w)\<rparr>)"
    using bs loop ins t by (simp add: import_books_def ebind_def db_read_def on_db_def)
  moreover have "length rows = length bs" using all by (simp add: list_all2_lengthD)
  moreover from rel have "list_all2 (\<lambda>b r. \<exists>k r0. ?I b r0 k \<and> prep_row book_fields r0 = Inr r) bs stored"
    by (rule list_all2_mono) simp
  ultimately show ?thesis using len that by simp
qed

lemma objects_all_book_key:
  "i < length (objects_all Book d) \<Longrightarrow>
     book_key (objects_all Book d ! i) = Some (table_keys (db_books d) ! i) \<and>
     table_keys (db_books d) ! i \<in> set (table_keys (db_books d))"
  by (simp add: objects_all_def table_keys_def)

lemma import_publisher_ok:
  fixes rs :: "'r random_source" and w :: "'r world"
  assumes src: "source_ok rs" and wf: "db_wf (w_db w)"
    and ok: "\<exists>r. model_init publisher_fields p = Inr r \<and> storable publisher_fields r"
  shows "\<exists>q w'. import_publisher rs (objects_all Book (w_db w)) p w = (Inr q, w') \<and>
                db_wf (w_db w') \<and> db_books (w_db w') = db_books (w_db w) \<and>
                db_authors (w_db w') = db_authors (w_db w) \<and>
                (\<exists>r0 r. model_init publisher_fields p = Inr r0 \<and> prep_row publisher_fields r0 = Inr r \<and>
                     map snd (t_rows (db_publishers (w_db w'))) = map snd (t_rows (db_publishers (w_db w))) @ [r])"
proof -
  let ?d = "w_db w"
  let ?k = "t_next (db_publishers ?d)"
  from ok obtain r0 where init: "model_init publisher_fields p = Inr r0" and st: "storable publisher_fields r0" by blast
  then obtain r where prep: "prep_row publisher_fields r0 = Inr r" by (blast elim: storable_prep)
  let ?d1 = "put_table Publisher (table_append (db_publishers ?d) [r]) ?d"
  have "row_ok publisher_fields ?d r \<and> bind_ok publisher_fields r" using init st prep by (rule publisher_row_ok)
  moreover have "unique_ok publisher_fields (map snd (t_rows (db_publishers ?d)) @ [r])"
    by (rule unique_ok_none) (simp add: publisher_fields_def field_def)
  moreover have "smap (prep_row publisher_fields) [r0] = Inr [r]" using prep by simp
  ultimately have cr: "objects_create Publisher p ?d = (Inr (PyInst ''Publisher'' ?k), ?d1)"
    using init by (simp add: objects_create_def insert_rows_ok)
  let ?xs = "objects_all Book ?d"
  obtain "is" r' where smp: "py_sample rs ?xs (min 10 (int (length ?xs))) (w_rng w) = (Inr (map (\<lambda>i. ?xs ! i) is), r')"
    and bound: "\<forall>i \<in> set is. i < length ?xs"
    by (rule py_sample_ok [OF src, of "min 10 (int (length ?xs))" ?xs "w_rng w"]) auto
  obtain d2 where bs: "books_set ?k (map (\<lambda>i. ?xs ! i) is) ?d1 = (Inr (), d2)"
    using bound objects_all_book_key [of _ ?d]
    by (simp add: books_set_def Let_def list_all_iff)
  then have run: "import_publisher rs ?xs p w = (Inr (PyInst ''Publisher'' ?k), w\<lparr>w_db := d2, w_rng := r'\<rparr>)"
    using cr smp by (simp add: import_publisher_def ebind_def ereturn_def on_db_def on_rng_def related_books_set_def)
  moreover from import_publisher_wf [OF run wf] have "db_wf (w_db (w\<lparr>w_db := d2, w_rng := r'\<rparr>))" .
  moreover from run have "db_books (w_db (w\<lparr>w_db := d2, w_rng := r'\<rparr>)) = db_books ?d"
    by (rule import_publisher_step) simp
  moreover from books_set_Inr [OF bs] have "db_authors d2 = db_authors ?d"
    and "map snd (t_rows (db_publishers d2)) = map snd (t_rows (db_publishers ?d)) @ [r]"
    by (simp_all add: table_append_rows)
  ultimately show ?thesis using init prep by auto
qed

text \<open>The publishers loop returns, leaving authors and books as they were and
  appending one row built from each publisher record.\<close>

lemma import_publishers_ok:
  fixes rs :: "'r random_source" and w :: "'r world"
  assumes src: "source_ok rs" and wf: "db_wf (w_db w)"
    and ps: "sbind (py_getitem data ''publishers'') py_iter = Inr ps"
    and ok: "\<forall>p \<in> set ps. \<exists>r. model_init publisher_fields p = Inr r \<and> storable publisher_fields r"
  obtains qs w' where "import_publishers rs data w = (Inr qs, w')" and "length qs = length ps"
    and "db_wf (w_db w')" and "db_books (w_db w') = db_books (w_db w)"
    and "db_authors (w_db w') = db_authors (w_db w)"
    and "\<exists>new. map snd (t_rows (db_publishers (w_db w'))) = map snd (t_rows (db_publishers (w_db w))) @ new \<and>
               (\<forall>r \<in> set new. \<exists>p \<in> set ps. \<exists>r0. model_init publisher_fields p = Inr r0 \<and> prep_row publisher_fields r0 = Inr r)"
proof -
  let ?N = "\<lambda>v :: 'r world. \<exists>new. map snd (t_rows (db_publishers (w_db v))) = map snd (t_rows (db_publishers (w_db w))) @ new \<and>
               (\<forall>r \<in> set new. \<exists>p \<in> set ps. \<exists>r0. model_init publisher_fields p = Inr r0 \<and> prep_row publisher_fields r0 = Inr r)"
  let ?I = "\<lambda>v :: 'r world. db_wf (w_db v) \<and> db_books (w_db v) = db_books (w_db w) \<and>
                            db_authors (w_db v) = db_authors (w_db w) \<and> ?N v"
  have "\<exists>qs w'. emap (import_publisher rs (objects_all Book (w_db w))) ps w = (Inr qs, w') \<and>
                list_all2 (\<lambda>_ _. True) ps qs \<and> ?I w'"
  proof (rule emap_total_inv [where I = ?I])
    fix x and s :: "'r world"
    assume x: "x \<in> set ps" and I: "?I s"
    then have "objects_all Book (w_db w) = objects_all Book (w_db s)"
      by (simp add: objects_all_def)
    moreover from import_publisher_ok [OF src _ bspec [OF ok x], of s] I
    obtain q t r0 r where "import_publisher rs (objects_all Book (w_db s)) x s = (Inr q, t)"
      and "db_wf (w_db t)" and "db_books (w_db t) = db_books (w_db w)" and "db_authors (w_db t) = db_authors (w_db w)"
      and "model_init publisher_fields x = Inr r0" and "prep_row publisher_fields r0 = Inr r"
      and "map snd (t_rows (db_publishers (w_db t))) = map snd (t_rows (db_publishers (w_db s))) @ [r]"
      by auto
    moreover from I obtain new where "map snd (t_rows (db_publishers (w_db s))) = map snd (t_rows (db_publishers (w_db w))) @ new"
      and "\<forall>r \<in> set new. \<exists>p \<in> set ps. \<exists>r0. model_init publisher_fields p = Inr r0 \<and> prep_row publisher_fields r0 = Inr r" by blast
    ultimately show "\<exists>y t. import_publisher rs (objects_all Book (w_db w)) x s = (Inr y, t) \<and> True \<and> ?I t"
      using x by (intro exI [of _ q] exI [of _ t]) (auto intro!: exI [of _ "new @ [r]"])
  qed (auto simp: wf intro: exI [of _ "[]"])
  then obtain qs w' where "emap (import_publisher rs (objects_all Book (w_db w))) ps w = (Inr qs, w')"
    and "length qs = length ps" and "?I w'"
    by (auto dest: list_all2_lengthD)
  with ps show thesis
    by (intro that [of qs w']) (simp_all add: import_publishers_def ebind_def elift_def db_read_def)
qed

lemma import_to_database_ok:
  fixes rs :: "'r random_source" and w :: "'r world"
  assumes src: "source_ok rs" and wf: "db_wf (w_db w)"
    and as: "sbind (py_getitem data ''authors'') py_iter = Inr as"
    and aok: "\<forall>a \<in> set as. \<exists>r. model_init author_fields a = Inr r \<and> storable author_fields r"
    and bs: "sbind (py_getitem data ''books'') py_iter = Inr bs"
    and bok: "\<forall>b \<in> set bs. \<forall>k. \<exists>r. sbind (py_setitem b ''author'' (PyInst ''Author'' k)) (model_init book_fields) = Inr r \<and>
                                storable book_fields r"
    and isbn: "distinct (map (\<lambda>r. map_of r ''isbn'') (map snd (t_rows (db_books (w_db w)))) @
                         map (\<lambda>b. Some (book_isbn b)) bs)"
    and auth: "bs \<noteq> [] \<longrightarrow> as \<noteq> [] \<or> t_rows (db_authors (w_db w)) \<noteq> []"
    and ps: "sbind (py_getitem data ''publishers'') py_iter = Inr ps"
    and pok: "\<forall>p \<in> set ps. \<exists>r. model_init publisher_fields p = Inr r \<and> storable publisher_fields r"
  obtains w' ra rb rp where "import_to_database rs data w =
      (Inr (PyDict [(''authors'', PyInt (int (length as))), (''books'', PyInt (int (length bs))),
                    (''publishers'', PyInt (int (length ps)))]), w')"
    and "db_wf (w_db w')"
    and "map snd (t_rows (db_authors (w_db w'))) = map snd (t_rows (db_authors (w_db w))) @ ra"
    and "list_all2 (\<lambda>a r. \<exists>r0. model_init author_fields a = Inr r0 \<and> prep_row author_fields r0 = Inr r) as ra"
    and "map snd (t_rows (db_books (w_db w'))) = map snd (t_rows (db_books (w_db w))) @ rb"
    and "list_all2 (\<lambda>b r. \<exists>k r0. sbind (py_setitem b ''author'' (PyInst ''Author'' k)) (model_init book_fields) = Inr r0 \<and>
                               prep_row book_fields r0 = Inr r) bs rb"
    and "map snd (t_rows (db_publishers (w_db w'))) = map snd (t_rows (db_publishers (w_db w))) @ rp"
    and "\<forall>r \<in> set rp. \<exists>p \<in> set ps. \<exists>r0. model_init publisher_fields p = Inr r0 \<and> prep_row publisher_fields r0 = Inr r"
    and "length rp = length ps"
proof -
  obtain ra where ia: "import_authors data w =
      (Inr (length as), w\<lparr>w_db := put_table Author (table_append (db_authors (w_db w)) ra) (w_db w)\<rparr>)"
    and len: "length ra = length as" and ra: "list_all2 (\<lambda>a r. \<exists>r0. model_init author_fields a = Inr r0 \<and> prep_row author_fields r0 = Inr r) as ra"
    by (rule import_authors_ok [OF as aok])
  let ?w1 = "w\<lparr>w_db := put_table Author (table_append (db_authors (w_db w)) ra) (w_db w)\<rparr>"
  have wf1: "db_wf (w_db ?w1)" using import_authors_wf [OF ia wf] .
  have auth1: "bs \<noteq> [] \<longrightarrow> t_rows (db_authors (w_db ?w1)) \<noteq> []"
    using auth len by (auto simp: table_append_def)
  have isbn1: "distinct (map (\<lambda>r. map_of r ''isbn'') (map snd (t_rows (db_books (w_db ?w1)))) @
                         map (\<lambda>b. Some (book_isbn b)) bs)"
    using isbn by simp
  obtain rb w2 where ib: "import_books rs data ?w1 = (Inr (length bs), w2)"
    and w2: "w_db w2 = put_table Book (table_append (db_books (w_db ?w1)) rb) (w_db ?w1)"
    and rb: "list_all2 (\<lambda>b r. \<exists>k r0. sbind (py_setitem b ''author'' (PyInst ''Author'' k)) (model_init book_fields) = Inr r0 \<and>
                               prep_row book_fields r0 = Inr r) bs rb"
    by (rule import_books_ok [OF src bs bok isbn1 auth1])
  have wf2: "db_wf (w_db w2)" using import_books_wf [OF ib wf1] .
  obtain qs w3 where ip: "import_publishers rs data w2 = (Inr qs, w3)" and lq: "length qs = length ps"
    and wf3: "db_wf (w_db w3)" and b3: "db_books (w_db w3) = db_books (w_db w2)"
    and a3: "db_authors (w_db w3) = db_authors (w_db w2)"
    and p3: "\<exists>new. map snd (t_rows (db_publishers (w_db w3))) = map snd (t_rows (db_publishers (w_db w2))) @ new \<and>
               (\<forall>r \<in> set new. \<exists>p \<in> set ps. \<exists>r0. model_init publisher_fields p = Inr r0 \<and> prep_row publisher_fields r0 = Inr r)"
    by (rule import_publishers_ok [OF src wf2 ps pok])
  from p3 obtain rp where rp: "map snd (t_rows (db_publishers (w_db w3))) = map snd (t_rows (db_publishers (w_db w))) @ rp"
    and rp_ok: "\<forall>r \<in> set rp. \<exists>p \<in> set ps. \<exists>r0. model_init publisher_fields p = Inr r0 \<and> prep_row publisher_fields r0 = Inr r"
    using w2 by auto
  obtain items where "length (t_rows (db_publishers (w_db w3))) = length (t_rows (db_publishers (w_db w2))) + length qs"
    using import_publishers_rows [OF ip] by blast
  then have lrp: "length rp = length ps" using arg_cong [OF rp, of length] w2 lq by simp
  have "import_to_database rs data w =
      (Inr (PyDict [(''authors'', PyInt (int (length as))), (''books'', PyInt (int (length bs))),
                    (''publishers'', PyInt (int (length ps)))]), w3)"
    by (simp add: import_to_database_def ebind_def ereturn_def ia ib [simplified] ip lq)
  moreover have "map snd (t_rows (db_authors (w_db w3))) = map snd (t_rows (db_authors (w_db w))) @ ra"
    using a3 w2 by (simp add: table_append_rows)
  moreover have "map snd (t_rows (db_books (w_db w3))) = map snd (t_rows (db_books (w_db w))) @ rb"
    using b3 w2 by (simp add: table_append_rows)
  ultimately show thesis using that wf3 ra rb rp rp_ok lrp by blast
qed

section \<open>The import returns\<close>



end
