(* ===== verification/Exporter.thy ===== *)
theory Exporter
  imports Store Coerce
begin

text \<open>
  \<open>export_from_database\<close> of \<open>src/data_import_export.py\<close> (lines 124--167):
  three loops over \<open>objects.all()\<close> of the store, each appending one dict per
  instance to the document, then \<open>json.dump\<close> of the document and the three
  lengths.  The export only reads the store, so it is a function of the store
  to the document and the counts, or the exception it raises.  The text
  \<open>json.dump\<close> writes (UTF-8, \<open>ensure_ascii=False\<close>, indent 2) and the file
  are I/O and are not modelled; what is modelled of \<open>json.dump\<close> is the check
  that raises \<open>TypeError\<close> on a value JSON has no form for (a date, a model
  instance).

  An instance's attribute is the value stored in its row's column
  (\<open>field_value\<close>); \<open>book.author\<close> follows the foreign key to the author's
  row, raising \<open>DoesNotExist\<close> when there is none; \<open>publisher.books.all()\<close>
  joins the relation table with the book table, so it yields the stored books
  among the related keys.
\<close>

section \<open>The operations the export applies\<close>

text \<open>The decimal digits of a natural number, most significant first.\<close>

fun dec_digits :: "nat \<Rightarrow> string" where
  "dec_digits n =
     (if n < 10 then [char_of (48 + n)] else dec_digits (n div 10) @ [char_of (48 + n mod 10)])"

declare dec_digits.simps [simp del]

definition pad_digits :: "nat \<Rightarrow> nat \<Rightarrow> string" where
  "pad_digits w n = replicate (w - length (dec_digits n)) CHR ''0'' @ dec_digits n"

text \<open>\<open>date.isoformat()\<close>: \<open>'%04d-%02d-%02d' % (year, month, day)\<close>.\<close>

fun iso_date :: "pydate \<Rightarrow> string" where
  "iso_date (Date y m d) = pad_digits 4 (nat y) @ ''-'' @ pad_digits 2 m @ ''-'' @ pad_digits 2 d"

text \<open>\<open>v.isoformat()\<close>: only a date has the method.\<close>

fun py_isoformat :: "pyval \<Rightarrow> pyval py" where
  "py_isoformat (PyDate dt) = Inr (PyStr (iso_date dt))"
| "py_isoformat _ = Inl AttributeError"

text \<open>\<open>instance.f\<close> for a column \<open>f\<close> of the instance's row (a row of a
  well-formed store has every column; a missing one reads as \<open>None\<close>).\<close>

definition field_value :: "row \<Rightarrow> string \<Rightarrow> pyval" where
  "field_value r f = (case map_of r f of Some v \<Rightarrow> v | None \<Rightarrow> PyNone)"


text \<open>The row of the instance with key \<open>k\<close> in a table.\<close>

definition lookup_row :: "table \<Rightarrow> nat \<Rightarrow> row option" where
  "lookup_row t k = map_of (t_rows t) k"

text \<open>\<open>book.author.name\<close>: the related author's row, through the foreign key.\<close>

definition book_author_name :: "db \<Rightarrow> row \<Rightarrow> pyval py" where
  "book_author_name d r =
     (case field_value r ''author'' of
        PyInst c k \<Rightarrow>
          (case lookup_row (db_authors d) k of
             Some ar \<Rightarrow> Inr (field_value ar ''name'')
           | None \<Rightarrow> Inl DoesNotExist)
      | _ \<Rightarrow> Inl DoesNotExist)"

text \<open>\<open>[book.title for book in publisher.books.all()]\<close>.\<close>

definition book_titles :: "db \<Rightarrow> nat \<Rightarrow> pyval list" where
  "book_titles d p =
     List.map_filter (\<lambda>b. map_option (\<lambda>br. field_value br ''title'') (lookup_row (db_books d) b))
       (related_books p d)"

text \<open>\<open>json.dump\<close> has a form for \<open>None\<close>, booleans, numbers (\<open>NaN\<close> and
  the infinities included, as \<open>allow_nan\<close> defaults to true), strings, lists
  and dicts with string keys; any other value raises \<open>TypeError\<close>.\<close>

fun json_ok :: "pyval \<Rightarrow> bool" where
  "json_ok (PyDate _) = False"
| "json_ok (PyInst _ _) = False"
| "json_ok (PyList xs) = list_all json_ok xs"
| "json_ok (PyDict kvs) = list_all (\<lambda>kv. json_ok (snd kv)) kvs"
| "json_ok _ = True"

section \<open>The export\<close>

text \<open>Lines 134--139: the dict of one author (values evaluated left to right).\<close>

definition export_author :: "row \<Rightarrow> pyval py" where
  "export_author r =
     sbind (py_isoformat (field_value r ''birth_date'')) (\<lambda>bd.
       Inr (PyDict [(''name'', field_value r ''name''), (''birth_date'', bd),
                    (''country'', field_value r ''country''), (''biography'', field_value r ''biography'')]))"

text \<open>Lines 143--151: the dict of one book.\<close>

definition export_book :: "db \<Rightarrow> row \<Rightarrow> pyval py" where
  "export_book d r =
     sbind (book_author_name d r) (\<lambda>an.
     sbind (py_isoformat (field_value r ''publication_date'')) (\<lambda>pd.
     sbind (py_float (field_value r ''price'')) (\<lambda>pr.
       Inr (PyDict [(''title'', field_value r ''title''), (''author'', an), (''publication_date'', pd),
                    (''genre'', field_value r ''genre''), (''isbn'', field_value r ''isbn''),
                    (''pages'', field_value r ''pages''), (''price'', PyFloat pr)]))))"

text \<open>Lines 155--161: the dict of one publisher, with the titles of its books.\<close>

definition export_publisher :: "db \<Rightarrow> nat \<times> row \<Rightarrow> pyval py" where
  "export_publisher d kr =
     Inr (PyDict [(''name'', field_value (snd kr) ''name''), (''address'', field_value (snd kr) ''address''),
                  (''website'', field_value (snd kr) ''website''),
                  (''contact_email'', field_value (snd kr) ''contact_email''),
                  (''books'', PyList (book_titles d (fst kr)))])"

text \<open>Lines 126--167: the three loops, \<open>json.dump\<close>, and the three lengths.\<close>

definition export_from_database :: "db \<Rightarrow> (pyval \<times> nat \<times> nat \<times> nat) py" where
  "export_from_database d =
     sbind (for_append export_author [] (map snd (t_rows (db_authors d)))) (\<lambda>authors.
     sbind (for_append (export_book d) [] (map snd (t_rows (db_books d)))) (\<lambda>books.
     sbind (for_append (export_publisher d) [] (t_rows (db_publishers d))) (\<lambda>publishers.
       (let doc = PyDict [(''authors'', PyList authors), (''books'', PyList books),
                          (''publishers'', PyList publishers)]
        in if json_ok doc then Inr (doc, length authors, length books, length publishers)
           else Inl TypeError))))"


section \<open>What the export needs of the store\<close>

text \<open>
  The export returns when the date columns hold dates, the price converts with
  \<open>float()\<close>, and every other exported column has a JSON form (the store's
  constraints give the rest: every book's author is stored).
\<close>

definition float_ok :: "pyval \<Rightarrow> bool" where
  "float_ok v = (case py_float v of Inr _ \<Rightarrow> True | Inl _ \<Rightarrow> False)"

definition author_exportable :: "row \<Rightarrow> bool" where
  "author_exportable r \<longleftrightarrow>
     is_date (field_value r ''birth_date'') \<and>
     list_all (\<lambda>f. json_ok (field_value r f)) [''name'', ''country'', ''biography'']"

definition book_exportable :: "row \<Rightarrow> bool" where
  "book_exportable r \<longleftrightarrow>
     is_date (field_value r ''publication_date'') \<and> float_ok (field_value r ''price'') \<and>
     list_all (\<lambda>f. json_ok (field_value r f)) [''title'', ''genre'', ''isbn'', ''pages'']"

definition publisher_exportable :: "row \<Rightarrow> bool" where
  "publisher_exportable r \<longleftrightarrow>
     list_all (\<lambda>f. json_ok (field_value r f)) [''name'', ''address'', ''website'', ''contact_email'']"

definition exportable :: "db \<Rightarrow> bool" where
  "exportable d \<longleftrightarrow>
     list_all author_exportable (map snd (t_rows (db_authors d))) \<and>
     list_all book_exportable (map snd (t_rows (db_books d))) \<and>
     list_all publisher_exportable (map snd (t_rows (db_publishers d)))"

section \<open>A sample store\<close>

text \<open>One author, one book of that author, one publisher linked to the book, and
  the document the export makes of them (the shape of spec section 4.4).\<close>

definition sample_store :: db where
  "sample_store =
     \<lparr>db_authors = \<lparr>t_rows = [(1, [(''name'', PyStr ''A''), (''birth_date'', PyDate (Date 1970 1 1)),
                                    (''country'', PyStr ''C''), (''biography'', PyStr ''B'')])],
                     t_next = 2\<rparr>,
      db_books = \<lparr>t_rows = [(1, [(''title'', PyStr ''T''), (''author'', PyInst ''Author'' 1),
                                  (''publication_date'', PyDate (Date 2000 12 31)), (''genre'', PyStr ''FIC''),
                                  (''isbn'', PyStr ''9780134685991''), (''pages'', PyInt 100),
                                  (''price'', PyFloat (Fin 10))])],
                   t_next = 2\<rparr>,
      db_publishers = \<lparr>t_rows = [(1, [(''name'', PyStr ''P''), (''address'', PyStr ''Ad''),
                                       (''website'', PyStr ''W''), (''contact_email'', PyStr ''E'')])],
                        t_next = 2\<rparr>,
      db_links = [(1, 1)]\<rparr>"

definition sample_document :: pyval where
  "sample_document =
     PyDict [(''authors'', PyList [PyDict [(''name'', PyStr ''A''), (''birth_date'', PyStr ''1970-01-01''),
                                          (''country'', PyStr ''C''), (''biography'', PyStr ''B'')]]),
             (''books'', PyList [PyDict [(''title'', PyStr ''T''), (''author'', PyStr ''A''),
                                        (''publication_date'', PyStr ''2000-12-31''), (''genre'', PyStr ''FIC''),
                                        (''isbn'', PyStr ''9780134685991''), (''pages'', PyInt 100),
                                        (''price'', PyFloat (Fin 10))]]),
             (''publishers'', PyList [PyDict [(''name'', PyStr ''P''), (''address'', PyStr ''Ad''),
                                             (''website'', PyStr ''W''), (''contact_email'', PyStr ''E''),
                                             (''books'', PyList [PyStr ''T''])]])]"

section \<open>Lemmas on the export\<close>

lemma lookup_row_key:
  assumes "k \<in> set (table_keys t)"
  obtains r where "lookup_row t k = Some r" and "r \<in> set (map snd (t_rows t))"
proof -
  from assms have "map_of (t_rows t) k \<noteq> None" by (simp add: table_keys_def map_of_eq_None_iff)
  then obtain r where "map_of (t_rows t) k = Some r" by blast
  then show ?thesis using that by (force simp: lookup_row_def dest: map_of_SomeD)
qed

lemma book_titles_stored:
  "x \<in> set (book_titles d p) \<Longrightarrow> \<exists>br \<in> set (map snd (t_rows (db_books d))). x = field_value br ''title''"
  by (force simp: book_titles_def map_filter_def lookup_row_def dest: map_of_SomeD)

lemma book_titles_length:
  assumes "set (related_books p d) \<subseteq> set (table_keys (db_books d))"
  shows "length (book_titles d p) = length (related_books p d)"
proof -
  have "\<forall>b \<in> set (related_books p d). lookup_row (db_books d) b \<noteq> None"
    using assms by (auto elim: lookup_row_key)
  then show ?thesis by (simp add: book_titles_def map_filter_def filter_True comp_def)
qed

lemma export_author_ok:
  "author_exportable r \<Longrightarrow> \<exists>v. export_author r = Inr v \<and> json_ok v"
  by (cases "field_value r ''birth_date''") (auto simp: author_exportable_def export_author_def)

lemma export_book_ok:
  assumes ok: "book_exportable r"
    and a: "field_value r ''author'' = PyInst c k" and ar: "lookup_row (db_authors d) k = Some ar"
    and name: "json_ok (field_value ar ''name'')"
  shows "\<exists>v. export_book d r = Inr v \<and> json_ok v"
proof -
  from ok obtain dt where dt: "field_value r ''publication_date'' = PyDate dt"
    by (cases "field_value r ''publication_date''") (auto simp: book_exportable_def)
  from ok obtain pr where pr: "py_float (field_value r ''price'') = Inr pr"
    by (auto simp: book_exportable_def float_ok_def split: sum.splits)
  from ok dt pr a ar name show ?thesis
    by (simp add: export_book_def book_author_name_def book_exportable_def)
qed

lemma export_publisher_ok:
  assumes "publisher_exportable (snd kr)" and "list_all json_ok (book_titles d (fst kr))"
  shows "\<exists>v. export_publisher d kr = Inr v \<and> json_ok v"
  using assms by (simp add: export_publisher_def publisher_exportable_def)


lemma export_authors_ok:
  assumes "exportable d"
  shows "\<exists>as. smap export_author (map snd (t_rows (db_authors d))) = Inr as \<and> list_all json_ok as"
  using assms by (intro smap_all_Inr_pred) (auto simp: exportable_def list_all_iff intro: export_author_ok)

lemma export_books_ok:
  assumes wf: "db_wf d" and ex: "exportable d"
  shows "\<exists>bs. smap (export_book d) (map snd (t_rows (db_books d))) = Inr bs \<and> list_all json_ok bs"
proof (rule smap_all_Inr_pred)
  fix r assume r: "r \<in> set (map snd (t_rows (db_books d)))"
  from wf r obtain a where a: "map_of r ''author'' = Some (PyInst ''Author'' a)"
    and ak: "a \<in> set (table_keys (db_authors d))" by (rule db_wf_book_author)
  from ak obtain ar where ar: "lookup_row (db_authors d) a = Some ar"
    and ar_in: "ar \<in> set (map snd (t_rows (db_authors d)))" by (rule lookup_row_key)
  from ex ar_in have "json_ok (field_value ar ''name'')"
    by (auto simp: exportable_def list_all_iff author_exportable_def)
  moreover from ex r have "book_exportable r" by (auto simp: exportable_def list_all_iff)
  moreover from a have "field_value r ''author'' = PyInst ''Author'' a" by (simp add: field_value_def)
  ultimately show "\<exists>v. export_book d r = Inr v \<and> json_ok v"
    using ar by (intro export_book_ok) simp_all
qed

lemma export_publishers_ok:
  assumes ex: "exportable d"
  shows "\<exists>ps. smap (export_publisher d) (t_rows (db_publishers d)) = Inr ps \<and> list_all json_ok ps"
proof (rule smap_all_Inr_pred)
  fix kr assume kr: "kr \<in> set (t_rows (db_publishers d))"
  have "list_all json_ok (book_titles d (fst kr))"
    using ex by (auto simp: list_all_iff exportable_def book_exportable_def dest!: book_titles_stored)
  moreover from ex kr have "publisher_exportable (snd kr)" by (auto simp: exportable_def list_all_iff)
  ultimately show "\<exists>v. export_publisher d kr = Inr v \<and> json_ok v" by (intro export_publisher_ok)
qed

lemma export_publisher_fun:
  "export_publisher d = (\<lambda>kr. Inr (PyDict [(''name'', field_value (snd kr) ''name''),
      (''address'', field_value (snd kr) ''address''), (''website'', field_value (snd kr) ''website''),
      (''contact_email'', field_value (snd kr) ''contact_email''),
      (''books'', PyList (book_titles d (fst kr)))]))"
  by (rule ext) (simp add: export_publisher_def)

text \<open>The export of an exportable store returns, with one entry per row and,
  for each publisher, the titles of its books.\<close>

lemma export_from_database_ok:
  assumes "db_wf d" and "exportable d"
  obtains as bs where "export_from_database d =
      Inr (PyDict [(''authors'', PyList as), (''books'', PyList bs),
                   (''publishers'', PyList (map (\<lambda>kr. PyDict [(''name'', field_value (snd kr) ''name''),
                      (''address'', field_value (snd kr) ''address''), (''website'', field_value (snd kr) ''website''),
                      (''contact_email'', field_value (snd kr) ''contact_email''),
                      (''books'', PyList (book_titles d (fst kr)))]) (t_rows (db_publishers d))))],
           length (t_rows (db_authors d)), length (t_rows (db_books d)), length (t_rows (db_publishers d)))"
proof -
  from export_authors_ok [OF assms(2)] obtain as where
    as: "smap export_author (map snd (t_rows (db_authors d))) = Inr as" and jas: "list_all json_ok as" by blast
  from export_books_ok [OF assms] obtain bs where
    bs: "smap (export_book d) (map snd (t_rows (db_books d))) = Inr bs" and jbs: "list_all json_ok bs" by blast
  from export_publishers_ok [OF assms(2)] obtain ps where
    ps: "smap (export_publisher d) (t_rows (db_publishers d)) = Inr ps" and jps: "list_all json_ok ps" by blast
  from as bs ps have "length as = length (t_rows (db_authors d))" and "length bs = length (t_rows (db_books d))"
    and "length ps = length (t_rows (db_publishers d))" by (auto dest: smap_Inr_length)
  with as bs ps jas jbs jps have "export_from_database d =
      Inr (PyDict [(''authors'', PyList as), (''books'', PyList bs), (''publishers'', PyList ps)],
           length (t_rows (db_authors d)), length (t_rows (db_books d)), length (t_rows (db_publishers d)))"
    by (simp add: export_from_database_def for_append_smap Let_def)
  moreover from ps have "map (\<lambda>kr. PyDict [(''name'', field_value (snd kr) ''name''),
      (''address'', field_value (snd kr) ''address''), (''website'', field_value (snd kr) ''website''),
      (''contact_email'', field_value (snd kr) ''contact_email''),
      (''books'', PyList (book_titles d (fst kr)))]) (t_rows (db_publishers d)) = ps"
    by (simp add: export_publisher_fun)
  ultimately show thesis using that by simp
qed

lemma empty_db_exportable: "exportable empty_db"
  by (simp add: exportable_def empty_db_def empty_table_def)

lemma sample_export: "export_from_database sample_store = Inr (sample_document, 1, 1, 1)"
  by code_simp

text \<open>Printing digits and reading their value back.\<close>

lemma char_digit: "k < 10 \<Longrightarrow> of_char (char_of (48 + k) :: char) = (48 + k :: nat)"
  by (simp add: of_char_of)

lemma char_digit_decimal: "k < 10 \<Longrightarrow> py_isdecimal_char (char_of (48 + k :: nat))"
  by (simp add: py_isdecimal_char_def char_digit)

lemma dec_digits_decimal: "list_all py_isdecimal_char (dec_digits n)"
  by (induction n rule: dec_digits.induct) (subst dec_digits.simps, simp add: char_digit_decimal)

lemma dec_digits_nonempty: "dec_digits n \<noteq> []"
  by (subst dec_digits.simps) simp

lemma dec_value_snoc: "dec_value (xs @ [c]) = 10 * dec_value xs + (of_char c - 48)"
  by (simp add: dec_value_def)

lemma dec_value_dec_digits: "dec_value (dec_digits n) = n"
proof (induction n rule: dec_digits.induct)
  case (1 n)
  show ?case
  proof (cases "n < 10")
    case True
    then show ?thesis by (simp add: dec_digits.simps dec_value_def char_digit)
  next
    case False
    then have "dec_digits n = dec_digits (n div 10) @ [char_of (48 + n mod 10)]" by (simp add: dec_digits.simps)
    with False 1 show ?thesis by (simp add: dec_value_snoc char_digit)
  qed
qed

lemma dec_value_zeros: "dec_value (replicate k CHR ''0'' @ s) = dec_value s"
proof -
  have "foldl (\<lambda>acc c. 10 * acc + (of_char c - 48)) 0 (replicate k CHR ''0'') = (0::nat)"
    by (induction k) simp_all
  then show ?thesis by (simp add: dec_value_def)
qed

lemma pad_digits_decimal: "list_all py_isdecimal_char (pad_digits w n)"
proof -
  have "py_isdecimal_char CHR ''0''" by (simp add: py_isdecimal_char_def)
  with dec_digits_decimal [of n] show ?thesis by (auto simp: pad_digits_def list_all_iff)
qed

lemma pad_value: "dec_value (pad_digits w n) = n"
  by (simp add: pad_digits_def dec_value_zeros dec_value_dec_digits)

lemma dec_digits_length: "n < 10 ^ w \<Longrightarrow> 0 < w \<Longrightarrow> length (dec_digits n) \<le> w"
proof (induction n arbitrary: w rule: dec_digits.induct)
  case (1 n)
  show ?case
  proof (cases "n < 10")
    case True
    with 1(3) show ?thesis by (simp add: dec_digits.simps)
  next
    case False
    from 1(3) obtain w' where w: "w = Suc w'" by (cases w) simp_all
    with 1(2) have lt: "n < 10 ^ w' * 10" by (simp add: mult.commute)
    then have q: "n div 10 < 10 ^ w'" by (simp add: less_mult_imp_div_less)
    have "w' \<noteq> 0" using lt False by (cases w') simp_all
    with 1(1) [OF False q] have "length (dec_digits (n div 10)) \<le> w'" by simp
    with False w show ?thesis by (simp add: dec_digits.simps)
  qed
qed

lemma pad_digits_length: "n < 10 ^ w \<Longrightarrow> 0 < w \<Longrightarrow> length (pad_digits w n) = w"
  using dec_digits_length [of n w] by (simp add: pad_digits_def)

text \<open>Reading a date string with the models' \<open>DateField\<close>.\<close>

lemma days_in_month_le: "1 \<le> m \<Longrightarrow> m \<le> 12 \<Longrightarrow> days_in_month y m \<le> 31"
proof -
  assume "1 \<le> m" "m \<le> 12"
  then have "m - 1 < 12" by simp
  then show ?thesis
    by (auto simp: days_in_month_def less_Suc_eq numeral_eq_Suc nth_Cons split: nat.splits)
qed

lemma decimal_not_newline: "py_isdecimal_char c \<Longrightarrow> c \<noteq> CHR 0x0A"
  by (auto simp: py_isdecimal_char_def)

lemma date_match_iso:
  assumes y: "length Y = 4" and m: "length M = 2" and d: "length D = 2"
    and dY: "list_all py_isdecimal_char Y" and dM: "list_all py_isdecimal_char M" and dD: "list_all py_isdecimal_char D"
  shows "date_match (Y @ ''-'' @ M @ ''-'' @ D) = Some (Y, M, D)"
proof -
  from d obtain d1 d2 where D: "D = [d1, d2]"
    by (cases D; cases "tl D") auto
  with dD have "last (Y @ ''-'' @ M @ ''-'' @ D) \<noteq> CHR 0x0A" by (simp add: decimal_not_newline)
  moreover have "takeWhile py_isdecimal_char (M @ ''-'' @ D) = M"
    using dM by (simp add: takeWhile_append2 list_all_iff py_isdecimal_char_def)
  ultimately show ?thesis using y m d dY dD by (simp add: date_match_def Let_def)
qed

section \<open>Properties of the export\<close>

text \<open>C17: when the export returns, the document has the three lists of spec
  section 4.4 and the counts it returns are their lengths, which are the sizes
  of the three tables.\<close>

theorem export_from_database_counts:
  assumes "export_from_database d = Inr (doc, na, nb, np)"
  shows "na = length (t_rows (db_authors d)) \<and> nb = length (t_rows (db_books d)) \<and>
         np = length (t_rows (db_publishers d)) \<and>
         (\<exists>as bs ps. doc = PyDict [(''authors'', PyList as), (''books'', PyList bs), (''publishers'', PyList ps)] \<and>
            length as = na \<and> length bs = nb \<and> length ps = np)"
  using assms
  by (auto simp: export_from_database_def for_append_smap sbind_eq_Inr Let_def split: if_splits
           dest!: smap_Inr_length)

theorem export_from_database_counts_witness:
  "1 = length (t_rows (db_authors sample_store)) \<and> 1 = length (t_rows (db_books sample_store)) \<and>
   1 = length (t_rows (db_publishers sample_store)) \<and>
   (\<exists>as bs ps. sample_document = PyDict [(''authors'', PyList as), (''books'', PyList bs), (''publishers'', PyList ps)] \<and>
      length as = 1 \<and> length bs = 1 \<and> length ps = 1)"
  by (rule export_from_database_counts [OF sample_export])

text \<open>C18: on a well-formed store whose dates are dates, whose prices convert
  with \<open>float()\<close> and whose other exported columns have a JSON form, the
  export returns, with one entry per stored row.\<close>

theorem export_succeeds:
  assumes "db_wf d" and "exportable d"
  shows "\<exists>doc. export_from_database d =
           Inr (doc, length (t_rows (db_authors d)), length (t_rows (db_books d)), length (t_rows (db_publishers d)))"
proof -
  from assms obtain as bs where "export_from_database d = Inr (PyDict [(''authors'', PyList as), (''books'', PyList bs),
      (''publishers'', PyList (map (\<lambda>kr. PyDict [(''name'', field_value (snd kr) ''name''),
         (''address'', field_value (snd kr) ''address''), (''website'', field_value (snd kr) ''website''),
         (''contact_email'', field_value (snd kr) ''contact_email''),
         (''books'', PyList (book_titles d (fst kr)))]) (t_rows (db_publishers d))))],
      length (t_rows (db_authors d)), length (t_rows (db_books d)), length (t_rows (db_publishers d)))"
    by (rule export_from_database_ok)
  then show ?thesis by blast
qed

theorem export_succeeds_witness:
  "\<exists>doc. export_from_database sample_store =
     Inr (doc, length (t_rows (db_authors sample_store)), length (t_rows (db_books sample_store)),
          length (t_rows (db_publishers sample_store)))"
proof (rule export_succeeds)
  show "db_wf sample_store" by code_simp
  show "exportable sample_store" by code_simp
qed




end
