(* ===== verification/Generator.thy ===== *)
theory Generator
  imports Random_Source Schema
begin

text \<open>
  \<open>generate_sample_data\<close> of \<open>src/data_import_export.py\<close> (lines 45--88).  It
  draws every value from two sources of randomness: the module-level Faker
  instance \<open>fake\<close> (line 18; Faker keeps its own generator), modelled as a
  provider record \<open>'g faker\<close> of draws on a state \<open>'g\<close>, and the \<open>random\<close>
  module (lines 67, 69, 70), the random source of theory \<open>Random_Source\<close> on a
  state \<open>'r\<close>.  The locale-specific content of the Faker draws is not modelled:
  a draw is any string or date the provider returns.  The records are built
  left to right as the dict displays evaluate them; the three \<open>for\<close> loops
  append one record per pass.
\<close>

section \<open>Sources\<close>

record 'g faker =
  fk_name :: "'g \<Rightarrow> string \<times> 'g"
  fk_date_of_birth :: "nat \<Rightarrow> nat \<Rightarrow> 'g \<Rightarrow> pydate \<times> 'g"
  fk_country :: "'g \<Rightarrow> string \<times> 'g"
  fk_text :: "nat \<Rightarrow> 'g \<Rightarrow> string \<times> 'g"
  fk_catch_phrase :: "'g \<Rightarrow> string \<times> 'g"
  fk_date_between :: "string \<Rightarrow> string \<Rightarrow> 'g \<Rightarrow> pydate \<times> 'g"
  fk_isbn13 :: "'g \<Rightarrow> string \<times> 'g"
  fk_company :: "'g \<Rightarrow> string \<times> 'g"
  fk_address :: "'g \<Rightarrow> string \<times> 'g"
  fk_url :: "'g \<Rightarrow> string \<times> 'g"
  fk_company_email :: "'g \<Rightarrow> string \<times> 'g"

record ('g, 'r) gen_state =
  gs_fake :: 'g
  gs_rng :: 'r

definition on_fake :: "('g \<Rightarrow> 'a \<times> 'g) \<Rightarrow> ('g, 'r) gen_state \<Rightarrow> 'a py \<times> ('g, 'r) gen_state" where
  "on_fake f s = (case f (gs_fake s) of (x, g') \<Rightarrow> (Inr x, s\<lparr>gs_fake := g'\<rparr>))"

definition on_random :: "('r \<Rightarrow> 'a py \<times> 'r) \<Rightarrow> ('g, 'r) gen_state \<Rightarrow> 'a py \<times> ('g, 'r) gen_state" where
  "on_random f s = (case f (gs_rng s) of (x, r') \<Rightarrow> (x, s\<lparr>gs_rng := r'\<rparr>))"

section \<open>Rounding\<close>

text \<open>\<open>round(x, 2)\<close>: the multiple of \<open>0.01\<close> nearest to \<open>x\<close>, a tie to the even
  multiple (computed on the exact value; the binary representation of
  \<open>x\<close>, which decides CPython's ties, is not modelled).\<close>

definition round_half_even :: "rat \<Rightarrow> int" where
  "round_half_even x =
     (let f = \<lfloor>x\<rfloor>; r = x - of_int f
      in if r < 1 / 2 then f else if 1 / 2 < r then f + 1 else if even f then f else f + 1)"

definition py_round2 :: "rat \<Rightarrow> rat" where
  "py_round2 x = of_int (round_half_even (x * 100)) / 100"

section \<open>The generator\<close>

text \<open>Lines 53--58: one author.\<close>

definition gen_author :: "'g faker \<Rightarrow> ('g, 'r) gen_state \<Rightarrow> pyval py \<times> ('g, 'r) gen_state" where
  "gen_author fk =
     ebind (on_fake (fk_name fk)) (\<lambda>name.
     ebind (on_fake (fk_date_of_birth fk 25 85)) (\<lambda>bd.
     ebind (on_fake (fk_country fk)) (\<lambda>country.
     ebind (on_fake (fk_text fk 500)) (\<lambda>bio.
       ereturn (PyDict [(''name'', PyStr name), (''birth_date'', PyDate bd),
                        (''country'', PyStr country), (''biography'', PyStr bio)])))))"

text \<open>Line 62: the genre codes the generator draws from.\<close>

definition genres :: "pyval list" where
  "genres = [PyStr ''FIC'', PyStr ''SCI'', PyStr ''HIS'', PyStr ''BIO'', PyStr ''EDU'']"

text \<open>Lines 64--71: one book.\<close>

definition gen_book :: "'g faker \<Rightarrow> 'r random_source \<Rightarrow> ('g, 'r) gen_state \<Rightarrow> pyval py \<times> ('g, 'r) gen_state" where
  "gen_book fk rs =
     ebind (on_fake (fk_catch_phrase fk)) (\<lambda>title.
     ebind (on_fake (fk_date_between fk ''-30y'' ''today'')) (\<lambda>pd.
     ebind (on_random (py_choice rs genres)) (\<lambda>genre.
     ebind (on_fake (fk_isbn13 fk)) (\<lambda>isbn.
     ebind (on_random (py_randint rs 100 800)) (\<lambda>pages.
     ebind (on_random (\<lambda>r. case py_uniform rs (599 / 100) (9999 / 100) r of (u, r') \<Rightarrow> (Inr u, r'))) (\<lambda>u.
       ereturn (PyDict [(''title'', PyStr title), (''publication_date'', PyDate pd), (''genre'', genre),
                        (''isbn'', PyStr isbn), (''pages'', PyInt pages),
                        (''price'', PyFloat (Fin (py_round2 u)))])))))))"

text \<open>Lines 76--81: one publisher.\<close>

definition gen_publisher :: "'g faker \<Rightarrow> ('g, 'r) gen_state \<Rightarrow> pyval py \<times> ('g, 'r) gen_state" where
  "gen_publisher fk =
     ebind (on_fake (fk_company fk)) (\<lambda>name.
     ebind (on_fake (fk_address fk)) (\<lambda>address.
     ebind (on_fake (fk_url fk)) (\<lambda>url.
     ebind (on_fake (fk_company_email fk)) (\<lambda>email.
       ereturn (PyDict [(''name'', PyStr name), (''address'', PyStr address),
                        (''website'', PyStr url), (''contact_email'', PyStr email)])))))"

text \<open>Lines 45--88: \<open>range(num_records)\<close> authors, as many books, and
  \<open>min(5, num_records)\<close> publishers (a negative count makes an empty range).\<close>

definition generate_sample_data :: "'g faker \<Rightarrow> 'r random_source \<Rightarrow> int \<Rightarrow> ('g, 'r) gen_state \<Rightarrow> pyval py \<times> ('g, 'r) gen_state" where
  "generate_sample_data fk rs num_records =
     ebind (emap (\<lambda>_. gen_author fk) [0..<nat num_records]) (\<lambda>authors.
     ebind (emap (\<lambda>_. gen_book fk rs) [0..<nat num_records]) (\<lambda>books.
     ebind (emap (\<lambda>_. gen_publisher fk) [0..<nat (min 5 num_records)]) (\<lambda>publishers.
       ereturn (PyDict [(''authors'', PyList authors), (''books'', PyList books),
                        (''publishers'', PyList publishers)]))))"


section \<open>What the generator promises\<close>

text \<open>The value of key \<open>k\<close> of a dict (\<open>None\<close> when absent).\<close>

definition dict_get :: "pyval \<Rightarrow> string \<Rightarrow> pyval" where
  "dict_get v k = (case py_getitem v k of Inr x \<Rightarrow> x | Inl _ \<Rightarrow> PyNone)"

definition dict_keys :: "pyval \<Rightarrow> string list" where
  "dict_keys v = (case v of PyDict kvs \<Rightarrow> map fst kvs | _ \<Rightarrow> [])"

definition author_record_ok :: "pyval \<Rightarrow> bool" where
  "author_record_ok v \<longleftrightarrow>
     dict_keys v = [''name'', ''birth_date'', ''country'', ''biography''] \<and>
     is_str (dict_get v ''name'') \<and> is_date (dict_get v ''birth_date'') \<and>
     is_str (dict_get v ''country'') \<and> is_str (dict_get v ''biography'')"

text \<open>A price of the generator: a multiple of \<open>0.01\<close> in \<open>[5.99, 99.99]\<close>.\<close>

definition price_ok :: "pyval \<Rightarrow> bool" where
  "price_ok v \<longleftrightarrow>
     (case v of PyFloat (Fin q) \<Rightarrow> 599 / 100 \<le> q \<and> q \<le> 9999 / 100 \<and> of_int \<lfloor>q * 100\<rfloor> = q * 100
      | _ \<Rightarrow> False)"

definition pages_ok :: "pyval \<Rightarrow> bool" where
  "pages_ok v \<longleftrightarrow> (case v of PyInt p \<Rightarrow> 100 \<le> p \<and> p \<le> 800 | _ \<Rightarrow> False)"

definition book_record_ok :: "pyval \<Rightarrow> bool" where
  "book_record_ok v \<longleftrightarrow>
     dict_keys v = [''title'', ''publication_date'', ''genre'', ''isbn'', ''pages'', ''price''] \<and>
     is_str (dict_get v ''title'') \<and> is_date (dict_get v ''publication_date'') \<and>
     dict_get v ''genre'' \<in> set (map PyStr genre_choices) \<and> is_str (dict_get v ''isbn'') \<and>
     pages_ok (dict_get v ''pages'') \<and> price_ok (dict_get v ''price'')"

definition publisher_record_ok :: "pyval \<Rightarrow> bool" where
  "publisher_record_ok v \<longleftrightarrow>
     dict_keys v = [''name'', ''address'', ''website'', ''contact_email''] \<and>
     list_all (\<lambda>k. is_str (dict_get v k)) [''name'', ''address'', ''website'', ''contact_email'']"

section \<open>A sample provider\<close>

text \<open>A Faker provider that returns the same values every time.\<close>

definition const_faker :: "unit faker" where
  "const_faker =
     \<lparr>fk_name = (\<lambda>g. (''N'', g)), fk_date_of_birth = (\<lambda>lo hi g. (Date 1970 1 1, g)),
      fk_country = (\<lambda>g. (''C'', g)), fk_text = (\<lambda>k g. (''B'', g)),
      fk_catch_phrase = (\<lambda>g. (''T'', g)), fk_date_between = (\<lambda>a b g. (Date 2000 1 1, g)),
      fk_isbn13 = (\<lambda>g. (''978-0-13-468599-1'', g)), fk_company = (\<lambda>g. (''P'', g)),
      fk_address = (\<lambda>g. (''A'', g)), fk_url = (\<lambda>g. (''W'', g)), fk_company_email = (\<lambda>g. (''E'', g))\<rparr>"

definition sample_gen_state :: "(unit, unit) gen_state" where
  "sample_gen_state = \<lparr>gs_fake = (), gs_rng = ()\<rparr>"

text \<open>What the generator makes of one record of each kind with this provider
  and \<open>zero_source\<close>: genre \<open>FIC\<close> (index 0), 100 pages, price
  \<open>round(5.99 + 94.0 * 0.0, 2) = 5.99\<close>.\<close>

definition sample_generated :: pyval where
  "sample_generated =
     PyDict [(''authors'', PyList [PyDict [(''name'', PyStr ''N''), (''birth_date'', PyDate (Date 1970 1 1)),
                                          (''country'', PyStr ''C''), (''biography'', PyStr ''B'')]]),
             (''books'', PyList [PyDict [(''title'', PyStr ''T''), (''publication_date'', PyDate (Date 2000 1 1)),
                                        (''genre'', PyStr ''FIC''), (''isbn'', PyStr ''978-0-13-468599-1''),
                                        (''pages'', PyInt 100), (''price'', PyFloat (Fin (599 / 100)))]]),
             (''publishers'', PyList [PyDict [(''name'', PyStr ''P''), (''address'', PyStr ''A''),
                                             (''website'', PyStr ''W''), (''contact_email'', PyStr ''E'')]])]"

section \<open>Lemmas on the generator\<close>

lemma round_half_even_bounds:
  assumes "of_int a \<le> y" and "y \<le> of_int b"
  shows "a \<le> round_half_even y \<and> round_half_even y \<le> b"
proof -
  have fl: "a \<le> \<lfloor>y\<rfloor>" using assms(1) by (simp add: le_floor_iff)
  have fu: "\<lfloor>y\<rfloor> \<le> b" using assms(2) by (simp add: floor_le_iff)
  show ?thesis
  proof (cases "\<lfloor>y\<rfloor> = b")
    case True
    then have "y = of_int b" using assms(2) by (metis floor_correct linorder_not_le order_antisym)
    with True show ?thesis using fl by (simp add: round_half_even_def)
  next
    case False
    with fu fl show ?thesis by (auto simp: round_half_even_def Let_def)
  qed
qed

lemma py_round2_bounds:
  assumes "599 / 100 \<le> x" and "x \<le> 9999 / 100"
  shows "price_ok (PyFloat (Fin (py_round2 x)))"
proof -
  from assms have "of_int 599 \<le> x * 100" and "x * 100 \<le> of_int 9999" by simp_all
  from round_half_even_bounds [OF this] show ?thesis
    by (simp add: price_ok_def py_round2_def)
qed

lemma on_fake_simp: "on_fake f s = (Inr (fst (f (gs_fake s))), s\<lparr>gs_fake := snd (f (gs_fake s))\<rparr>)"
  by (simp add: on_fake_def split_def)

lemma gen_author_ok: "\<exists>v t. gen_author fk s = (Inr v, t) \<and> author_record_ok v"
  by (simp add: gen_author_def on_fake_simp ebind_def author_record_ok_def dict_get_def dict_keys_def)

lemma gen_publisher_ok: "\<exists>v t. gen_publisher fk s = (Inr v, t) \<and> publisher_record_ok v"
  by (simp add: gen_publisher_def on_fake_simp ebind_def publisher_record_ok_def dict_get_def dict_keys_def)


lemma gen_book_ok:
  assumes src: "source_ok rs"
  shows "\<exists>v t. gen_book fk rs s = (Inr v, t) \<and> book_record_ok v"
proof -
  from py_choice_ok [OF src, of genres "gs_rng s"] obtain g r1
    where ch: "py_choice rs genres (gs_rng s) = (Inr g, r1)" and g: "g \<in> set genres"
    by (auto simp: genres_def)
  from g have g': "g \<in> set (map PyStr genre_choices)" by (auto simp: genres_def genre_choices_def)
  from py_randint_ok [OF src, of 100 800 r1] obtain p r2
    where ri: "py_randint rs 100 800 r1 = (Inr p, r2)" and p: "100 \<le> p" "p \<le> 800" by auto
  obtain u r3 where un: "py_uniform rs (599 / 100) (9999 / 100) r2 = (u, r3)" by fastforce
  from py_uniform_bounds [OF src, of "599 / 100" "9999 / 100" r2] un
  have "price_ok (PyFloat (Fin (py_round2 u)))" by (simp add: py_round2_bounds)
  with ch g' ri p un show ?thesis
    by (simp add: gen_book_def on_fake_simp on_random_def ebind_def book_record_ok_def
                  dict_get_def dict_keys_def pages_ok_def)
qed


text \<open>Generated records are accepted by the model constructors, with no \<open>None\<close>.\<close>

lemma is_str_iff: "is_str v \<longleftrightarrow> (\<exists>s. v = PyStr s)"
  by (cases v) simp_all

lemma is_date_iff: "is_date v \<longleftrightarrow> (\<exists>d. v = PyDate d)"
  by (cases v) simp_all

lemma dict_keys_zip:
  assumes "dict_keys v = ks" and "ks \<noteq> []"
  obtains vs where "v = PyDict (zip ks vs)" and "length vs = length ks"
proof -
  from assms obtain kvs where v: "v = PyDict kvs" and k: "map fst kvs = ks"
    by (cases v) (auto simp: dict_keys_def)
  have "kvs = zip ks (map snd kvs)" using k by (metis zip_map_fst_snd)
  with v k that show ?thesis by (metis length_map)
qed

lemma length4: "length vs = 4 \<Longrightarrow> \<exists>a b c d. vs = [a, b, c, d]"
  by (auto simp: numeral_eq_Suc length_Suc_conv)

lemma length6: "length vs = 6 \<Longrightarrow> \<exists>a b c d e f. vs = [a, b, c, d, e, f]"
  by (auto simp: numeral_eq_Suc length_Suc_conv)

lemma author_record_init:
  assumes "author_record_ok a"
  shows "\<exists>r. model_init author_fields a = Inr r \<and> list_all (\<lambda>kv. snd kv \<noteq> PyNone) r"
proof -
  from assms obtain vs where a: "a = PyDict (zip [''name'', ''birth_date'', ''country'', ''biography''] vs)"
    and "length vs = 4" by (auto simp: author_record_ok_def elim: dict_keys_zip)
  then obtain x1 x2 x3 x4 where "vs = [x1, x2, x3, x4]" using length4 by blast
  with a assms show ?thesis
    by (auto simp: author_record_ok_def dict_get_def is_str_iff is_date_iff model_init_def
                   author_fields_def column_fields_def field_def fk_value_ok_def)
qed

lemma publisher_record_init:
  assumes "publisher_record_ok p"
  shows "\<exists>r. model_init publisher_fields p = Inr r \<and> list_all (\<lambda>kv. snd kv \<noteq> PyNone) r"
proof -
  from assms obtain vs where p: "p = PyDict (zip [''name'', ''address'', ''website'', ''contact_email''] vs)"
    and "length vs = 4" by (auto simp: publisher_record_ok_def elim: dict_keys_zip)
  then obtain x1 x2 x3 x4 where "vs = [x1, x2, x3, x4]" using length4 by blast
  with p assms show ?thesis
    by (auto simp: publisher_record_ok_def dict_get_def is_str_iff model_init_def
                   publisher_fields_def column_fields_def field_def fk_value_ok_def)
qed

lemma book_record_init:
  assumes "book_record_ok b"
  shows "\<exists>r. sbind (py_setitem b ''author'' (PyInst ''Author'' k)) (model_init book_fields) = Inr r \<and>
             list_all (\<lambda>kv. snd kv \<noteq> PyNone) r"
proof -
  from assms obtain vs where b: "b = PyDict (zip [''title'', ''publication_date'', ''genre'', ''isbn'', ''pages'', ''price''] vs)"
    and "length vs = 6" by (auto simp: book_record_ok_def elim: dict_keys_zip)
  then obtain x1 x2 x3 x4 x5 x6 where "vs = [x1, x2, x3, x4, x5, x6]" using length6 by blast
  with b assms show ?thesis
    by (auto simp: book_record_ok_def dict_get_def is_str_iff is_date_iff pages_ok_def price_ok_def
                   genre_choices_def model_init_def book_fields_def column_fields_def field_def
                   fk_value_ok_def split: pyval.splits pyfloat.splits)
qed

lemma sample_generate:
  "generate_sample_data const_faker zero_source 1 sample_gen_state = (Inr sample_generated, sample_gen_state)"
  by code_simp

text \<open>The generator returns, with the three lists of records it promises.\<close>

lemma generate_ok:
  assumes src: "source_ok rs"
  shows "\<exists>as bs ps t. generate_sample_data fk rs n s =
            (Inr (PyDict [(''authors'', PyList as), (''books'', PyList bs), (''publishers'', PyList ps)]), t) \<and>
          length as = nat n \<and> length bs = nat n \<and> length ps = nat (min 5 n) \<and>
          list_all author_record_ok as \<and> list_all book_record_ok bs \<and> list_all publisher_record_ok ps"
proof -
  obtain as s1 where a: "emap (\<lambda>_. gen_author fk) [0..<nat n] s = (Inr as, s1)"
    and "list_all author_record_ok as" and "length as = nat n"
    using emap_total [of "[0..<nat n]" "\<lambda>_. gen_author fk" author_record_ok s] gen_author_ok by force
  moreover obtain bs s2 where b: "emap (\<lambda>_. gen_book fk rs) [0..<nat n] s1 = (Inr bs, s2)"
    and "list_all book_record_ok bs" and "length bs = nat n"
    using emap_total [of "[0..<nat n]" "\<lambda>_. gen_book fk rs" book_record_ok s1] gen_book_ok [OF src] by force
  moreover obtain ps s3 where p: "emap (\<lambda>_. gen_publisher fk) [0..<nat (min 5 n)] s2 = (Inr ps, s3)"
    and "list_all publisher_record_ok ps" and "length ps = nat (min 5 n)"
    using emap_total [of "[0..<nat (min 5 n)]" "\<lambda>_. gen_publisher fk" publisher_record_ok s2] gen_publisher_ok
    by force
  ultimately show ?thesis by (simp add: generate_sample_data_def ebind_def)
qed

section \<open>Properties of the generator\<close>

text \<open>C20 (spec section 4.1): on a random source that meets the contract, the
  generator returns (nothing it calls can raise), with \<open>n\<close> authors, \<open>n\<close> books
  and \<open>min(5, n)\<close> publishers.\<close>

theorem generate_sample_data_counts:
  assumes "source_ok rs"
  shows "\<exists>as bs ps t. generate_sample_data fk rs n s =
            (Inr (PyDict [(''authors'', PyList as), (''books'', PyList bs), (''publishers'', PyList ps)]), t) \<and>
          length as = nat n \<and> length bs = nat n \<and> length ps = nat (min 5 n)"
  using generate_ok [OF assms] by blast

theorem generate_sample_data_counts_witness:
  "\<exists>as bs ps t. generate_sample_data const_faker zero_source 25 sample_gen_state =
     (Inr (PyDict [(''authors'', PyList as), (''books'', PyList bs), (''publishers'', PyList ps)]), t) \<and>
   length as = nat 25 \<and> length bs = nat 25 \<and> length ps = nat (min 5 25)"
  by (rule generate_sample_data_counts [OF zero_source_ok])

text \<open>C21 (bounds, spec section 4.1): every generated book has a genre of
  \<open>GENRE_CHOICES\<close> (models.py lines 15--21), pages in \<open>[100, 800]\<close> and a price
  that is a multiple of \<open>0.01\<close> in \<open>[5.99, 99.99]\<close>; every record has exactly
  the keys of lines 53--58, 64--71 and 76--81, with strings and dates as values.\<close>

theorem generate_sample_data_records:
  assumes "source_ok rs"
    and "generate_sample_data fk rs n s =
           (Inr (PyDict [(''authors'', PyList as), (''books'', PyList bs), (''publishers'', PyList ps)]), t)"
  shows "list_all author_record_ok as \<and> list_all book_record_ok bs \<and> list_all publisher_record_ok ps"
  using generate_ok [OF assms(1), of fk n s] assms(2) by auto


theorem generate_sample_data_records_witness:
  "list_all author_record_ok [PyDict [(''name'', PyStr ''N''), (''birth_date'', PyDate (Date 1970 1 1)),
                                      (''country'', PyStr ''C''), (''biography'', PyStr ''B'')]] \<and>
   list_all book_record_ok [PyDict [(''title'', PyStr ''T''), (''publication_date'', PyDate (Date 2000 1 1)),
                                    (''genre'', PyStr ''FIC''), (''isbn'', PyStr ''978-0-13-468599-1''),
                                    (''pages'', PyInt 100), (''price'', PyFloat (Fin (599 / 100)))]] \<and>
   list_all publisher_record_ok [PyDict [(''name'', PyStr ''P''), (''address'', PyStr ''A''),
                                         (''website'', PyStr ''W''), (''contact_email'', PyStr ''E'')]]"
  using sample_generate unfolding sample_generated_def by (rule generate_sample_data_records [OF zero_source_ok])

text \<open>C22 (type): every record the generator makes is accepted by its model's
  constructor, \<open>Author(**a)\<close>, \<open>Book(**b)\<close> once \<open>b['author']\<close> holds an
  author (line 103), \<open>Publisher(**p)\<close>, and gives a row without \<open>None\<close>:
  the generator's keys are the models' fields.\<close>

theorem generated_records_fit_models:
  assumes "source_ok rs"
    and "generate_sample_data fk rs n s =
           (Inr (PyDict [(''authors'', PyList as), (''books'', PyList bs), (''publishers'', PyList ps)]), t)"
  shows "(\<forall>a \<in> set as. \<exists>r. model_init author_fields a = Inr r \<and> list_all (\<lambda>kv. snd kv \<noteq> PyNone) r) \<and>
         (\<forall>b \<in> set bs. \<forall>k. \<exists>r. sbind (py_setitem b ''author'' (PyInst ''Author'' k)) (model_init book_fields) = Inr r \<and>
                               list_all (\<lambda>kv. snd kv \<noteq> PyNone) r) \<and>
         (\<forall>p \<in> set ps. \<exists>r. model_init publisher_fields p = Inr r \<and> list_all (\<lambda>kv. snd kv \<noteq> PyNone) r)"
proof -
  from generate_ok [OF assms(1), of fk n s] assms(2)
  have oks: "list_all author_record_ok as" "list_all book_record_ok bs" "list_all publisher_record_ok ps"
    by auto
  show ?thesis
  proof (intro conjI ballI allI)
    fix a assume "a \<in> set as"
    with oks(1) show "\<exists>r. model_init author_fields a = Inr r \<and> list_all (\<lambda>kv. snd kv \<noteq> PyNone) r"
      by (intro author_record_init) (simp add: list_all_iff)
  next
    fix b k assume "b \<in> set bs"
    with oks(2) show "\<exists>r. sbind (py_setitem b ''author'' (PyInst ''Author'' k)) (model_init book_fields) = Inr r \<and>
                         list_all (\<lambda>kv. snd kv \<noteq> PyNone) r"
      by (intro book_record_init) (simp add: list_all_iff)
  next
    fix p assume "p \<in> set ps"
    with oks(3) show "\<exists>r. model_init publisher_fields p = Inr r \<and> list_all (\<lambda>kv. snd kv \<noteq> PyNone) r"
      by (intro publisher_record_init) (simp add: list_all_iff)
  qed
qed

theorem generated_records_fit_models_witness:
  "(\<exists>r. model_init author_fields
          (PyDict [(''name'', PyStr ''N''), (''birth_date'', PyDate (Date 1970 1 1)), (''country'', PyStr ''C''), (''biography'', PyStr ''B'')]) = Inr r \<and> list_all (\<lambda>kv. snd kv \<noteq> PyNone) r) \<and>
   (\<forall>k. \<exists>r. sbind (py_setitem
          (PyDict [(''title'', PyStr ''T''), (''publication_date'', PyDate (Date 2000 1 1)), (''genre'', PyStr ''FIC''), (''isbn'', PyStr ''978-0-13-468599-1''), (''pages'', PyInt 100), (''price'', PyFloat (Fin (599 / 100)))])
          ''author'' (PyInst ''Author'' k)) (model_init book_fields) = Inr r \<and> list_all (\<lambda>kv. snd kv \<noteq> PyNone) r) \<and>
   (\<exists>r. model_init publisher_fields
          (PyDict [(''name'', PyStr ''P''), (''address'', PyStr ''A''), (''website'', PyStr ''W''), (''contact_email'', PyStr ''E'')]) = Inr r \<and> list_all (\<lambda>kv. snd kv \<noteq> PyNone) r)"
  using generated_records_fit_models [OF zero_source_ok sample_generate [unfolded sample_generated_def]] by simp

end
