(* ===== verification/Pipeline.thy ===== *)
theory Pipeline
  imports Cleaner Import_Success Exporter Generator
begin

text \<open>
  The entry point \<open>main()\<close> of \<open>src/data_import_export.py\<close> (lines
  169--191): generate 25 records, clean them, import them, export the store,
  printing a progress line before each step and the counts after the import and
  the export.  Its state joins the states of the parts: the Faker provider and
  the \<open>random\<close> module's generator, both global in the script (the generator
  and the importer draw from the same \<open>random\<close> state), the store, the lines
  printed, and the content of \<open>library_export.json\<close>.
\<close>

section \<open>The program state\<close>

text \<open>The lines \<open>main\<close> prints, in order: the progress messages of lines 171,
  175, 179, 184 and 188, and the two count lines of 181 and 186 with the values
  they format.  (The Chinese text of the messages is not modelled.)\<close>

datatype report =
    Generating
  | Cleaning
  | Importing
  | Imported pyval pyval pyval
  | Exporting
  | Exported nat nat nat
  | Finished

record ('g, 'r) prog =
  pg_fake :: 'g
  pg_rng :: 'r
  pg_db :: db
  pg_out :: "report list"
  pg_file :: "pyval option"

text \<open>\<open>print(...)\<close>: append one line to the output.\<close>

definition say :: "report \<Rightarrow> ('g, 'r) prog \<Rightarrow> unit py \<times> ('g, 'r) prog" where
  "say m s = (Inr (), s\<lparr>pg_out := pg_out s @ [m]\<rparr>)"

text \<open>A step of the generator runs on the Faker provider and the generator of
  \<open>random\<close>; a step of the importer on the store and the same generator.\<close>

definition in_gen :: "(('g, 'r) gen_state \<Rightarrow> 'a py \<times> ('g, 'r) gen_state) \<Rightarrow> ('g, 'r) prog \<Rightarrow> 'a py \<times> ('g, 'r) prog" where
  "in_gen f s = (case f \<lparr>gs_fake = pg_fake s, gs_rng = pg_rng s\<rparr> of
                   (x, g) \<Rightarrow> (x, s\<lparr>pg_fake := gs_fake g, pg_rng := gs_rng g\<rparr>))"

definition in_world :: "('r world \<Rightarrow> 'a py \<times> 'r world) \<Rightarrow> ('g, 'r) prog \<Rightarrow> 'a py \<times> ('g, 'r) prog" where
  "in_world f s = (case f \<lparr>w_db = pg_db s, w_rng = pg_rng s\<rparr> of
                     (x, w) \<Rightarrow> (x, s\<lparr>pg_db := w_db w, pg_rng := w_rng w\<rparr>))"

text \<open>Lines 164--167 of \<open>export_from_database\<close>: the document it builds is
  written to \<open>library_export.json\<close> and the three counts are returned.  On an
  exception the file is left as it was (a \<open>json.dump\<close> that raises after
  truncating the file is not modelled).\<close>

definition export_to_file :: "('g, 'r) prog \<Rightarrow> (nat \<times> nat \<times> nat) py \<times> ('g, 'r) prog" where
  "export_to_file s = (case export_from_database (pg_db s) of
                         Inl e \<Rightarrow> (Inl e, s)
                       | Inr (doc, n) \<Rightarrow> (Inr n, s\<lparr>pg_file := Some doc\<rparr>))"

section \<open>The entry point\<close>

text \<open>Lines 169--188: the four steps in sequence; the f-strings of lines 181
  and 186 subscript the results before the line is printed.  An exception of any
  step propagates out of \<open>main\<close> with the state it left.\<close>

definition main :: "'g faker \<Rightarrow> 'r random_source \<Rightarrow> ('g, 'r) prog \<Rightarrow> unit py \<times> ('g, 'r) prog" where
  "main fk rs =
     ebind (say Generating) (\<lambda>_.
     ebind (in_gen (generate_sample_data fk rs 25)) (\<lambda>raw_data.
     ebind (say Cleaning) (\<lambda>_.
     ebind (elift (clean_raw_data raw_data)) (\<lambda>cleaned_data.
     ebind (say Importing) (\<lambda>_.
     ebind (in_world (import_to_database rs cleaned_data)) (\<lambda>import_results.
     ebind (elift (py_getitem import_results ''authors'')) (\<lambda>na.
     ebind (elift (py_getitem import_results ''books'')) (\<lambda>nb.
     ebind (elift (py_getitem import_results ''publishers'')) (\<lambda>np.
     ebind (say (Imported na nb np)) (\<lambda>_.
     ebind (say Exporting) (\<lambda>_.
     ebind export_to_file (\<lambda>export_results. case export_results of (ea, eb, ep) \<Rightarrow>
     ebind (say (Exported ea eb ep)) (\<lambda>_.
     say Finished)))))))))))))"

section \<open>Generated records through the import\<close>

text \<open>The row the model builds from a record of the generator's shape can be
  exported, and keeps the record's fields.\<close>

lemma author_record_row:
  assumes "author_record_ok a" and "model_init author_fields a = Inr r"
  shows "author_exportable r \<and> prep_row author_fields r = Inr r"
proof -
  from assms(1) obtain vs where a: "a = PyDict (zip [''name'', ''birth_date'', ''country'', ''biography''] vs)"
    and "length vs = 4" by (auto simp: author_record_ok_def elim: dict_keys_zip)
  then obtain x1 x2 x3 x4 where "vs = [x1, x2, x3, x4]" using length4 by blast
  with a assms show ?thesis
    by (auto simp: author_record_ok_def dict_get_def is_str_iff is_date_iff model_init_def Let_def
                   author_fields_def column_fields_def field_def fk_value_ok_def author_exportable_def
                   field_value_def prep_row_def split: if_splits)
qed

lemma publisher_record_row:
  assumes "publisher_record_ok p" and "model_init publisher_fields p = Inr r"
  shows "publisher_exportable r \<and> prep_row publisher_fields r = Inr r"
proof -
  from assms(1) obtain vs where p: "p = PyDict (zip [''name'', ''address'', ''website'', ''contact_email''] vs)"
    and "length vs = 4" by (auto simp: publisher_record_ok_def elim: dict_keys_zip)
  then obtain x1 x2 x3 x4 where "vs = [x1, x2, x3, x4]" using length4 by blast
  with p assms show ?thesis
    by (auto simp: publisher_record_ok_def dict_get_def is_str_iff model_init_def Let_def
                   publisher_fields_def column_fields_def field_def fk_value_ok_def publisher_exportable_def
                   field_value_def prep_row_def split: if_splits)
qed

lemma book_record_row:
  assumes "book_record_ok b" and "sbind (py_setitem b ''author'' (PyInst ''Author'' k)) (model_init book_fields) = Inr r"
  shows "book_exportable r \<and> prep_row book_fields r = Inr r \<and> opt_all nonneg_value (map_of r ''pages'') \<and>
         opt_all sqlite_int_ok (map_of r ''pages'') \<and>
         field_value r ''title'' = dict_get b ''title'' \<and> book_isbn b = dict_get b ''isbn''"
proof -
  from assms(1) obtain vs where b: "b = PyDict (zip [''title'', ''publication_date'', ''genre'', ''isbn'', ''pages'', ''price''] vs)"
    and "length vs = 6" by (auto simp: book_record_ok_def elim: dict_keys_zip)
  then obtain x1 x2 x3 x4 x5 x6 where "vs = [x1, x2, x3, x4, x5, x6]" using length6 by blast
  with b assms show ?thesis
    by (auto simp: book_record_ok_def dict_get_def is_str_iff is_date_iff pages_ok_def price_ok_def
                   genre_choices_def model_init_def Let_def book_fields_def column_fields_def field_def
                   fk_value_ok_def book_exportable_def field_value_def float_ok_def book_isbn_def
                   prep_row_def sqlite_int_ok_def split: pyval.splits pyfloat.splits if_splits)
qed

text \<open>Records of the generator's shape, whose ISBNs are new and distinct,
  are imported: the import returns its counts, and the store stays well formed
  and exportable, each new book row carrying its record's title.\<close>

lemma import_generated:
  fixes rs :: "'r random_source" and w :: "'r world"
  assumes src: "source_ok rs" and wf: "db_wf (w_db w)" and ex: "exportable (w_db w)"
    and ra: "list_all author_record_ok as" and rb: "list_all book_record_ok bs"
    and rp: "list_all publisher_record_ok ps"
    and isbn: "distinct (map (\<lambda>r. map_of r ''isbn'') (map snd (t_rows (db_books (w_db w)))) @
                         map (\<lambda>b. Some (dict_get b ''isbn'')) bs)"
    and auth: "bs \<noteq> [] \<longrightarrow> as \<noteq> [] \<or> t_rows (db_authors (w_db w)) \<noteq> []"
  obtains w' rows where
    "import_to_database rs (PyDict [(''authors'', PyList as), (''books'', PyList bs), (''publishers'', PyList ps)]) w =
      (Inr (PyDict [(''authors'', PyInt (int (length as))), (''books'', PyInt (int (length bs))),
                    (''publishers'', PyInt (int (length ps)))]), w')"
    and "db_wf (w_db w')" and "exportable (w_db w')"
    and "length (t_rows (db_authors (w_db w'))) = length (t_rows (db_authors (w_db w))) + length as"
    and "map snd (t_rows (db_books (w_db w'))) = map snd (t_rows (db_books (w_db w))) @ rows"
    and "list_all2 (\<lambda>b r. field_value r ''title'' = dict_get b ''title'') bs rows"
    and "length (t_rows (db_publishers (w_db w'))) = length (t_rows (db_publishers (w_db w))) + length ps"
proof -
  let ?data = "PyDict [(''authors'', PyList as), (''books'', PyList bs), (''publishers'', PyList ps)]"
  have aok: "\<forall>a \<in> set as. \<exists>r. model_init author_fields a = Inr r \<and> storable author_fields r"
  proof
    fix a assume "a \<in> set as"
    with ra have ok: "author_record_ok a" by (simp add: list_all_iff)
    with author_record_init obtain r where r: "model_init author_fields a = Inr r"
      and "list_all (\<lambda>kv. snd kv \<noteq> PyNone) r" by blast
    with author_record_row [OF ok r] show "\<exists>r. model_init author_fields a = Inr r \<and> storable author_fields r"
      by (auto simp: storable_def no_none_def bind_ok_def author_fields_def field_def)
  qed
  have bok: "\<forall>b \<in> set bs. \<forall>k. \<exists>r. sbind (py_setitem b ''author'' (PyInst ''Author'' k)) (model_init book_fields) = Inr r \<and>
                                storable book_fields r"
  proof (intro ballI allI)
    fix b k assume b: "b \<in> set bs"
    with rb have ok: "book_record_ok b" by (simp add: list_all_iff)
    from book_record_init [OF ok, of k] obtain r
      where r: "sbind (py_setitem b ''author'' (PyInst ''Author'' k)) (model_init book_fields) = Inr r"
      and "list_all (\<lambda>kv. snd kv \<noteq> PyNone) r" by blast
    with book_record_row [OF ok r]
    show "\<exists>r. sbind (py_setitem b ''author'' (PyInst ''Author'' k)) (model_init book_fields) = Inr r \<and>
              storable book_fields r" by (auto simp: storable_def no_none_def bind_ok_def book_fields_def field_def)
  qed
  have pok: "\<forall>p \<in> set ps. \<exists>r. model_init publisher_fields p = Inr r \<and> storable publisher_fields r"
  proof
    fix p assume "p \<in> set ps"
    with rp have ok: "publisher_record_ok p" by (simp add: list_all_iff)
    with publisher_record_init obtain r where r: "model_init publisher_fields p = Inr r"
      and "list_all (\<lambda>kv. snd kv \<noteq> PyNone) r" by blast
    with publisher_record_row [OF ok r] show "\<exists>r. model_init publisher_fields p = Inr r \<and> storable publisher_fields r"
      by (auto simp: storable_def no_none_def bind_ok_def publisher_fields_def field_def)
  qed
  have eq: "map (\<lambda>b. Some (book_isbn b)) bs = map (\<lambda>b. Some (dict_get b ''isbn'')) bs"
  proof (rule map_cong [OF refl])
    fix b assume "b \<in> set bs"
    with rb have ok: "book_record_ok b" by (simp add: list_all_iff)
    from book_record_init [OF ok, of 0] obtain r
      where "sbind (py_setitem b ''author'' (PyInst ''Author'' 0)) (model_init book_fields) = Inr r" by blast
    from book_record_row [OF ok this] show "Some (book_isbn b) = Some (dict_get b ''isbn'')" by simp
  qed
  have isbn': "distinct (map (\<lambda>r. map_of r ''isbn'') (map snd (t_rows (db_books (w_db w)))) @
                        map (\<lambda>b. Some (book_isbn b)) bs)" using isbn by (simp only: eq)
  obtain w' ras rbs rps where run: "import_to_database rs ?data w =
      (Inr (PyDict [(''authors'', PyInt (int (length as))), (''books'', PyInt (int (length bs))),
                    (''publishers'', PyInt (int (length ps)))]), w')"
    and wf': "db_wf (w_db w')"
    and A: "map snd (t_rows (db_authors (w_db w'))) = map snd (t_rows (db_authors (w_db w))) @ ras"
    and A2: "list_all2 (\<lambda>a r. \<exists>r0. model_init author_fields a = Inr r0 \<and> prep_row author_fields r0 = Inr r) as ras"
    and B: "map snd (t_rows (db_books (w_db w'))) = map snd (t_rows (db_books (w_db w))) @ rbs"
    and B2: "list_all2 (\<lambda>b r. \<exists>k r0. sbind (py_setitem b ''author'' (PyInst ''Author'' k)) (model_init book_fields) = Inr r0 \<and>
                                   prep_row book_fields r0 = Inr r) bs rbs"
    and P: "map snd (t_rows (db_publishers (w_db w'))) = map snd (t_rows (db_publishers (w_db w))) @ rps"
    and P2: "\<forall>r \<in> set rps. \<exists>p \<in> set ps. \<exists>r0. model_init publisher_fields p = Inr r0 \<and> prep_row publisher_fields r0 = Inr r"
    and P3: "length rps = length ps"
    by (rule import_to_database_ok [where data = ?data, OF src wf _ aok _ bok isbn' auth _ pok]) simp_all
  have A3: "list_all2 (\<lambda>a r. model_init author_fields a = Inr r) as ras"
  proof (rule list_all2_mono_set [OF A2], elim exE conjE)
    fix a r r0 assume "a \<in> set as" and i: "model_init author_fields a = Inr r0"
      and "prep_row author_fields r0 = Inr r"
    with ra author_record_row [OF _ i] show "model_init author_fields a = Inr r" by (simp add: list_all_iff)
  qed
  have B3: "list_all2 (\<lambda>b r. \<exists>k. sbind (py_setitem b ''author'' (PyInst ''Author'' k)) (model_init book_fields) = Inr r) bs rbs"
  proof (rule list_all2_mono_set [OF B2], elim exE conjE)
    fix b r k r0 assume "b \<in> set bs" and i: "sbind (py_setitem b ''author'' (PyInst ''Author'' k)) (model_init book_fields) = Inr r0"
      and "prep_row book_fields r0 = Inr r"
    with rb book_record_row [OF _ i]
    show "\<exists>k. sbind (py_setitem b ''author'' (PyInst ''Author'' k)) (model_init book_fields) = Inr r"
      by (auto simp: list_all_iff)
  qed
  have P3': "\<forall>r \<in> set rps. \<exists>p \<in> set ps. model_init publisher_fields p = Inr r"
  proof
    fix r assume "r \<in> set rps"
    with P2 obtain p r0 where "p \<in> set ps" and i: "model_init publisher_fields p = Inr r0"
      and "prep_row publisher_fields r0 = Inr r" by blast
    with rp publisher_record_row [OF _ i] show "\<exists>p \<in> set ps. model_init publisher_fields p = Inr r"
      by (auto simp: list_all_iff)
  qed
  have "list_all author_exportable ras"
    using A3 ra by (auto simp: list_all_iff dest!: list_all2_in_set2 dest: author_record_row)
  moreover have "list_all book_exportable rbs"
    using B3 rb by (auto simp: list_all_iff dest!: list_all2_in_set2 dest: book_record_row)
  moreover have "list_all publisher_exportable rps"
    using P3' rp by (auto simp: list_all_iff dest: publisher_record_row)
  ultimately have "exportable (w_db w')"
    using ex A B P by (simp add: exportable_def)
  moreover have "list_all2 (\<lambda>b r. field_value r ''title'' = dict_get b ''title'') bs rbs"
    using B3 by (rule list_all2_mono_set) (use rb in \<open>auto simp: list_all_iff dest: book_record_row\<close>)
  moreover have "length (t_rows (db_authors (w_db w'))) = length (t_rows (db_authors (w_db w))) + length as"
    using arg_cong [OF A, of length] list_all2_lengthD [OF A3] by simp
  moreover have "length (t_rows (db_publishers (w_db w'))) = length (t_rows (db_publishers (w_db w))) + length ps"
    using arg_cong [OF P, of length] P3 by simp
  ultimately show thesis using that run wf' B by blast
qed

text \<open>A publisher the import created lists \<open>min(10, n)\<close> titles, \<open>n\<close> the
  number of stored books.\<close>

lemma new_publisher_titles:
  assumes "publishers_done w2 qs w'" and "k \<in> set (table_keys (db_publishers (w_db w')))"
    and "k \<notin> set (table_keys (db_publishers (w_db w2)))"
  shows "length (book_titles (w_db w') k) = min 10 (length (t_rows (db_books (w_db w'))))"
proof -
  from assms have "set (related_books k (w_db w')) \<subseteq> set (table_keys (db_books (w_db w')))"
    and "length (related_books k (w_db w')) = min 10 (length (t_rows (db_books (w_db w'))))"
    by (simp_all add: publishers_done_def)
  then show ?thesis by (simp add: book_titles_length)
qed

text \<open>When the publishers were created into a store with none, each exported
  publisher lists \<open>min(10, n)\<close> titles of the \<open>n\<close> imported books.\<close>

lemma fresh_publishers_titles:
  assumes pdone: "publishers_done w2 qs w'" and fresh: "table_keys (db_publishers (w_db w2)) = []"
    and b': "map snd (t_rows (db_books (w_db w'))) = rows"
    and t: "list_all2 (\<lambda>b r. field_value r ''title'' = dict_get b ''title'') bs rows"
  shows "list_all (\<lambda>p. \<exists>ts. dict_get p ''books'' = PyList ts \<and> length ts = min 10 (length bs) \<and>
                        set ts \<subseteq> set (map (\<lambda>b. dict_get b ''title'') bs))
          (map (\<lambda>kr. PyDict [(''name'', field_value (snd kr) ''name''),
                      (''address'', field_value (snd kr) ''address''), (''website'', field_value (snd kr) ''website''),
                      (''contact_email'', field_value (snd kr) ''contact_email''),
                      (''books'', PyList (book_titles (w_db w') (fst kr)))]) (t_rows (db_publishers (w_db w'))))"
proof (unfold list_all_iff, intro ballI)
  have nb: "length (t_rows (db_books (w_db w'))) = length bs"
    using arg_cong [OF b', of length] list_all2_lengthD [OF t] by simp
  fix p assume "p \<in> set (map (\<lambda>kr. PyDict [(''name'', field_value (snd kr) ''name''),
                      (''address'', field_value (snd kr) ''address''), (''website'', field_value (snd kr) ''website''),
                      (''contact_email'', field_value (snd kr) ''contact_email''),
                      (''books'', PyList (book_titles (w_db w') (fst kr)))]) (t_rows (db_publishers (w_db w'))))"
  then obtain kr where kr: "kr \<in> set (t_rows (db_publishers (w_db w')))"
    and p: "dict_get p ''books'' = PyList (book_titles (w_db w') (fst kr))" by (auto simp: dict_get_def)
  from kr have "fst kr \<in> set (table_keys (db_publishers (w_db w')))" by (simp add: table_keys_def)
  with fresh have "length (book_titles (w_db w') (fst kr)) = min 10 (length bs)"
    using new_publisher_titles [OF pdone] nb by simp
  moreover have "set (book_titles (w_db w') (fst kr)) \<subseteq> set (map (\<lambda>b. dict_get b ''title'') bs)"
  proof
    fix x assume "x \<in> set (book_titles (w_db w') (fst kr))"
    then obtain br where "br \<in> set rows" and "x = field_value br ''title''"
      using b' by (auto dest: book_titles_stored)
    with t show "x \<in> set (map (\<lambda>b. dict_get b ''title'') bs)" by (auto dest: list_all2_in_set2)
  qed
  ultimately show "\<exists>ts. dict_get p ''books'' = PyList ts \<and> length ts = min 10 (length bs) \<and>
                        set ts \<subseteq> set (map (\<lambda>b. dict_get b ''title'') bs)" using p by blast
qed

section \<open>Main raises at the import\<close>

lemma clean_generated:
  "clean_raw_data (PyDict [(''authors'', a), (''books'', b), (''publishers'', p)]) =
     Inr (PyList [PyStr ''authors'', PyStr ''books'', PyStr ''publishers''])"
  by (simp add: clean_raw_data_def clean_item_def clean_isbn_def clean_price_def clean_pages_def)

lemma import_list_raises: "import_to_database rs (PyList xs) w = (Inl TypeError, w)"
  by (simp add: import_to_database_def import_authors_def author_rows_def ebind_def)

text \<open>C24 (spec sections 4.5 and 6): on a random source that keeps its
  contract, \<open>main\<close> never reaches the export.  The generator returns its dict,
  the cleaner iterates the dict's keys and returns the list of the three key
  names, and \<open>import_to_database\<close> raises \<open>TypeError\<close> at
  \<open>data['authors']\<close>.  The run ends after the third progress line with the
  store and the export file as they were; only the Faker provider and the random
  state have moved.\<close>

theorem main_raises_at_import:
  fixes rs :: "'r random_source" and s :: "('g, 'r) prog"
  assumes "source_ok rs"
  shows "\<exists>g r. main fk rs s =
           (Inl TypeError, s\<lparr>pg_fake := g, pg_rng := r, pg_out := pg_out s @ [Generating, Cleaning, Importing]\<rparr>)"
proof -
  obtain as bs ps t where gen: "generate_sample_data fk rs 25 \<lparr>gs_fake = pg_fake s, gs_rng = pg_rng s\<rparr> =
      (Inr (PyDict [(''authors'', PyList as), (''books'', PyList bs), (''publishers'', PyList ps)]), t)"
    using generate_ok [OF assms] by blast
  show ?thesis
    by (simp add: main_def ebind_def say_def in_gen_def in_world_def elift_def gen clean_generated import_list_raises) blast
qed

theorem main_raises_at_import_witness:
  "\<exists>g r. main const_faker zero_source \<lparr>pg_fake = (), pg_rng = (), pg_db = empty_db, pg_out = [], pg_file = None\<rparr> =
     (Inl TypeError, \<lparr>pg_fake = g, pg_rng = r, pg_db = empty_db, pg_out = [Generating, Cleaning, Importing], pg_file = None\<rparr>)"
  using main_raises_at_import [OF zero_source_ok, of const_faker
      "\<lparr>pg_fake = (), pg_rng = (), pg_db = empty_db, pg_out = [], pg_file = None\<rparr>"]
  by simp

section \<open>Import, then export\<close>

text \<open>C25 (spec section 8, round trip): records of the generator's shape with
  new, distinct ISBNs, imported into a well-formed exportable store and exported
  straight after, give an export whose three lengths are the rows the store held
  before plus the importer's counts.  So they equal the importer's counts
  exactly when the store was empty.\<close>

theorem import_export_roundtrip:
  fixes rs :: "'r random_source" and w :: "'r world"
  assumes "source_ok rs" and "db_wf (w_db w)" and "exportable (w_db w)"
    and "list_all author_record_ok as" and "list_all book_record_ok bs" and "list_all publisher_record_ok ps"
    and "distinct (map (\<lambda>r. map_of r ''isbn'') (map snd (t_rows (db_books (w_db w)))) @
                   map (\<lambda>b. Some (dict_get b ''isbn'')) bs)"
    and "bs \<noteq> [] \<longrightarrow> as \<noteq> [] \<or> t_rows (db_authors (w_db w)) \<noteq> []"
  shows "\<exists>w' doc. import_to_database rs (PyDict [(''authors'', PyList as), (''books'', PyList bs), (''publishers'', PyList ps)]) w =
      (Inr (PyDict [(''authors'', PyInt (int (length as))), (''books'', PyInt (int (length bs))),
                    (''publishers'', PyInt (int (length ps)))]), w') \<and>
    export_from_database (w_db w') =
      Inr (doc, length (t_rows (db_authors (w_db w))) + length as, length (t_rows (db_books (w_db w))) + length bs,
           length (t_rows (db_publishers (w_db w))) + length ps)"
proof -
  obtain w' rows where run: "import_to_database rs (PyDict [(''authors'', PyList as), (''books'', PyList bs), (''publishers'', PyList ps)]) w =
      (Inr (PyDict [(''authors'', PyInt (int (length as))), (''books'', PyInt (int (length bs))),
                    (''publishers'', PyInt (int (length ps)))]), w')"
    and wf: "db_wf (w_db w')" and ex: "exportable (w_db w')"
    and a: "length (t_rows (db_authors (w_db w'))) = length (t_rows (db_authors (w_db w))) + length as"
    and b: "map snd (t_rows (db_books (w_db w'))) = map snd (t_rows (db_books (w_db w))) @ rows"
    and t: "list_all2 (\<lambda>b r. field_value r ''title'' = dict_get b ''title'') bs rows"
    and p: "length (t_rows (db_publishers (w_db w'))) = length (t_rows (db_publishers (w_db w))) + length ps"
    by (rule import_generated [OF assms])
  have "length (t_rows (db_books (w_db w'))) = length (t_rows (db_books (w_db w))) + length bs"
    using arg_cong [OF b, of length] list_all2_lengthD [OF t] by simp
  moreover obtain ads bds where "export_from_database (w_db w') =
      Inr (PyDict [(''authors'', PyList ads), (''books'', PyList bds),
                   (''publishers'', PyList (map (\<lambda>kr. PyDict [(''name'', field_value (snd kr) ''name''),
                      (''address'', field_value (snd kr) ''address''), (''website'', field_value (snd kr) ''website''),
                      (''contact_email'', field_value (snd kr) ''contact_email''),
                      (''books'', PyList (book_titles (w_db w') (fst kr)))]) (t_rows (db_publishers (w_db w')))))],
           length (t_rows (db_authors (w_db w'))), length (t_rows (db_books (w_db w'))), length (t_rows (db_publishers (w_db w'))))"
    by (rule export_from_database_ok [OF wf ex])
  ultimately show ?thesis using run a p by (intro exI conjI) simp_all
qed

theorem import_export_roundtrip_witness:
  "\<exists>w' doc. import_to_database zero_source (sample_data [sample_author]) start_world =
      (Inr (PyDict [(''authors'', PyInt 1), (''books'', PyInt 1), (''publishers'', PyInt 1)]), w') \<and>
    export_from_database (w_db w') = Inr (doc, 1, 1, 1)"
proof -
  have ra: "list_all author_record_ok [sample_author]"
    by (simp add: sample_author_def author_record_ok_def dict_keys_def dict_get_def)
  have rb: "list_all book_record_ok [sample_book]"
    by (simp add: sample_book_def book_record_ok_def dict_keys_def dict_get_def genre_choices_def
        pages_ok_def price_ok_def)
  have rp: "list_all publisher_record_ok [sample_publisher]"
    by (simp add: sample_publisher_def publisher_record_ok_def dict_keys_def dict_get_def)
  show ?thesis
    using import_export_roundtrip [OF zero_source_ok _ _ ra rb rp, of start_world]
    by (simp add: sample_data_def start_world_def empty_db_wf empty_db_exportable)
      (simp add: empty_db_def empty_table_def)
qed

section \<open>The scenario of the specification\<close>

text \<open>C26 (spec section 8, scenario): the \<open>n\<close> records the generator
  returns, when their ISBNs are distinct, are imported into an empty store
  (drawing from the random state the generator left), with counts \<open>n\<close>, \<open>n\<close>
  and \<open>min(5, n)\<close>; the export that follows returns as many entries, and the
  \<open>books\<close> list of each publisher holds \<open>min(10, n)\<close> titles, each the title of
  a generated book.  With \<open>n = 25\<close>, as \<open>main\<close> asks, that is 25, 25 and 5
  entries and 10 titles per publisher.\<close>

theorem generate_import_export:
  fixes rs :: "'r random_source" and s :: "('g, 'r) gen_state"
  assumes src: "source_ok rs"
    and gen: "generate_sample_data fk rs n s =
               (Inr (PyDict [(''authors'', PyList as), (''books'', PyList bs), (''publishers'', PyList ps)]), s')"
    and isbn: "distinct (map (\<lambda>b. dict_get b ''isbn'') bs)"
  shows "\<exists>w' ads bds pds.
    import_to_database rs (PyDict [(''authors'', PyList as), (''books'', PyList bs), (''publishers'', PyList ps)])
        \<lparr>w_db = empty_db, w_rng = gs_rng s'\<rparr> =
      (Inr (PyDict [(''authors'', PyInt (int (nat n))), (''books'', PyInt (int (nat n))),
                    (''publishers'', PyInt (int (nat (min 5 n))))]), w') \<and>
    export_from_database (w_db w') =
      Inr (PyDict [(''authors'', PyList ads), (''books'', PyList bds), (''publishers'', PyList pds)],
           nat n, nat n, nat (min 5 n)) \<and>
    list_all (\<lambda>p. \<exists>ts. dict_get p ''books'' = PyList ts \<and> length ts = min 10 (nat n) \<and>
                        set ts \<subseteq> set (map (\<lambda>b. dict_get b ''title'') bs)) pds"
proof -
  let ?w0 = "\<lparr>w_db = empty_db, w_rng = gs_rng s'\<rparr> :: 'r world"
  let ?data = "PyDict [(''authors'', PyList as), (''books'', PyList bs), (''publishers'', PyList ps)]"
  from generate_ok [OF src, of fk n s] gen have la: "length as = nat n" and lb: "length bs = nat n"
    and lp: "length ps = nat (min 5 n)" and ra: "list_all author_record_ok as" and rb: "list_all book_record_ok bs"
    and rp: "list_all publisher_record_ok ps" by auto
  have wf0: "db_wf (w_db ?w0)" by (simp add: empty_db_wf)
  have ex0: "exportable (w_db ?w0)" by (simp add: empty_db_exportable)
  have "distinct (map Some (map (\<lambda>b. dict_get b ''isbn'') bs))"
    using isbn by (simp only: distinct_map inj_Some)
  then have isbn0: "distinct (map (\<lambda>r. map_of r ''isbn'') (map snd (t_rows (db_books (w_db ?w0)))) @
                              map (\<lambda>b. Some (dict_get b ''isbn'')) bs)"
    by (simp add: empty_db_def empty_table_def comp_def)
  have auth0: "bs \<noteq> [] \<longrightarrow> as \<noteq> [] \<or> t_rows (db_authors (w_db ?w0)) \<noteq> []" using la lb by auto
  obtain w' rows where run: "import_to_database rs ?data ?w0 =
      (Inr (PyDict [(''authors'', PyInt (int (length as))), (''books'', PyInt (int (length bs))),
                    (''publishers'', PyInt (int (length ps)))]), w')"
    and wf: "db_wf (w_db w')" and ex: "exportable (w_db w')"
    and a: "length (t_rows (db_authors (w_db w'))) = length (t_rows (db_authors (w_db ?w0))) + length as"
    and b: "map snd (t_rows (db_books (w_db w'))) = map snd (t_rows (db_books (w_db ?w0))) @ rows"
    and t: "list_all2 (\<lambda>b r. field_value r ''title'' = dict_get b ''title'') bs rows"
    and p: "length (t_rows (db_publishers (w_db w'))) = length (t_rows (db_publishers (w_db ?w0))) + length ps"
    by (rule import_generated [OF src wf0 ex0 ra rb rp isbn0 auth0])
  have b': "map snd (t_rows (db_books (w_db w'))) = rows" using b by (simp add: empty_db_def empty_table_def)
  have nb: "length (t_rows (db_books (w_db w'))) = nat n"
    using arg_cong [OF b', of length] list_all2_lengthD [OF t] lb by simp
  obtain ads bds where exp: "export_from_database (w_db w') =
      Inr (PyDict [(''authors'', PyList ads), (''books'', PyList bds),
                   (''publishers'', PyList (map (\<lambda>kr. PyDict [(''name'', field_value (snd kr) ''name''),
                      (''address'', field_value (snd kr) ''address''), (''website'', field_value (snd kr) ''website''),
                      (''contact_email'', field_value (snd kr) ''contact_email''),
                      (''books'', PyList (book_titles (w_db w') (fst kr)))]) (t_rows (db_publishers (w_db w')))))],
           length (t_rows (db_authors (w_db w'))), length (t_rows (db_books (w_db w'))), length (t_rows (db_publishers (w_db w'))))"
    by (rule export_from_database_ok [OF wf ex])
  from run obtain w2 qs where pdone: "publishers_done w2 qs w'"
    and pub2: "db_publishers (w_db w2) = db_publishers (w_db ?w0)"
    using import_to_database_publishers [OF src wf0] by blast
  have "length bs = nat n" by (rule lb)
  with fresh_publishers_titles [OF pdone _ b' t] pub2
  have "list_all (\<lambda>p. \<exists>ts. dict_get p ''books'' = PyList ts \<and> length ts = min 10 (nat n) \<and>
                        set ts \<subseteq> set (map (\<lambda>b. dict_get b ''title'') bs))
          (map (\<lambda>kr. PyDict [(''name'', field_value (snd kr) ''name''),
                      (''address'', field_value (snd kr) ''address''), (''website'', field_value (snd kr) ''website''),
                      (''contact_email'', field_value (snd kr) ''contact_email''),
                      (''books'', PyList (book_titles (w_db w') (fst kr)))]) (t_rows (db_publishers (w_db w'))))"
    by (simp add: empty_db_def empty_table_def table_keys_def)
  then show ?thesis
    using run exp a p nb la lb lp
    by (intro exI conjI) (simp_all add: empty_db_def empty_table_def)
qed

theorem generate_import_export_witness:
  "\<exists>w' ads bds pds.
    import_to_database zero_source sample_generated \<lparr>w_db = empty_db, w_rng = ()\<rparr> =
      (Inr (PyDict [(''authors'', PyInt 1), (''books'', PyInt 1), (''publishers'', PyInt 1)]), w') \<and>
    export_from_database (w_db w') =
      Inr (PyDict [(''authors'', PyList ads), (''books'', PyList bds), (''publishers'', PyList pds)], 1, 1, 1) \<and>
    list_all (\<lambda>p. \<exists>ts. dict_get p ''books'' = PyList ts \<and> length ts = 1 \<and> set ts \<subseteq> {PyStr ''T''}) pds"
  using generate_import_export [OF zero_source_ok sample_generate [unfolded sample_generated_def]]
  by (simp add: sample_generated_def sample_gen_state_def dict_get_def)

end
