(* ===== verification/Admin.thy ===== *)
theory Admin
  imports Store
begin

text \<open>
  The admin-site configuration \<open>src/myapp/admin.py\<close>: the options of the three
  registered \<open>ModelAdmin\<close> classes and of the inline \<open>BookInline\<close>, the
  system checks Django runs on them at start-up (each named by Django's check
  id), and what the inline does when a new book is saved from an author's page.
  (Line 2 of the file is a stray Markdown fence, a syntax error; the model reads
  the file without it.)
\<close>

section \<open>The options\<close>

text \<open>\<open>admin.TabularInline\<close>: the options \<open>BookInline\<close> sets.\<close>

record inline_admin =
  ia_model :: model
  ia_extra :: nat
  ia_fields :: "string list"
  ia_readonly :: "string list"

text \<open>\<open>admin.ModelAdmin\<close>: the options the three admin classes set.\<close>

record model_admin =
  ma_list_display :: "string list"
  ma_search_fields :: "string list"
  ma_list_filter :: "string list"
  ma_inlines :: "inline_admin list"
  ma_autocomplete :: "string list"
  ma_date_hierarchy :: "string option"
  ma_filter_horizontal :: "string list"

text \<open>The defaults of \<open>ModelAdmin\<close>: \<open>list_display = ('__str__',)\<close>, the
  other options empty.\<close>

definition admin_defaults :: model_admin where
  "admin_defaults = \<lparr>ma_list_display = [''__str__''], ma_search_fields = [], ma_list_filter = [],
                      ma_inlines = [], ma_autocomplete = [], ma_date_hierarchy = None,
                      ma_filter_horizontal = []\<rparr>"

text \<open>Lines 6--10.\<close>

definition book_inline :: inline_admin where
  "book_inline = \<lparr>ia_model = Book, ia_extra = 0,
                   ia_fields = [''title'', ''publication_date'', ''genre'', ''price''],
                   ia_readonly = [''publication_date'']\<rparr>"

text \<open>Lines 12--17, 19--25 and 27--31.\<close>

definition author_admin :: model_admin where
  "author_admin = admin_defaults\<lparr>ma_list_display := [''name'', ''country'', ''birth_date''],
                                 ma_search_fields := [''name'', ''country''],
                                 ma_list_filter := [''country''], ma_inlines := [book_inline]\<rparr>"

definition book_admin :: model_admin where
  "book_admin = admin_defaults\<lparr>ma_list_display := [''title'', ''author'', ''genre'', ''publication_date'', ''price''],
                               ma_list_filter := [''genre'', ''publication_date''],
                               ma_search_fields := [''title'', ''isbn''],
                               ma_autocomplete := [''author''],
                               ma_date_hierarchy := Some ''publication_date''\<rparr>"

definition publisher_admin :: model_admin where
  "publisher_admin = admin_defaults\<lparr>ma_list_display := [''name'', ''contact_email'', ''website''],
                                    ma_filter_horizontal := [''books''],
                                    ma_search_fields := [''name'', ''contact_email'']\<rparr>"

text \<open>The \<open>@admin.register\<close> decorators: the site's registry.\<close>

definition admin_site :: "(model \<times> model_admin) list" where
  "admin_site = [(Author, author_admin), (Book, book_admin), (Publisher, publisher_admin)]"

section \<open>Django's system checks\<close>

text \<open>\<open>Model._meta.get_field(name)\<close>, and the attributes a string option may
  name: a field, or \<open>__str__\<close>, which all three models define.\<close>

definition field_of :: "model \<Rightarrow> string \<Rightarrow> field_decl option" where
  "field_of m f = find (\<lambda>fd. fd_name fd = f) (model_fields m)"

definition model_attr :: "model \<Rightarrow> string \<Rightarrow> bool" where
  "model_attr m f \<longleftrightarrow> f = ''__str__'' \<or> field_of m f \<noteq> None"

text \<open>The errors: Django's check ids, and \<open>FieldError\<close>s raised when a form or
  a search names an unknown field.\<close>

datatype admin_error =
    E019 string | E020 string | E035 string | E037 string | E038 string | E039 string | E040 string
  | E108 string | E109 string | E116 string | E127 string | E128 string | E202 model
  | UnknownField string | UnknownSearchField string

definition check_list_display :: "model \<Rightarrow> model_admin \<Rightarrow> admin_error list" where
  "check_list_display m ma =
     concat (map (\<lambda>f. if \<not> model_attr m f then [E108 f]
                      else case field_of m f of
                             Some fd \<Rightarrow> if is_m2m (fd_kind fd) then [E109 f] else []
                           | None \<Rightarrow> []) (ma_list_display ma))"

definition check_list_filter :: "model \<Rightarrow> model_admin \<Rightarrow> admin_error list" where
  "check_list_filter m ma =
     concat (map (\<lambda>f. if field_of m f = None then [E116 f] else []) (ma_list_filter ma))"

definition check_search_fields :: "model \<Rightarrow> model_admin \<Rightarrow> admin_error list" where
  "check_search_fields m ma =
     concat (map (\<lambda>f. if field_of m f = None then [UnknownSearchField f] else []) (ma_search_fields ma))"

definition check_related_admin :: "(model \<times> model_admin) list \<Rightarrow> string \<Rightarrow> model \<Rightarrow> admin_error list" where
  "check_related_admin site f t =
     (case map_of site t of
        None \<Rightarrow> [E039 f]
      | Some ta \<Rightarrow> if ma_search_fields ta = [] then [E040 f] else [])"

definition check_autocomplete :: "(model \<times> model_admin) list \<Rightarrow> model \<Rightarrow> model_admin \<Rightarrow> admin_error list" where
  "check_autocomplete site m ma =
     concat (map (\<lambda>f. case field_of m f of
                        None \<Rightarrow> [E037 f]
                      | Some fd \<Rightarrow> (case fd_kind fd of
                                     ForeignKey t \<Rightarrow> check_related_admin site f t
                                   | ManyToManyField t \<Rightarrow> check_related_admin site f t
                                   | _ \<Rightarrow> [E038 f])) (ma_autocomplete ma))"

definition check_date_hierarchy :: "model \<Rightarrow> model_admin \<Rightarrow> admin_error list" where
  "check_date_hierarchy m ma =
     (case ma_date_hierarchy ma of
        None \<Rightarrow> []
      | Some f \<Rightarrow> (case field_of m f of
                    None \<Rightarrow> [E127 f]
                  | Some fd \<Rightarrow> if fd_kind fd = DateField then [] else [E128 f]))"

definition check_filter_horizontal :: "model \<Rightarrow> model_admin \<Rightarrow> admin_error list" where
  "check_filter_horizontal m ma =
     concat (map (\<lambda>f. case field_of m f of
                        None \<Rightarrow> [E019 f]
                      | Some fd \<Rightarrow> if is_m2m (fd_kind fd) then [] else [E020 f]) (ma_filter_horizontal ma))"

text \<open>An inline needs exactly one foreign key to the parent model (E202); its
  \<open>fields\<close> must name fields or read-only entries, and its
  \<open>readonly_fields\<close> attributes of the model (E035).\<close>

definition check_inline :: "model \<Rightarrow> inline_admin \<Rightarrow> admin_error list" where
  "check_inline m ia =
     (if length (filter (\<lambda>fd. fd_kind fd = ForeignKey m) (model_fields (ia_model ia))) = 1 then [] else [E202 m]) @
     concat (map (\<lambda>f. if f \<in> set (ia_readonly ia) \<or> field_of (ia_model ia) f \<noteq> None then [] else [UnknownField f])
                 (ia_fields ia)) @
     concat (map (\<lambda>f. if model_attr (ia_model ia) f then [] else [E035 f]) (ia_readonly ia))"

definition check_model_admin :: "(model \<times> model_admin) list \<Rightarrow> model \<Rightarrow> model_admin \<Rightarrow> admin_error list" where
  "check_model_admin site m ma =
     check_list_display m ma @ check_list_filter m ma @ check_search_fields m ma @
     check_autocomplete site m ma @ check_date_hierarchy m ma @ check_filter_horizontal m ma @
     concat (map (check_inline m) (ma_inlines ma))"

definition admin_checks :: "(model \<times> model_admin) list \<Rightarrow> admin_error list" where
  "admin_checks site = concat (map (\<lambda>(m, ma). check_model_admin site m ma) site)"

section \<open>Saving a new object from an inline\<close>

text \<open>A new row of the inline's form on the page of the parent with key \<open>k\<close>:
  the instance gets the foreign key to the parent and the values \<open>vs\<close> of the
  editable fields (the \<open>fields\<close> not read-only), every other column its
  default, and is inserted (\<open>formset.save()\<close>, then \<open>Model.save()\<close>).\<close>

definition inline_save_new :: "inline_admin \<Rightarrow> model \<Rightarrow> nat \<Rightarrow> pyval list \<Rightarrow> db \<Rightarrow> unit py \<times> db" where
  "inline_save_new ia parent k vs d =
     (case find (\<lambda>fd. fd_kind fd = ForeignKey parent) (model_fields (ia_model ia)) of
        None \<Rightarrow> (Inl ValueError, d)
      | Some fk \<Rightarrow>
          (let editable = filter (\<lambda>f. f \<notin> set (ia_readonly ia)) (ia_fields ia);
               kw = PyDict (zip editable vs @ [(fd_name fk, PyInst (model_name parent) k)])
           in case model_init (model_fields (ia_model ia)) kw of
                Inl e \<Rightarrow> (Inl e, d)
              | Inr r \<Rightarrow> insert_rows (ia_model ia) [r] d))"

section \<open>Lemmas\<close>

text \<open>A \<open>DecimalField\<close> conversion fails only with \<open>ValidationError\<close>.\<close>

lemma prep_value_decimal_Inl: "prep_value (DecimalField p s) v = Inl e \<Longrightarrow> e = ValidationError"
  by (auto split: pyval.splits pyfloat.splits option.splits)

text \<open>The definitions a save from the inline unfolds to: the instance, the
  conversion of its row, and the insert.\<close>

lemmas inline_save_simps = inline_save_new_def book_inline_def book_fields_def field_def model_init_def
  Let_def column_fields_def fk_value_ok_def field_default_def insert_rows_def prep_row_def
  db_insert_def row_ok_def bind_ok_def sqlite_int_ok_def

text \<open>The registered admin classes pass the system checks modelled here.\<close>

lemma admin_site_passes_checks: "admin_checks admin_site = []"
  by code_simp

section \<open>Properties\<close>

text \<open>C27: a book added from an author's page through \<open>BookInline\<close> is never
  saved, and the store is unchanged.  The inline's form leaves out \<open>isbn\<close>
  and \<open>pages\<close> and shows \<open>publication_date\<close> read-only, so the new row has
  no publication date and no page count.  The save first converts the row's
  values: the only one that can fail is the price typed into the form (the
  third editable field, \<open>None\<close> when not given), which raises
  \<open>ValidationError\<close> when it is not a decimal (in the admin, the form's own
  validation rejects such a price before the save); any price that converts
  leaves a row that violates \<open>NOT NULL\<close>, and the insert raises
  \<open>IntegrityError\<close>.\<close>

theorem book_inline_add_fails:
  "inline_save_new book_inline Author k vs d =
     (Inl (if isl (prep_value (DecimalField 6 2) (if 2 < length vs then vs ! 2 else PyNone))
           then ValidationError else IntegrityError), d)"
proof -
  consider "vs = []" | a where "vs = [a]" | a b where "vs = [a, b]" | a b c rest where "vs = a # b # c # rest"
    by (metis list.exhaust)
  then show ?thesis
  proof cases
    case 4
    then show ?thesis
      by (cases "prep_value (DecimalField 6 2) c")
         (auto simp: inline_save_simps simp del: prep_value.simps(3) dest: prep_value_decimal_Inl)
  qed (simp_all add: inline_save_simps)
qed

theorem book_inline_add_fails_witness:
  "inline_save_new book_inline Author 1 [PyStr ''T'', PyStr ''FIC'', PyStr ''12.50''] empty_db =
     (Inl IntegrityError, empty_db) \<and>
   inline_save_new book_inline Author 1 [PyStr ''T'', PyStr ''FIC'', PyStr ''abc''] empty_db =
     (Inl ValidationError, empty_db)"
proof -
  have v: "decimal_of_str ''12.50'' = Some (25 / 2)" by code_simp
  have i: "decimal_of_str ''abc'' = None" by code_simp
  show ?thesis
    using book_inline_add_fails [of 1 "[PyStr ''T'', PyStr ''FIC'', PyStr ''12.50'']" empty_db]
      book_inline_add_fails [of 1 "[PyStr ''T'', PyStr ''FIC'', PyStr ''abc'']" empty_db]
    by (simp add: v i)
qed

end
