(* ===== verification/Spec2Isabelle.thy ===== *)
theory Spec2Isabelle
  imports Pipeline Admin
begin

text \<open>
  \<^bold>\<open>A verification library for the library-catalog data pipeline.\<close>

  The repository is a Django application (\<open>src/myapp/models.py\<close>: the record
  kinds Author, Book, Publisher; \<open>src/myapp/admin.py\<close>: the admin-site
  configuration) and a script \<open>src/data_import_export.py\<close> that generates fake
  records (\<open>generate_sample_data\<close>), cleans them (\<open>clean_raw_data\<close>), loads them
  into the database through the ORM (\<open>import_to_database\<close>), exports the
  database to a JSON file (\<open>export_from_database\<close>) and runs these four steps in
  sequence (\<open>main\<close>).  The data flows between the steps as Python dicts and
  lists; the steps share the database.

  \<^bold>\<open>Theories.\<close>
  \<^item> \<open>Prelude\<close>: computations that may raise, as values of \<open>exception + result\<close>
    (\<open>sbind\<close>, \<open>try_except\<close>), the element-wise map \<open>smap\<close> of a fallible
    function (the reference meaning of the script's \<open>for\<close> loops), and lemmas on
    association lists used as insertion-ordered dicts (\<open>AList.update\<close>).
  \<^item> \<open>PyValue\<close>: the Python values the script handles (\<open>pyval\<close>: None, bool,
    int, float, str, date, list, dict, model instance), its exceptions
    (\<open>pyexc\<close>), and the built-in operations it applies: \<open>in\<close>
    (\<open>py_contains\<close>), subscription (\<open>py_getitem\<close>), item assignment
    (\<open>py_setitem\<close>), iteration (\<open>py_iter\<close>) and
    \<open>''.join(filter(str.isdigit, v))\<close> (\<open>join_filter_isdigit\<close>), each raising
    where CPython raises.
  \<^item> \<open>Coerce\<close>: \<open>float()\<close> (\<open>py_float\<close>) and \<open>int()\<close> (\<open>py_int\<close>) with the
    string grammars CPython accepts and their exceptions, including the
    \<open>OverflowError\<close>s that the script does not catch.
  \<^item> \<open>Cleaner\<close>: \<open>clean_raw_data\<close> (lines 20--43) as \<open>clean_isbn\<close>,
    \<open>clean_price\<close>, \<open>clean_pages\<close> (one per guarded block), the loop body
    \<open>clean_item\<close>, the loop \<open>clean_loop\<close> and the function \<open>clean_raw_data\<close>;
    the contract of spec section 4.2 as the field-by-field function
    \<open>clean_field\<close>; and the cleaner's properties (claims C1--C10): what
    happens to a dict given in place of a list (the defect of \<open>main\<close>),
    refinement of the contract, preservation of count and order, the values of
    the three cleaned fields, the untouched fields, when the cleaner returns,
    which exceptions escape it, and idempotence; and the concrete runs behind
    two findings (the exceptions against the spec's totality, the superscript
    digits \<open>str.isdigit\<close> keeps).
  \<^item> \<open>Schema\<close>: the model classes of \<open>src/myapp/models.py\<close> as field
    declarations (\<open>author_fields\<close>, \<open>book_fields\<close>, \<open>publisher_fields\<close>,
    the genre choices), and the model constructor \<open>model_init\<close>
    (\<open>Model(**kwargs)\<close>: keyword check, foreign-key value check, defaults).
  \<^item> \<open>Store\<close>: the database as a record of tables (rows with auto-increment
    keys) and the relation table of \<open>Publisher.books\<close>; the constraints SQLite
    enforces (\<open>row_ok\<close>, \<open>unique_ok\<close>); the conversion of every value by
    its field before the insert (\<open>prep_value\<close>, \<open>prep_row\<close>: Django's
    \<open>DateField\<close> date parsing, \<open>int()\<close> for the \<open>PositiveIntegerField\<close>,
    \<open>Decimal()\<close> for the \<open>DecimalField\<close>, raising \<open>ValidationError\<close>,
    \<open>TypeError\<close> or \<open>ValueError\<close>) and SQLite's 64-bit binding of
    integers (\<open>bind_ok\<close>); the ORM calls of the script
    (\<open>bulk_create\<close>, \<open>objects_all\<close>, \<open>objects_create\<close>, \<open>books_set\<close>,
    \<open>related_books\<close>); the store invariant \<open>db_wf\<close>, kept by every call on
    every outcome.
  \<^item> \<open>Random_Source\<close>: the random source injected as spec section 9 asks, with
    its contract \<open>source_ok\<close>; \<open>random.choice\<close> and \<open>random.sample\<close>
    (\<open>py_choice\<close>, \<open>py_sample\<close>) with CPython's checks; CPython's pool
    algorithm (\<open>pool_sample\<close>) proved to meet the contract for any
    \<open>_randbelow\<close> that stays in range.
  \<^item> \<open>Importer\<close>: \<open>import_to_database\<close> (lines 90--122) over a state
    \<open>world\<close> of the database and the generator, as the author, book and
    publisher phases with their loop bodies; the store invariant on every
    outcome (\<open>import_to_database_wf\<close>); claims C11--C16: the returned counts
    and the growth of the tables, \<open>min(10, n)\<close> distinct books per publisher,
    the \<open>TypeError\<close> on the list \<open>main\<close> passes, the empty-author-table
    scenario of the spec, atomicity of the book phase, and the empty-book-store
    case where the code does not fail although the spec says it does.

  \<^item> \<open>Import_Success\<close>: when the import returns.  Each phase returns
    (\<open>import_authors_ok\<close>, \<open>import_books_ok\<close>, \<open>import_publishers_ok\<close>,
    by the loop lemma \<open>emap_total_inv\<close> with a state invariant), and the
    whole run returns its counts (C23) when every record builds a row that the
    save converts to a complete row that binds, with no negative page count
    (\<open>storable\<close>), the new ISBNs are distinct and new, and there is an author
    to assign; each new row is traced to the record it was built from and
    converted from.
  \<^item> \<open>Exporter\<close>: \<open>export_from_database\<close> (lines 124--167) as a function of
    the store to the document and its three counts, with \<open>date.isoformat()\<close>
    (\<open>iso_date\<close>, \<open>dec_digits\<close>, \<open>pad_digits\<close>), the author-name and
    book-title reads, and \<open>json.dump\<close>'s \<open>TypeError\<close> on values without a
    JSON form (\<open>json_ok\<close>); claims C17--C19: the counts are the table sizes,
    the export returns on an exportable store, and every date it writes is read
    back to the same date by the models' \<open>DateField\<close> (\<open>prep_value\<close>).
  \<^item> \<open>Generator\<close>: \<open>generate_sample_data\<close> (lines 45--88) over an injected
    Faker provider (a record \<open>faker\<close> of the eleven methods the script calls)
    and the random source, with \<open>random.randint\<close>, \<open>random.uniform\<close> and
    \<open>round(x, 2)\<close> (half to even, on exact rationals); claims C20--C22: it
    returns \<open>n\<close>, \<open>n\<close>, \<open>min(5, n)\<close> records, their genres, pages and
    prices are in range, and every record is accepted by its model.
  \<^item> \<open>Pipeline\<close>: \<open>main\<close> (lines 169--191) over one state \<open>prog\<close> (Faker
    provider, the one \<open>random\<close> state the generator and the importer share,
    the store, the printed lines as \<open>report\<close>s, the export file); claims
    C24--C26: \<open>main\<close> raises \<open>TypeError\<close> at the import with nothing stored
    and no file written, importing then exporting gives counts equal to the
    rows stored before plus the importer's counts, and the scenario of the spec
    (25, 25, 5 entries, 10 titles per publisher) holds for the generator's
    records exactly when their ISBNs are distinct.

  \<^item> \<open>Admin\<close>: \<open>src/myapp/admin.py\<close> as the option records of the three
    registered \<open>ModelAdmin\<close> classes and of \<open>BookInline\<close>, the system checks
    Django runs on them at start-up (\<open>admin_checks\<close>, each error named by its
    check id), and the save of a new book from the inline
    (\<open>inline_save_new\<close>); the site passes the checks
    (\<open>admin_site_passes_checks\<close>); claim C27: a book added from an author's
    page is never saved, the store unchanged: a price that does not convert
    raises \<open>ValidationError\<close>, any other leaves no publication date and no page
    count, \<open>IntegrityError\<close>.

  \<^bold>\<open>How the parts interact.\<close>  The importer calls the store through
  \<open>on_db\<close> and the random source through \<open>on_rng\<close>; every call returns an
  outcome (a Python exception or a value) and the state reached, and an
  exception leaves the writes made before it in place, as the script runs
  without a transaction.  The importer's properties use only the store's lemmas
  (\<open>insert_rows_wf\<close>, \<open>books_set_wf\<close>, \<open>insert_rows_Inr\<close>, ...) and the
  contract \<open>source_ok\<close> of the random source, so they hold for every source
  meeting it, CPython's included (\<open>cpython_source_ok\<close>).  The generator, the
  importer and \<open>main\<close> draw from the same source.  The pipeline's theorems
  compose the components through their interface lemmas: the generator's
  record shape (\<open>generate_ok\<close>) meets the importer's conditions, its rows
  converting to themselves (\<open>import_generated\<close>), the importer keeps the store well formed and
  exportable, and the exporter returns on such a store
  (\<open>export_from_database_ok\<close>).

  \<^bold>\<open>Modelling choices.\<close>
  Python strings are lists of Isabelle characters read as the code points
  U+0000--U+00FF, classified as CPython classifies them (the superscript digits
  are \<open>str.isdigit\<close>).  A float is its exact decimal value or one of
  \<open>inf\<close>, \<open>-inf\<close>, \<open>nan\<close>; binary rounding and the sign of zero are not
  modelled.  Values are trees: the in-place mutation of the records by the
  cleaner is modelled by returning the updated record, which agrees with the
  source as long as no record is shared (and the cleaner is idempotent,
  C10, so a shared record is cleaned to the same value).  Dicts are
  association lists with distinct string keys.  No fuel is used: every loop of
  the program runs over a finite list, so every definition is total and
  computes (the sample runs of the theories are evaluated by \<open>code_simp\<close>).
  The database is a value: a table is its rows with their keys and its
  counter; a save converts the values as the fields' \<open>get_prep_value\<close> do and
  the rows stored are the converted ones; \<open>objects.all()\<close> returns rows in
  key order.  The random generator is a parameter (\<open>'r random_source\<close>);
  the properties assume only its contract.

  \<^bold>\<open>Not modelled.\<close>  The admin site's pages themselves (list views,
  search, filters: framework code the options configure) and the Django set-up
  lines 3--18 (initialisation);
  the text of the JSON file (only the document \<open>json.dump\<close> receives is
  modelled, and a dump that raises after truncating the file is not); the
  Chinese text of the printed lines; the content of Faker's strings and dates
  (any value the provider returns); \<open>str()\<close> of a non-string given to a text
  field, the rounding of prices to \<open>max_digits\<close> and \<open>decimal_places\<close>, the
  date forms only Python 3.11 accepts, and the field length limits, which SQLite
  does not enforce; the admin form's own validation of the values typed into
  it.
\<close>

end
